(* ===== verification/Prelude.thy ===== *)
theory Prelude
  imports Complex_Main "HOL-Library.List_Lexorder" "HOL-Library.AList"
begin

text \<open>
  Shared vocabulary of the development. A Python \<open>str\<close> is a list of Unicode code
  points (\<open>ustr\<close>), so that characters outside ASCII, such as the typographic
  apostrophe U+2019 of the misread-marker lexicon, are represented exactly; \<open>ascii\<close>
  turns an Isabelle string literal into such a list. Python float arithmetic is
  idealised as arithmetic on \<open>real\<close> (no rounding, no overflow); \<open>clip\<close> is
  \<open>numpy.clip\<close> on finite values. The \<open>named_theorems\<close> collections gather the
  evaluation and bound rules that the component theories share.
\<close>

named_theorems model_eval "evaluation rules of the model's executable definitions"
named_theorems bound_rules "bound lemmas of the metric computations"

type_synonym ustr = "nat list"

text \<open>The Python exceptions the modelled code can raise; the argument is the message or key.\<close>

datatype py_error =
    ValueError ustr | KeyError ustr | OverflowError ustr | FileNotFoundError ustr
  | UnicodeDecodeError ustr | IndexingError ustr | IndexError ustr

definition ascii :: "string \<Rightarrow> ustr" where
  "ascii s = map of_char s"

definition clip :: "real \<Rightarrow> real \<Rightarrow> real \<Rightarrow> real" where
  "clip lo hi x = min hi (max x lo)"

lemma ascii_simps [simp, model_eval]:
  "ascii [] = []" "ascii (c # s) = of_char c # ascii s" "ascii (s @ t) = ascii s @ ascii t"
  by (simp_all add: ascii_def)

lemma length_ascii [simp]: "length (ascii s) = length s"
  by (simp add: ascii_def)

lemma clip_lower [bound_rules]: "lo \<le> hi \<Longrightarrow> lo \<le> clip lo hi x"
  by (simp add: clip_def)

lemma clip_upper [bound_rules]: "lo \<le> hi \<Longrightarrow> clip lo hi x \<le> hi"
  by (simp add: clip_def)

lemma clip_within: "lo \<le> hi \<Longrightarrow> lo \<le> clip lo hi x \<and> clip lo hi x \<le> hi"
  by (simp add: clip_def)

lemma clip_id [simp]: "lo \<le> x \<Longrightarrow> x \<le> hi \<Longrightarrow> clip lo hi x = x"
  by (simp add: clip_def)

lemma clip_mono: "x \<le> y \<Longrightarrow> clip lo hi x \<le> clip lo hi y"
  by (simp add: clip_def)

lemma clip_below [simp]: "x \<le> lo \<Longrightarrow> lo \<le> hi \<Longrightarrow> clip lo hi x = lo"
  by (simp add: clip_def)

lemma clip_above [simp]: "hi \<le> x \<Longrightarrow> lo \<le> hi \<Longrightarrow> clip lo hi x = hi"
  by (simp add: clip_def)

text \<open>Sums of lists of reals, as \<open>numpy.sum\<close> and \<open>pandas.Series.sum\<close> compute them.\<close>

lemma sum_list_map_divide:
  "sum_list (map (\<lambda>x. f x / (c::real)) xs) = sum_list (map f xs) / c"
  by (induction xs) (auto simp: add_divide_distrib)

lemma of_nat_sum_list_map:
  "real (sum_list (map f xs)) = sum_list (map (\<lambda>x. real (f x)) xs)"
  by (induction xs) auto

end
