(* ===== verification/Py_Float.thy ===== *)
theory Py_Float
  imports Prelude
begin

text \<open>
  Python (and numpy) floats with their special values. A finite value is an exact
  real (rounding to binary64 is not modelled); the special values \<open>inf\<close>, \<open>-inf\<close>
  and \<open>nan\<close> are kept, because Python's \<open>float()\<close> accepts the spellings
  \<open>inf\<close>, \<open>infinity\<close> and \<open>nan\<close> in the timestamp fields that
  \<open>duration_seconds\<close> parses (src/src/preprocess.py), and they flow from there
  into the Energy score. The operations follow IEEE 754 as Python and numpy implement it:
  \<open>nan\<close> propagates, \<open>inf - inf\<close> is \<open>nan\<close>, every comparison with \<open>nan\<close> is
  false; Python's \<open>min(a, b)\<close> and \<open>max(a, b)\<close> keep \<open>a\<close> unless \<open>b\<close> compares
  strictly smaller (larger); \<open>numpy.clip\<close> propagates \<open>nan\<close>.
\<close>

datatype pyfloat = Fin real | PInf | NInf | NaN

fun pf_neg :: "pyfloat \<Rightarrow> pyfloat" where
  "pf_neg (Fin a) = Fin (- a)"
| "pf_neg PInf = NInf"
| "pf_neg NInf = PInf"
| "pf_neg NaN = NaN"

fun pf_add :: "pyfloat \<Rightarrow> pyfloat \<Rightarrow> pyfloat" where
  "pf_add (Fin a) (Fin b) = Fin (a + b)"
| "pf_add NaN _ = NaN"
| "pf_add _ NaN = NaN"
| "pf_add PInf NInf = NaN"
| "pf_add NInf PInf = NaN"
| "pf_add PInf _ = PInf"
| "pf_add NInf _ = NInf"
| "pf_add (Fin _) y = y"

definition pf_sub :: "pyfloat \<Rightarrow> pyfloat \<Rightarrow> pyfloat" where
  "pf_sub x y = pf_add x (pf_neg y)"

text \<open>The sign of an infinite product or quotient, from the signs of the operands.\<close>

definition pf_inf :: "bool \<Rightarrow> pyfloat" where
  "pf_inf neg = (if neg then NInf else PInf)"

fun pf_sign :: "pyfloat \<Rightarrow> real" where
  "pf_sign (Fin a) = sgn a"
| "pf_sign PInf = 1"
| "pf_sign NInf = -1"
| "pf_sign NaN = 0"

fun pf_mul :: "pyfloat \<Rightarrow> pyfloat \<Rightarrow> pyfloat" where
  "pf_mul (Fin a) (Fin b) = Fin (a * b)"
| "pf_mul NaN _ = NaN"
| "pf_mul _ NaN = NaN"
| "pf_mul x y =
     (if pf_sign x = 0 \<or> pf_sign y = 0 then NaN else pf_inf (pf_sign x * pf_sign y < 0))"

text \<open>
  Division as numpy performs it on \<open>float64\<close> (the divisions of the metric code are on
  numpy scalars): a finite non-zero value over zero is an infinity, \<open>0/0\<close> is \<open>nan\<close>.
\<close>

fun pf_div :: "pyfloat \<Rightarrow> pyfloat \<Rightarrow> pyfloat" where
  "pf_div (Fin a) (Fin b) =
     (if b \<noteq> 0 then Fin (a / b) else if a = 0 then NaN else pf_inf (a < 0))"
| "pf_div NaN _ = NaN"
| "pf_div _ NaN = NaN"
| "pf_div (Fin _) _ = Fin 0"
| "pf_div PInf (Fin b) = pf_inf (b < 0)"
| "pf_div NInf (Fin b) = pf_inf (0 \<le> b)"
| "pf_div _ _ = NaN"

fun pf_less :: "pyfloat \<Rightarrow> pyfloat \<Rightarrow> bool" where
  "pf_less (Fin a) (Fin b) = (a < b)"
| "pf_less NaN _ = False"
| "pf_less _ NaN = False"
| "pf_less NInf y = (y \<noteq> NInf)"
| "pf_less (Fin _) y = (y = PInf)"
| "pf_less PInf _ = False"

text \<open>Equality as Python's \<open>==\<close>: \<open>nan\<close> equals nothing.\<close>

fun pf_eq :: "pyfloat \<Rightarrow> pyfloat \<Rightarrow> bool" where
  "pf_eq NaN _ = False"
| "pf_eq _ NaN = False"
| "pf_eq x y = (x = y)"

definition py_min :: "pyfloat \<Rightarrow> pyfloat \<Rightarrow> pyfloat" where
  "py_min a b = (if pf_less b a then b else a)"

definition py_max :: "pyfloat \<Rightarrow> pyfloat \<Rightarrow> pyfloat" where
  "py_max a b = (if pf_less a b then b else a)"

text \<open>\<open>numpy.clip(x, lo, hi)\<close> for finite bounds \<open>lo \<le> hi\<close>.\<close>

fun np_clip :: "pyfloat \<Rightarrow> real \<Rightarrow> real \<Rightarrow> pyfloat" where
  "np_clip (Fin x) lo hi = Fin (clip lo hi x)"
| "np_clip PInf lo hi = Fin hi"
| "np_clip NInf lo hi = Fin lo"
| "np_clip NaN lo hi = NaN"

text \<open>The values a duration can take: finite and non-negative, or \<open>inf\<close>.\<close>

fun nonneg_or_inf :: "pyfloat \<Rightarrow> bool" where
  "nonneg_or_inf (Fin a) = (0 \<le> a)"
| "nonneg_or_inf PInf = True"
| "nonneg_or_inf _ = False"

text \<open>A finite value inside the closed interval \<open>[lo, hi]\<close>.\<close>

fun fin_within :: "real \<Rightarrow> real \<Rightarrow> pyfloat \<Rightarrow> bool" where
  "fin_within lo hi (Fin a) = (lo \<le> a \<and> a \<le> hi)"
| "fin_within lo hi _ = False"

lemmas pf_defs [model_eval] = pf_sub_def pf_inf_def py_min_def py_max_def

lemma pf_add_nonneg_or_inf [intro]:
  "nonneg_or_inf x \<Longrightarrow> nonneg_or_inf y \<Longrightarrow> nonneg_or_inf (pf_add x y)"
  by (cases x; cases y) auto

lemma py_max_zero_nonneg_or_inf [intro]: "nonneg_or_inf (py_max (Fin 0) x)"
  by (cases x) (auto simp: py_max_def)

lemma py_min_Fin [simp]: "py_min (Fin a) (Fin b) = Fin (min a b)"
  by (auto simp: py_min_def)

lemma py_max_Fin [simp]: "py_max (Fin a) (Fin b) = Fin (max a b)"
  by (auto simp: py_max_def)

lemma py_min_one_nonneg_or_inf [intro]:
  "nonneg_or_inf x \<Longrightarrow> fin_within 0 1 (py_min (Fin 1) x)"
  by (cases x) (auto simp: py_min_def)

lemma np_clip_fin_within [intro]:
  "lo \<le> hi \<Longrightarrow> x \<noteq> NaN \<Longrightarrow> fin_within lo hi (np_clip x lo hi)"
  by (cases x) (auto simp: clip_lower clip_upper)

lemma fin_within_iff: "fin_within lo hi x \<longleftrightarrow> (\<exists>a. x = Fin a \<and> lo \<le> a \<and> a \<le> hi)"
  by (cases x) auto

end
