(* ===== verification/Py_Str.thy ===== *)
theory Py_Str
  imports Prelude "HOL-Library.Sublist"
begin

text \<open>
  The Python \<open>str\<close> methods the program calls, over code-point lists.
  \<^item> \<open>py_isspace\<close> is \<open>str.isspace\<close> on one character, exact for all of Unicode
    (the characters of Unicode class Zs, Zl, Zp and the control characters CPython
    treats as white space); \<open>re\<close>'s \<open>\s\<close> is the same class.
  \<^item> \<open>py_lower_char\<close> is \<open>str.lower\<close> on ASCII and Latin-1 (U+0000 to U+00FF);
    other code points are left unchanged, which is Python's behaviour for punctuation
    such as U+2019 but not for capital letters of other scripts (not modelled).
  \<^item> \<open>py_split\<close> is \<open>str.split()\<close> without a separator, \<open>py_split_sep\<close>
    \<open>str.split(sep)\<close>, \<open>py_strip\<close> \<open>str.strip()\<close>, \<open>py_join\<close>
    \<open>sep.join(xs)\<close>, \<open>py_in\<close> the operator \<open>in\<close> on strings, \<open>py_count\<close>
    \<open>str.count\<close> (non-overlapping, left to right), \<open>py_endswith\<close>
    \<open>str.endswith\<close>.
\<close>

definition py_isspace :: "nat \<Rightarrow> bool" where
  "py_isspace c \<longleftrightarrow>
     (9 \<le> c \<and> c \<le> 13) \<or> (28 \<le> c \<and> c \<le> 32) \<or> c = 133 \<or> c = 160 \<or> c = 5760 \<or>
     (8192 \<le> c \<and> c \<le> 8202) \<or> c = 8232 \<or> c = 8233 \<or> c = 8239 \<or> c = 8287 \<or> c = 12288"

definition py_lower_char :: "nat \<Rightarrow> nat" where
  "py_lower_char c =
     (if (65 \<le> c \<and> c \<le> 90) \<or> (192 \<le> c \<and> c \<le> 222 \<and> c \<noteq> 215) then c + 32 else c)"

definition py_lower :: "ustr \<Rightarrow> ustr" where
  "py_lower s = map py_lower_char s"

text \<open>The maximal runs of characters that are not separators, in order; \<open>cur\<close> is the
  current run, reversed. \<open>str.split()\<close> is the case of white space separators.\<close>

fun split_runs :: "(nat \<Rightarrow> bool) \<Rightarrow> ustr \<Rightarrow> ustr \<Rightarrow> ustr list" where
  "split_runs sep cur [] = (if cur = [] then [] else [rev cur])"
| "split_runs sep cur (c # cs) =
     (if sep c then (if cur = [] then split_runs sep [] cs else rev cur # split_runs sep [] cs)
      else split_runs sep (c # cur) cs)"

definition py_split :: "ustr \<Rightarrow> ustr list" where
  "py_split s = split_runs py_isspace [] s"

definition py_strip :: "ustr \<Rightarrow> ustr" where
  "py_strip s = rev (dropWhile py_isspace (rev (dropWhile py_isspace s)))"

fun py_join :: "ustr \<Rightarrow> ustr list \<Rightarrow> ustr" where
  "py_join sep [] = []"
| "py_join sep [x] = x"
| "py_join sep (x # y # xs) = x @ sep @ py_join sep (y # xs)"

text \<open>\<open>str.split(sep)\<close> for a one-character separator: every piece between separators,
  empty pieces included, so that \<open>n\<close> separators give \<open>n + 1\<close> pieces.\<close>

fun py_split_sep_acc :: "nat \<Rightarrow> ustr \<Rightarrow> ustr \<Rightarrow> ustr list" where
  "py_split_sep_acc sep cur [] = [rev cur]"
| "py_split_sep_acc sep cur (c # cs) =
     (if c = sep then rev cur # py_split_sep_acc sep [] cs else py_split_sep_acc sep (c # cur) cs)"

definition py_split_sep :: "ustr \<Rightarrow> nat \<Rightarrow> ustr list" where
  "py_split_sep s sep = py_split_sep_acc sep [] s"

text \<open>Substring test, as a recursive search from each position.\<close>

fun py_in :: "ustr \<Rightarrow> ustr \<Rightarrow> bool" where
  "py_in sub [] = (sub = [])"
| "py_in sub (c # cs) = (prefix sub (c # cs) \<or> py_in sub cs)"

text \<open>
  \<open>str.count(sub)\<close>: after a match the search resumes behind it, so matches do not
  overlap. An empty \<open>sub\<close> is counted \<open>len(s) + 1\<close> times, as in CPython.
\<close>

fun py_count_ne :: "ustr \<Rightarrow> ustr \<Rightarrow> nat" where
  "py_count_ne sub [] = 0"
| "py_count_ne sub (c # cs) =
     (if prefix sub (c # cs) then Suc (py_count_ne sub (drop (length sub - 1) cs))
      else py_count_ne sub cs)"

definition py_count :: "ustr \<Rightarrow> ustr \<Rightarrow> nat" where
  "py_count s sub = (if sub = [] then Suc (length s) else py_count_ne sub s)"

definition py_endswith :: "ustr \<Rightarrow> ustr \<Rightarrow> bool" where
  "py_endswith s suf \<longleftrightarrow> suffix suf s"

lemma py_in_sublist: "py_in sub s \<longleftrightarrow> sublist sub s"
  by (induction s) (auto simp: sublist_Cons_right)

lemma py_lower_char_idem [simp]: "py_lower_char (py_lower_char c) = py_lower_char c"
  by (simp add: py_lower_char_def)

lemma py_lower_idem [simp]: "py_lower (py_lower s) = py_lower s"
  by (simp add: py_lower_def)

lemma py_lower_char_not_upper: "\<not> (65 \<le> py_lower_char c \<and> py_lower_char c \<le> 90)"
  by (simp add: py_lower_char_def)

lemma length_py_lower [simp]: "length (py_lower s) = length s"
  by (simp add: py_lower_def)

lemma py_lower_append [simp]: "py_lower (s @ t) = py_lower s @ py_lower t"
  by (simp add: py_lower_def)

end
