(* ===== verification/Py_Num.thy ===== *)
theory Py_Num
  imports Py_Float Py_Str
begin

text \<open>
  Python's \<open>int(s)\<close> and \<open>float(s)\<close> on strings, as \<open>to_seconds\<close> in
  src/src/preprocess.py calls them. Both strip surrounding white space, take an optional
  sign, and accept underscores only between two digits (CPython's
  \<open>_Py_string_to_number_with_underscores\<close>, whose loop \<open>us_ok_from\<close> transcribes).
  \<open>float\<close> accepts \<open>inf\<close>, \<open>infinity\<close> and \<open>nan\<close> in any case, and the decimal forms
  \<open>12\<close>, \<open>1.5\<close>, \<open>1.\<close>, \<open>.5\<close> with an optional exponent \<open>e[+-]digits\<close>.
  Digits are the ASCII digits (CPython also accepts other Unicode decimal digits; they are
  not modelled). A failure is \<open>None\<close>: the \<open>ValueError\<close> that \<open>to_seconds\<close> catches.
\<close>

definition is_digit :: "nat \<Rightarrow> bool" where
  "is_digit c \<longleftrightarrow> 48 \<le> c \<and> c \<le> 57"

definition digits_value :: "ustr \<Rightarrow> nat" where
  "digits_value ds = foldl (\<lambda>n c. 10 * n + (c - 48)) 0 ds"

text \<open>An underscore must follow a digit and precede a digit; the scan starts with
  \<open>prev = '\0'\<close>.\<close>

fun us_ok_from :: "nat \<Rightarrow> ustr \<Rightarrow> bool" where
  "us_ok_from prev [] = (prev \<noteq> 95)"
| "us_ok_from prev (c # cs) =
     (if c = 95 then is_digit prev \<and> us_ok_from c cs
      else (prev = 95 \<longrightarrow> is_digit c) \<and> us_ok_from c cs)"

definition us_ok :: "ustr \<Rightarrow> bool" where
  "us_ok s = us_ok_from 0 s"

definition sign_split :: "ustr \<Rightarrow> bool \<times> ustr" where
  "sign_split s =
     (case s of
        [] \<Rightarrow> (False, s)
      | c # r \<Rightarrow> (if c = 45 then (True, r) else if c = 43 then (False, r) else (False, s)))"

definition py_int :: "ustr \<Rightarrow> int option" where
  "py_int s =
     (let (neg, r) = sign_split (py_strip s)
      in if r \<noteq> [] \<and> list_all (\<lambda>c. is_digit c \<or> c = 95) r \<and> us_ok r
         then Some ((if neg then -1 else 1) * int (digits_value (filter is_digit r)))
         else None)"

text \<open>Exponent part of a decimal literal: empty, or \<open>e\<close>/\<open>E\<close>, a sign, digits.\<close>

definition exponent_value :: "ustr \<Rightarrow> int option" where
  "exponent_value e =
     (case e of
        [] \<Rightarrow> Some 0
      | c # r \<Rightarrow>
          (if c = 101 \<or> c = 69 then
             (let (neg, ds) = sign_split r
              in if ds \<noteq> [] \<and> list_all is_digit ds
                 then Some ((if neg then -1 else 1) * int (digits_value ds)) else None)
           else None))"

definition scale10 :: "nat \<Rightarrow> int \<Rightarrow> real" where
  "scale10 m k = (if 0 \<le> k then real m * 10 ^ nat k else real m / 10 ^ nat (- k))"

text \<open>An unsigned decimal literal without underscores: integer digits, an optional
  point with fraction digits, at least one digit in all, an optional exponent.\<close>

definition decimal_value :: "ustr \<Rightarrow> real option" where
  "decimal_value r =
     (let ip = takeWhile is_digit r; r1 = dropWhile is_digit r;
          (fp, r2) = (case r1 of
                         [] \<Rightarrow> ([], r1)
                       | c # r' \<Rightarrow> (if c = 46 then (takeWhile is_digit r', dropWhile is_digit r')
                                    else ([], r1)))
      in if ip @ fp = [] then None
         else map_option (\<lambda>k. scale10 (digits_value (ip @ fp)) (k - int (length fp)))
                (exponent_value r2))"

definition py_float :: "ustr \<Rightarrow> pyfloat option" where
  "py_float s =
     (let (neg, r) = sign_split (py_strip s); l = py_lower r
      in if l = ascii ''inf'' \<or> l = ascii ''infinity'' then Some (pf_inf neg)
         else if l = ascii ''nan'' then Some NaN
         else if us_ok r
         then map_option (\<lambda>x. Fin (if neg then - x else x)) (decimal_value (filter (\<lambda>c. c \<noteq> 95) r))
         else None)"

text \<open>Decimal rendering of a natural number, most significant digit first, for the
  round-trip lemmas.\<close>

fun show_nat :: "nat \<Rightarrow> ustr" where
  "show_nat n = (if n < 10 then [48 + n] else show_nat (n div 10) @ [48 + n mod 10])"

lemmas py_num_defs [model_eval] =
  is_digit_def digits_value_def us_ok_def sign_split_def py_int_def exponent_value_def
  scale10_def decimal_value_def py_float_def

declare show_nat.simps [simp del]

lemma show_nat_digits: "list_all is_digit (show_nat n)"
proof (induction n rule: show_nat.induct)
  case (1 n)
  then show ?case by (subst show_nat.simps) (auto simp: is_digit_def list_all_iff)
qed

lemma show_nat_ne: "show_nat n \<noteq> []"
  by (subst show_nat.simps) simp

lemma digits_value_append_digit:
  "digits_value (ds @ [c]) = 10 * digits_value ds + (c - 48)"
  by (simp add: digits_value_def)

lemma digits_value_show_nat: "digits_value (show_nat n) = n"
proof (induction n rule: show_nat.induct)
  case (1 n)
  show ?case
  proof (cases "n < 10")
    case True
    then show ?thesis by (subst show_nat.simps) (simp add: digits_value_def)
  next
    case False
    with "1.IH" show ?thesis
      by (subst show_nat.simps) (simp add: digits_value_append_digit)
  qed
qed

lemma us_ok_from_digits: "list_all is_digit ds \<Longrightarrow> prev \<noteq> 95 \<Longrightarrow> us_ok_from prev ds"
  by (induction ds arbitrary: prev) (auto simp: is_digit_def)

lemma dropWhile_isspace_digits:
  "ds \<noteq> [] \<Longrightarrow> list_all is_digit ds \<Longrightarrow> dropWhile py_isspace ds = ds"
  by (cases ds) (auto simp: is_digit_def py_isspace_def)

lemma py_strip_digits: "ds \<noteq> [] \<Longrightarrow> list_all is_digit ds \<Longrightarrow> py_strip ds = ds"
proof -
  assume ne: "ds \<noteq> []" and d: "list_all is_digit ds"
  then have "dropWhile py_isspace (rev ds) = rev ds"
    by (intro dropWhile_isspace_digits) (auto simp: list_all_iff)
  with ne d show ?thesis by (simp add: py_strip_def dropWhile_isspace_digits)
qed

lemma filter_is_digit_id: "list_all is_digit ds \<Longrightarrow> filter is_digit ds = ds"
  by (induction ds) auto

end
