(* ===== verification/Enricher.thy ===== *)
theory Enricher
  imports Py_Num
begin

text \<open>
  The Turn Enricher, src/src/preprocess.py lines 89-119. A transcript row (one
  DataFrame row produced by \<open>load_transcript\<close>) is the record \<open>row\<close>; its column
  \<open>text\<close> is the field \<open>text_col\<close> (\<open>text\<close> is an Isabelle keyword). An enriched
  turn extends a row with the derived columns \<open>duration_s\<close> and \<open>tokens\<close>.
  \<open>to_seconds\<close> is the nested helper of \<open>duration_seconds\<close>: split at \<open>:\<close> into
  exactly three pieces, \<open>int(h) * 3600 + int(m) * 60 + float(rest)\<close>, \<open>None\<close> on any
  exception. \<open>add_basic_fields\<close> maps every row, in order, to its enriched turn.
\<close>

record row =
  ts_start :: "ustr option"
  ts_end :: "ustr option"
  speaker :: ustr
  text_col :: ustr

record turn = row +
  duration_s :: pyfloat
  tokens :: nat

definition to_seconds :: "ustr option \<Rightarrow> pyfloat option" where
  "to_seconds s =
     (case s of
        None \<Rightarrow> None
      | Some str \<Rightarrow>
          (case py_split_sep str 58 of
             [h, m, rest] \<Rightarrow>
               (case (py_int h, py_int m, py_float rest) of
                  (Some hh, Some mm, Some r) \<Rightarrow> Some (pf_add (Fin (of_int (hh * 3600 + mm * 60))) r)
                | _ \<Rightarrow> None)
           | _ \<Rightarrow> None))"

definition duration_seconds :: "'a row_scheme \<Rightarrow> pyfloat" where
  "duration_seconds r =
     (case (to_seconds (ts_start r), to_seconds (ts_end r)) of
        (Some a, Some b) \<Rightarrow> py_max (Fin 0) (pf_sub b a)
      | _ \<Rightarrow> Fin 0)"

definition enrich_row :: "row \<Rightarrow> turn" where
  "enrich_row r =
     \<lparr>ts_start = ts_start r, ts_end = ts_end r, speaker = speaker r, text_col = text_col r,
      duration_s = duration_seconds r, tokens = length (py_split (text_col r))\<rparr>"

definition add_basic_fields :: "row list \<Rightarrow> turn list" where
  "add_basic_fields rs = map enrich_row rs"

text \<open>The invariant of an enriched turn: the two derived columns as the spec states them.\<close>

definition enriched :: "turn \<Rightarrow> bool" where
  "enriched t \<longleftrightarrow> nonneg_or_inf (duration_s t) \<and> tokens t = length (py_split (text_col t))"

lemmas enricher_defs [model_eval] = to_seconds_def duration_seconds_def enrich_row_def

subsection \<open>Helper lemmas\<close>

lemma duration_seconds_nonneg_or_inf: "nonneg_or_inf (duration_seconds r)"
  by (auto simp: duration_seconds_def split: option.splits)

lemma enriched_enrich_row: "enriched (enrich_row r)"
  by (simp add: enriched_def enrich_row_def duration_seconds_nonneg_or_inf)

lemma row_truncate_enrich_row [simp]: "row.truncate (enrich_row r) = r"
  by (simp add: enrich_row_def row.truncate_def)

lemma py_split_sep_acc_no_sep:
  "sep \<notin> set xs \<Longrightarrow> py_split_sep_acc sep cur xs = [rev cur @ xs]"
  by (induction xs arbitrary: cur) auto

lemma py_split_sep_acc_sep:
  "sep \<notin> set xs \<Longrightarrow> py_split_sep_acc sep cur (xs @ sep # ys) = (rev cur @ xs) # py_split_sep_acc sep [] ys"
  by (induction xs arbitrary: cur) auto

lemma py_split_sep_three:
  assumes "sep \<notin> set a" "sep \<notin> set b" "sep \<notin> set c"
  shows "py_split_sep (a @ sep # b @ sep # c) sep = [a, b, c]"
  using assms by (simp add: py_split_sep_def py_split_sep_acc_sep py_split_sep_acc_no_sep)

lemma digits_value_append:
  "digits_value (ds @ fs) = digits_value ds * 10 ^ length fs + digits_value fs"
proof (induction fs rule: rev_induct)
  case Nil
  then show ?case by (simp add: digits_value_def)
next
  case (snoc c fs)
  then show ?case
    by (simp add: digits_value_append_digit flip: append_assoc)
qed

lemma digits_ascii_free:
  "list_all is_digit ds \<Longrightarrow> c \<in> set ds \<Longrightarrow> c \<noteq> 58 \<and> c \<noteq> 46 \<and> c \<noteq> 95 \<and> c \<noteq> 45 \<and> c \<noteq> 43"
  by (auto simp: list_all_iff is_digit_def)

lemma sign_split_digits:
  "ds \<noteq> [] \<Longrightarrow> list_all is_digit ds \<Longrightarrow> sign_split ds = (False, ds)"
  by (cases ds) (auto simp: sign_split_def is_digit_def)

lemma py_int_digits:
  assumes "ds \<noteq> []" "list_all is_digit ds"
  shows "py_int ds = Some (int (digits_value ds))"
proof -
  have "us_ok ds" using assms(2) by (simp add: us_ok_def us_ok_from_digits)
  with assms show ?thesis
    by (simp add: py_int_def py_strip_digits sign_split_digits filter_is_digit_id list_all_iff)
qed

lemma us_ok_from_no_underscore: "95 \<notin> set s \<Longrightarrow> prev \<noteq> 95 \<Longrightarrow> us_ok_from prev s"
  by (induction s arbitrary: prev) auto

lemma py_strip_nonspace_ends:
  assumes "s \<noteq> []" "\<not> py_isspace (hd s)" "\<not> py_isspace (last s)"
  shows "py_strip s = s"
proof -
  have "dropWhile py_isspace s = s" using assms by (cases s) auto
  moreover have "dropWhile py_isspace (rev s) = rev s"
    using assms by (cases "rev s") (auto simp: hd_rev)
  ultimately show ?thesis by (simp add: py_strip_def)
qed

lemma digit_not_space: "is_digit c \<Longrightarrow> \<not> py_isspace c"
  by (simp add: is_digit_def py_isspace_def)

lemma digits_hd_last:
  assumes "ds \<noteq> []" "list_all is_digit ds"
  shows "is_digit (hd ds) \<and> is_digit (last ds)"
proof -
  from assms(1) have "hd ds \<in> set ds" "last ds \<in> set ds" by simp_all
  with assms(2) show ?thesis by (simp add: list_all_iff)
qed

text \<open>\<open>float()\<close> on \<open>digits.digits\<close>, the seconds field of a VTT or SRT timestamp.\<close>

lemma py_float_point_digits:
  assumes ss: "ss \<noteq> []" "list_all is_digit ss" and fs: "fs \<noteq> []" "list_all is_digit fs"
  shows "py_float (ss @ 46 # fs) =
           Some (Fin (real (digits_value ss) + real (digits_value fs) / 10 ^ length fs))"
proof -
  let ?s = "ss @ 46 # fs"
  have "hd ?s = hd ss" "last ?s = last fs" using ss(1) fs(1) by simp_all
  then have hd: "is_digit (hd ?s)" and last: "is_digit (last ?s)"
    using digits_hd_last [OF ss] digits_hd_last [OF fs] by simp_all
  have strip: "py_strip ?s = ?s"
    using hd last by (intro py_strip_nonspace_ends) (auto dest: digit_not_space)
  have sign: "sign_split ?s = (False, ?s)"
    using ss by (cases ss) (auto simp: sign_split_def is_digit_def)
  have hd_low: "hd (py_lower ?s) = hd ?s"
    using hd ss(1) by (cases ss) (auto simp: py_lower_def py_lower_char_def is_digit_def)
  have not_special: "py_lower ?s \<noteq> ascii ''inf'' \<and> py_lower ?s \<noteq> ascii ''infinity'' \<and> py_lower ?s \<noteq> ascii ''nan''"
    using hd hd_low by (auto simp: is_digit_def dest!: arg_cong [where f = hd])
  have no_us: "95 \<notin> set ?s"
    using ss fs by (auto simp: list_all_iff is_digit_def)
  then have us: "us_ok ?s" by (simp add: us_ok_def us_ok_from_no_underscore)
  have filt: "filter (\<lambda>c. c \<noteq> 95) ?s = ?s"
    using no_us by (intro filter_True) blast
  have tw: "takeWhile is_digit ?s = ss" "dropWhile is_digit ?s = 46 # fs"
    using ss(2) by (auto simp: takeWhile_append2 dropWhile_append2 list_all_iff is_digit_def)
  have tw2: "takeWhile is_digit fs = fs" "dropWhile is_digit fs = []"
    using fs(2) by (auto simp: list_all_iff)
  have dec: "decimal_value ?s =
      Some (scale10 (digits_value (ss @ fs)) (- int (length fs)))"
    using ss(1) by (simp add: decimal_value_def tw tw2 exponent_value_def)
  have val: "scale10 (digits_value (ss @ fs)) (- int (length fs)) =
      real (digits_value ss) + real (digits_value fs) / 10 ^ length fs"
    using fs(1) by (simp add: scale10_def digits_value_append field_simps)
  show ?thesis
    using strip sign not_special us filt dec val by (simp add: py_float_def)
qed

end
