(* ===== verification/Energy.thy ===== *)
theory Energy
  imports Enricher
begin

text \<open>
  Energy (E), src/src/metrics.py lines 13-25 (\<open>energy_E\<close>), split into the steps of
  the function body: \<open>pd_sum\<close> is \<open>pandas.Series.sum\<close> (it skips \<open>nan\<close>),
  \<open>talk_time\<close> lines 14-16 with the token proxy \<open>tokens / 2.5\<close>,
  \<open>speaker_shares\<close> the \<open>groupby("speaker")["tokens"].sum()\<close> of line 18 (groups in
  sorted key order, Python's string order being the lexicographic order on code points),
  \<open>equity\<close> lines 19-22 (normalised Shannon entropy with \<open>p\<close> clipped to
  \<open>[1e-12, 1]\<close> inside the logarithm), \<open>norm_time\<close> line 24 and \<open>energy_E\<close> line 25.
  The main result is that E is a finite value in \<open>[0, 1]\<close> for every enriched table,
  although the code never clips it: the bound rests on Gibbs' inequality
  (\<open>entropy_le_log\<close>), proved from \<open>ln x \<le> x - 1\<close>.
\<close>

definition pd_sum :: "pyfloat list \<Rightarrow> pyfloat" where
  "pd_sum xs = foldl pf_add (Fin 0) (filter (\<lambda>x. x \<noteq> NaN) xs)"

definition total_tokens :: "'a turn_scheme list \<Rightarrow> nat" where
  "total_tokens ts = sum_list (map tokens ts)"

definition talk_time :: "'a turn_scheme list \<Rightarrow> pyfloat" where
  "talk_time ts =
     (let tt = pd_sum (map duration_s ts)
      in if pf_eq tt (Fin 0) then Fin (real (total_tokens ts) / 2.5) else tt)"

definition speaker_shares :: "'a turn_scheme list \<Rightarrow> nat list" where
  "speaker_shares ts =
     map (\<lambda>s. sum_list (map tokens (filter (\<lambda>t. speaker t = s) ts)))
         (sort (remdups (map speaker ts)))"

text \<open>The lower clip bound \<open>1e-12\<close> of line 20.\<close>

definition p_floor :: real where
  "p_floor = 1 / 10 ^ 12"

definition entropy :: "real list \<Rightarrow> real" where
  "entropy p = - sum_list (map (\<lambda>q. q * log 2 (clip p_floor 1 q)) p)"

definition equity :: "'a turn_scheme list \<Rightarrow> real" where
  "equity ts =
     (let share = speaker_shares ts;
          p = map (\<lambda>x. real x / real (max 1 (sum_list share))) share;
          max_entropy = log 2 (real (max 1 (length p)))
      in if max_entropy > 0 then entropy p / max_entropy else 1)"

definition norm_time :: "pyfloat \<Rightarrow> pyfloat" where
  "norm_time tt = py_min (Fin 1) (pf_div tt (Fin 5400))"

definition energy_E :: "'a turn_scheme list \<Rightarrow> pyfloat" where
  "energy_E ts = pf_add (pf_mul (Fin 0.5) (norm_time (talk_time ts))) (Fin (0.5 * equity ts))"

lemmas energy_defs [model_eval] =
  pd_sum_def total_tokens_def talk_time_def p_floor_def speaker_shares_def entropy_def equity_def
  norm_time_def energy_E_def

subsection \<open>Talk time and its normalisation\<close>

lemma foldl_pf_add_nonneg_or_inf:
  "nonneg_or_inf a \<Longrightarrow> \<forall>x\<in>set xs. nonneg_or_inf x \<Longrightarrow> nonneg_or_inf (foldl pf_add a xs)"
  by (induction xs arbitrary: a) auto

lemma pd_sum_nonneg_or_inf:
  "\<forall>x\<in>set xs. nonneg_or_inf x \<Longrightarrow> nonneg_or_inf (pd_sum xs)"
  by (simp add: pd_sum_def foldl_pf_add_nonneg_or_inf)

lemma talk_time_nonneg_or_inf:
  "\<forall>t\<in>set ts. nonneg_or_inf (duration_s t) \<Longrightarrow> nonneg_or_inf (talk_time ts)"
  by (simp add: talk_time_def Let_def pd_sum_nonneg_or_inf)

lemma pf_div_nonneg_or_inf:
  "nonneg_or_inf x \<Longrightarrow> 0 < c \<Longrightarrow> nonneg_or_inf (pf_div x (Fin c))"
  by (cases x) (auto simp: pf_inf_def)

lemma norm_time_within [bound_rules]:
  "nonneg_or_inf tt \<Longrightarrow> fin_within 0 1 (norm_time tt)"
  by (simp add: norm_time_def pf_div_nonneg_or_inf py_min_one_nonneg_or_inf)

subsection \<open>Gibbs' inequality and the equity bound\<close>

lemma entropy_term_nonpos:
  assumes "0 \<le> q"
  shows "q * log 2 (clip p_floor 1 q) \<le> 0"
proof -
  have "0 < clip p_floor 1 q" "clip p_floor 1 q \<le> 1"
    by (auto simp: clip_def p_floor_def)
  then have "log 2 (clip p_floor 1 q) \<le> 0" by simp
  with assms show ?thesis by (simp add: mult_nonneg_nonpos)
qed

lemma entropy_nonneg:
  "\<forall>q\<in>set p. 0 \<le> q \<Longrightarrow> 0 \<le> entropy p"
proof -
  assume "\<forall>q\<in>set p. 0 \<le> q"
  then have "sum_list (map (\<lambda>q. q * log 2 (clip p_floor 1 q)) p) \<le> 0"
    by (intro sum_list_nonpos) (auto intro: entropy_term_nonpos)
  then show ?thesis by (simp add: entropy_def)
qed

text \<open>Clipping the probability inside the logarithm can only lower each term.\<close>

lemma entropy_term_le_plain:
  assumes "0 \<le> q" "q \<le> 1"
  shows "- (q * log 2 (clip p_floor 1 q)) \<le> - (q * log 2 q)"
proof (cases "q = 0")
  case False
  with assms have "0 < q" "q \<le> clip p_floor 1 q" by (auto simp: clip_def p_floor_def)
  then have "log 2 q \<le> log 2 (clip p_floor 1 q)" by simp
  with \<open>0 < q\<close> show ?thesis by (simp add: mult_left_mono)
qed simp

lemma gibbs_term:
  fixes q n :: real
  assumes "0 \<le> q" "0 < n"
  shows "- (q * ln q) \<le> q * ln n + (1 / n - q)"
proof (cases "q = 0")
  case False
  from assms(1) False have q: "0 < q" by linarith
  have "ln (1 / (n * q)) \<le> 1 / (n * q) - 1"
    using q assms by (intro ln_le_minus_one) simp
  then have "q * ln (1 / (n * q)) \<le> q * (1 / (n * q) - 1)"
    using q by (simp add: mult_left_mono)
  moreover have "q * ln (1 / (n * q)) = - (q * ln q) - q * ln n"
    using q assms by (simp add: ln_div ln_mult algebra_simps)
  moreover have "q * (1 / (n * q) - 1) = 1 / n - q"
    using q assms by (simp add: field_simps)
  ultimately show ?thesis by simp
qed (use assms in simp)

lemma gibbs_sum:
  fixes n :: real
  assumes "\<forall>q\<in>set p. 0 \<le> q" "0 < n"
  shows "sum_list (map (\<lambda>q. - (q * ln q)) p)
           \<le> sum_list p * ln n + (real (length p) / n - sum_list p)"
  using assms
proof (induction p)
  case (Cons q p)
  then have "- (q * ln q) \<le> q * ln n + (1 / n - q)" by (intro gibbs_term) auto
  with Cons show ?case by (simp add: algebra_simps add_divide_distrib)
qed simp

lemma entropy_le_log:
  assumes "\<forall>q\<in>set p. 0 \<le> q \<and> q \<le> 1" "sum_list p = 1"
  shows "entropy p \<le> log 2 (real (length p))"
proof -
  have n: "0 < real (length p)" using assms(2) by (cases p) auto
  have "entropy p = sum_list (map (\<lambda>q. - (q * log 2 (clip p_floor 1 q))) p)"
    by (simp add: entropy_def uminus_sum_list_map o_def)
  also have "\<dots> \<le> sum_list (map (\<lambda>q. - (q * ln q) / ln 2) p)"
    using assms(1) entropy_term_le_plain by (intro sum_list_mono) (simp add: log_def)
  also have "\<dots> = sum_list (map (\<lambda>q. - (q * ln q)) p) / ln 2"
    by (rule sum_list_map_divide)
  also have "\<dots> \<le> (sum_list p * ln (real (length p)) + (real (length p) / real (length p) - sum_list p)) / ln 2"
    using assms(1) n by (intro divide_right_mono gibbs_sum) auto
  also have "\<dots> = log 2 (real (length p))"
    using assms(2) n by (simp add: log_def)
  finally show ?thesis .
qed


lemma length_speaker_shares: "length (speaker_shares ts) = length (remdups (map speaker ts))"
  by (simp add: speaker_shares_def length_remdups_card_conv)

lemma shares_normalised:
  fixes share :: "nat list"
  defines "p \<equiv> map (\<lambda>x. real x / real (max 1 (sum_list share))) share"
  shows "\<forall>q\<in>set p. 0 \<le> q \<and> q \<le> 1"
    and "0 < sum_list share \<Longrightarrow> sum_list p = 1"
    and "sum_list share = 0 \<Longrightarrow> entropy p = 0"
proof -
  show "\<forall>q\<in>set p. 0 \<le> q \<and> q \<le> 1"
    using member_le_sum_list [of _ share] by (force simp: p_def divide_le_eq_1 le_max_iff_disj)
next
  assume pos: "0 < sum_list share"
  then have "sum_list p = real (sum_list share) / real (sum_list share)"
    by (simp add: p_def sum_list_map_divide of_nat_sum_list_map [symmetric] max_def)
  also have "\<dots> = 1" using pos by (simp del: sum_list_eq_0_iff)
  finally show "sum_list p = 1" .
next
  assume "sum_list share = 0"
  then have "\<forall>x\<in>set share. x = 0" by simp
  then have "\<forall>q\<in>set p. q = 0" by (auto simp: p_def)
  then have "(\<Sum>q\<leftarrow>p. q * log 2 (clip p_floor 1 q)) = (\<Sum>q\<leftarrow>p. 0)"
    by (intro arg_cong [where f = sum_list] map_cong) auto
  then show "entropy p = 0"
    by (simp add: entropy_def)
qed

lemma equity_within [bound_rules]: "0 \<le> equity ts \<and> equity ts \<le> 1"
proof -
  define share where "share = speaker_shares ts"
  define p where "p = map (\<lambda>x. real x / real (max 1 (sum_list share))) share"
  have p01: "\<forall>q\<in>set p. 0 \<le> q \<and> q \<le> 1"
    unfolding p_def by (rule shares_normalised(1))
  show ?thesis
  proof (cases "log 2 (real (max 1 (length p))) > 0")
    case False
    then show ?thesis by (simp add: equity_def share_def p_def Let_def)
  next
    case True
    then have n: "max 1 (length p) = length p" "1 < length p" by auto
    have lo: "0 \<le> entropy p" using p01 by (simp add: entropy_nonneg)
    have hi: "entropy p \<le> log 2 (real (length p))"
    proof (cases "sum_list share = 0")
      case True
      then have "entropy p = 0" unfolding p_def by (rule shares_normalised(3))
      have "1 \<le> real (length p)" "0 < real (length p)" using n(2) by auto
      then have "0 \<le> log 2 (real (length p))" by (intro iffD2 [OF zero_le_log_cancel_iff]) (auto simp: Suc_le_eq)
      with \<open>entropy p = 0\<close> show ?thesis by simp
    next
      case False
      then have "0 < sum_list share" by (simp del: sum_list_eq_0_iff)
      then have "sum_list p = 1" unfolding p_def by (rule shares_normalised(2))
      with p01 show ?thesis by (rule entropy_le_log)
    qed
    have eq: "equity ts = entropy p / log 2 (real (length p))"
      using True n by (simp add: equity_def share_def p_def Let_def)
    show ?thesis
      using lo hi True n by (simp add: eq divide_le_eq_1)
  qed
qed

lemma energy_E_within_general:
  assumes "\<forall>t\<in>set ts. nonneg_or_inf (duration_s t)"
  shows "fin_within 0 1 (energy_E ts)"
proof -
  obtain a where a: "norm_time (talk_time ts) = Fin a" "0 \<le> a" "a \<le> 1"
    using norm_time_within [OF talk_time_nonneg_or_inf [OF assms]] by (auto simp: fin_within_iff)
  then show ?thesis
    using equity_within [of ts] by (simp add: energy_E_def)
qed


subsection \<open>Properties\<close>

text \<open>
  C1. Energy is bounded: for every transcript table that went through
  \<open>add_basic_fields\<close>, \<open>energy_E\<close> returns a finite float in \<open>[0, 1]\<close>, even when
  timestamps are malformed, infinite or missing, and although the code does not clip E.
\<close>

theorem energy_E_within: "fin_within 0 1 (energy_E (add_basic_fields rows))"
proof -
  have "\<forall>t\<in>set (add_basic_fields rows). nonneg_or_inf (duration_s t)"
    using enriched_enrich_row by (auto simp: add_basic_fields_def enriched_def)
  then show ?thesis by (rule energy_E_within_general)
qed

text \<open>
  C34. Equity of a single speaker: a table with at most one distinct speaker has equity
  component exactly \<open>1.0\<close>, whatever its token distribution.
\<close>

theorem equity_single_speaker:
  assumes "length (remdups (map speaker ts)) \<le> 1"
  shows "equity ts = 1"
  using assms by (simp add: equity_def Let_def length_speaker_shares)

theorem equity_single_speaker_witness:
  "length (remdups (map speaker [\<lparr>ts_start = None, ts_end = None, speaker = ascii ''Ann'',
      text_col = ascii ''so we agree'', duration_s = Fin 0, tokens = 3\<rparr>,
     \<lparr>ts_start = None, ts_end = None, speaker = ascii ''Ann'',
      text_col = ascii ''yes'', duration_s = Fin 0, tokens = 1\<rparr>])) \<le> 1 \<and>
   equity [\<lparr>ts_start = None, ts_end = None, speaker = ascii ''Ann'',
      text_col = ascii ''so we agree'', duration_s = Fin 0, tokens = 3\<rparr>,
     \<lparr>ts_start = None, ts_end = None, speaker = ascii ''Ann'',
      text_col = ascii ''yes'', duration_s = Fin 0, tokens = 1\<rparr>] = 1"
  using equity_single_speaker [of "[\<lparr>ts_start = None, ts_end = None, speaker = ascii ''Ann'',
      text_col = ascii ''so we agree'', duration_s = Fin 0, tokens = 3\<rparr>,
     \<lparr>ts_start = None, ts_end = None, speaker = ascii ''Ann'',
      text_col = ascii ''yes'', duration_s = Fin 0, tokens = 1\<rparr>]"] by simp

end
