(* ===== verification/Connection.thy ===== *)
theory Connection
  imports Enricher
begin

text \<open>
  Connection squared (c2), src/src/metrics.py lines 7-10 (the misread-marker lexicon)
  and 46-59 (\<open>connection_c2\<close>). \<open>joined_text\<close> is the
  \<open>" ".join(df["text"].astype(str)).lower()\<close> that \<open>connection_c2\<close>,
  \<open>symbolic_coherence_s\<close> and \<open>pp_delta\<close> all compute; markers are counted in it with
  \<open>str.count\<close>, so a marker split over two consecutive turns is counted too. The last
  marker of the lexicon is spelled with the typographic apostrophe U+2019 (code point
  8217) in the source, the others with the ASCII apostrophe.
\<close>

definition misread_markers :: "ustr list" where
  "misread_markers =
     [ascii ''that'' @ [39] @ ascii ''s not what i said'', ascii ''you'' @ [39] @ ascii ''ve misunderstood'',
      ascii ''to be clear'', ascii ''let me clarify'', ascii ''i disagree'', ascii ''misinterpret'',
      ascii ''that'' @ [8217] @ ascii ''s incorrect'']"

definition joined_text :: "'a row_scheme list \<Rightarrow> ustr" where
  "joined_text ts = py_lower (py_join [32] (map text_col ts))"

definition misread_count :: "ustr \<Rightarrow> nat" where
  "misread_count txt = sum_list (map (py_count txt) misread_markers)"

definition question_turns :: "'a row_scheme list \<Rightarrow> nat" where
  "question_turns ts = length (filter (\<lambda>t. py_endswith (text_col t) [63]) ts)"

definition connection_c2 :: "'a turn_scheme list \<Rightarrow> real" where
  "connection_c2 ts =
     (let misreads = misread_count (joined_text ts);
          tokens = max 1 (sum_list (map tokens ts));
          misrate = real misreads / real tokens * 1000;
          mis_norm = min 1 (misrate / 5);
          q_ratio = real (question_turns ts) / real (max 1 (length ts));
          vel = clip 0 1 (1 - q_ratio);
          c = 0.5 * mis_norm + 0.5 * vel
      in clip 0.05 1 c)"

lemmas connection_defs [model_eval] =
  misread_markers_def joined_text_def misread_count_def question_turns_def connection_c2_def

lemma connection_c2_clip: "\<exists>c. connection_c2 ts = clip 0.05 1 c"
  by (auto simp: connection_c2_def Let_def)

lemma connection_c2_range [bound_rules]: "0.05 \<le> connection_c2 ts \<and> connection_c2 ts \<le> 1"
proof -
  obtain c where "connection_c2 ts = clip 0.05 1 c" using connection_c2_clip by blast
  moreover have "0.05 \<le> clip 0.05 1 c \<and> clip 0.05 1 c \<le> (1::real)" by (rule clip_within) simp
  ultimately show ?thesis by simp
qed

lemma connection_c2_pos: "0 < connection_c2 ts \<and> connection_c2 ts \<le> 1"
  using connection_c2_range [of ts] by simp

lemma question_turns_le: "question_turns ts \<le> length ts"
  by (simp add: question_turns_def)

text \<open>Without misread markers, c2 is determined by the share of turns ending in a question
  mark: \<open>0.5 * (1 - q_ratio)\<close>, floored at 0.05.\<close>

lemma connection_c2_no_misreads:
  assumes "misread_count (joined_text ts) = 0"
  shows "connection_c2 ts = clip 0.05 1 (0.5 * (1 - real (question_turns ts) / real (max 1 (length ts))))"
proof -
  have "real (question_turns ts) / real (max 1 (length ts)) \<le> 1"
    using question_turns_le [of ts] by (auto simp: divide_le_eq_1 le_max_iff_disj)
  moreover have "0 \<le> real (question_turns ts) / real (max 1 (length ts))" by simp
  ultimately show ?thesis using assms by (simp add: connection_c2_def Let_def)
qed


subsection \<open>Properties\<close>

text \<open>
  C2. Connection squared is bounded: for every table, \<open>connection_c2\<close> lies in
  \<open>[0.05, 1]\<close>; the floor 0.05 is what makes the division in Impact safe.
\<close>

theorem connection_c2_within: "0.05 \<le> connection_c2 ts \<and> connection_c2 ts \<le> 1"
  by (rule connection_c2_range)

end
