(* ===== verification/Coherence.thy ===== *)
theory Coherence
  imports Connection
begin

text \<open>
  Symbolic Coherence (s), src/src/metrics.py line 11 (the jargon lexicon) and 27-44
  (\<open>symbolic_coherence_s\<close>), with the two library calls it makes modelled as well:
  \<^item> scikit-learn's \<open>TfidfVectorizer(stop_words="english", max_features=5000)\<close> and its
    \<open>fit_transform\<close>: documents are lowercased, tokenised by the default pattern
    \<open>(?u)\b\w\w+\b\<close> (maximal runs of word characters of length at least 2), stop words
    are removed, the vocabulary is the sorted set of remaining terms (cut to the 5000 most
    frequent when larger), a row is raw term counts times the smoothed idf
    \<open>ln((1 + n) / (1 + df)) + 1\<close>, normalised to unit Euclidean length; an empty
    vocabulary raises \<open>ValueError\<close>;
  \<^item> \<open>cosine_similarity\<close> (rows normalised again, then all dot products),
    \<open>np.triu_indices_from(sim, k=1)\<close> (row-major strict upper triangle) and
    \<open>np.median\<close>.
  The English stop-word list of scikit-learn and textstat's \<open>flesch_reading_ease\<close>
  (whose syllable counts come from a hyphenation dictionary) are not translated: they are
  the fields of the interface record \<open>nlp_lib\<close>, and every lemma holds for any value of it.
  Word characters are Python's \<open>\w\<close> on Latin-1; letters of other scripts are not
  modelled. Ties at the 5000-term cut are broken alphabetically (numpy's unstable sort may
  choose differently; the cut only applies beyond 5000 distinct terms).
\<close>

record nlp_lib =
  stop_words :: "ustr list"
  flesch_reading_ease :: "ustr \<Rightarrow> real"

definition jargon :: "ustr list" where
  "jargon = [ascii ''operationalise'', ascii ''utilise'', ascii ''stakeholder'', ascii ''synergy'',
             ascii ''bandwidth'', ascii ''scalable'', ascii ''frameworking'']"

definition is_word_char :: "nat \<Rightarrow> bool" where
  "is_word_char c \<longleftrightarrow>
     (48 \<le> c \<and> c \<le> 57) \<or> (65 \<le> c \<and> c \<le> 90) \<or> c = 95 \<or> (97 \<le> c \<and> c \<le> 122) \<or>
     c = 170 \<or> c = 178 \<or> c = 179 \<or> c = 181 \<or> c = 185 \<or> c = 186 \<or> (188 \<le> c \<and> c \<le> 190) \<or>
     (192 \<le> c \<and> c \<le> 214) \<or> (216 \<le> c \<and> c \<le> 246) \<or> (248 \<le> c \<and> c \<le> 255)"

definition analyze :: "nlp_lib \<Rightarrow> ustr \<Rightarrow> ustr list" where
  "analyze L d =
     filter (\<lambda>w. w \<notin> set (stop_words L))
       (filter (\<lambda>w. 2 \<le> length w) (split_runs (\<lambda>c. \<not> is_word_char c) [] (py_lower d)))"

definition corpus_count :: "ustr list list \<Rightarrow> ustr \<Rightarrow> nat" where
  "corpus_count toks t = sum_list (map (\<lambda>d. count_list d t) toks)"

definition limit_features :: "nat \<Rightarrow> ustr list list \<Rightarrow> ustr list \<Rightarrow> ustr list" where
  "limit_features limit toks v =
     (if length v \<le> limit then v
      else sort (take limit (sort_key (\<lambda>t. - int (corpus_count toks t)) v)))"

definition vocabulary :: "nlp_lib \<Rightarrow> ustr list \<Rightarrow> ustr list" where
  "vocabulary L docs =
     (let toks = map (analyze L) docs in limit_features 5000 toks (sort (remdups (concat toks))))"

definition idf :: "nat \<Rightarrow> nat \<Rightarrow> real" where
  "idf n df = ln ((1 + real n) / (1 + real df)) + 1"

definition l2_normalize :: "real list \<Rightarrow> real list" where
  "l2_normalize x =
     (let nrm = sqrt (sum_list (map (\<lambda>a. a * a) x)) in if nrm = 0 then x else map (\<lambda>a. a / nrm) x)"

definition empty_vocabulary_error :: py_error where
  "empty_vocabulary_error =
     ValueError (ascii ''empty vocabulary; perhaps the documents only contain stop words'')"

definition tfidf_fit_transform :: "nlp_lib \<Rightarrow> ustr list \<Rightarrow> py_error + real list list" where
  "tfidf_fit_transform L docs =
     (let toks = map (analyze L) docs; v = vocabulary L docs; n = length docs
      in if v = [] then Inl empty_vocabulary_error
         else Inr (map (\<lambda>d. l2_normalize
                       (map (\<lambda>t. real (count_list d t) * idf n (length (filter (\<lambda>d'. t \<in> set d') toks))) v))
                    toks))"

definition dot :: "real list \<Rightarrow> real list \<Rightarrow> real" where
  "dot x y = sum_list (map2 (*) x y)"

definition cosine_similarity :: "real list list \<Rightarrow> real list list" where
  "cosine_similarity X = (let Y = map l2_normalize X in map (\<lambda>x. map (dot x) Y) Y)"

definition upper_triangle :: "real list list \<Rightarrow> real list" where
  "upper_triangle M = concat (map (\<lambda>i. map (\<lambda>j. M ! i ! j) [Suc i..<length M]) [0..<length M])"

definition np_median :: "real list \<Rightarrow> real" where
  "np_median xs =
     (let s = sort xs; n = length xs
      in if odd n then s ! (n div 2) else (s ! (n div 2 - 1) + s ! (n div 2)) / 2)"

definition jargon_penalty :: "ustr \<Rightarrow> real" where
  "jargon_penalty txt = 1 - min 0.4 (real (length (filter (\<lambda>w. py_in w txt) jargon)) * 0.05)"

definition symbolic_coherence_s :: "nlp_lib \<Rightarrow> 'a row_scheme list \<Rightarrow> py_error + real" where
  "symbolic_coherence_s L ts =
     (let texts = map text_col ts
      in if length texts < 3 then Inr 0.3
         else (case tfidf_fit_transform L texts of
                 Inl e \<Rightarrow> Inl e
               | Inr X \<Rightarrow>
                   (let sim = cosine_similarity X;
                        stability = np_median (upper_triangle sim);
                        readability = flesch_reading_ease L (py_join [32] texts);
                        read_norm = clip 0 1 (readability / 100);
                        j_pen = jargon_penalty (joined_text ts)
                    in Inr (clip 0 1 ((0.6 * stability + 0.4 * read_norm) * j_pen)))))"

definition example_nlp :: nlp_lib where
  "example_nlp = \<lparr>stop_words = [ascii ''the'', ascii ''and''], flesch_reading_ease = (\<lambda>_. 60)\<rparr>"

definition example_rows3 :: "row list" where
  "example_rows3 =
     [\<lparr>ts_start = None, ts_end = None, speaker = ascii ''Alice'', text_col = ascii ''a''\<rparr>,
      \<lparr>ts_start = None, ts_end = None, speaker = ascii ''Bob'', text_col = ascii ''b''\<rparr>,
      \<lparr>ts_start = None, ts_end = None, speaker = ascii ''Alice'', text_col = ascii ''I''\<rparr>]"

lemmas coherence_defs [model_eval] =
  jargon_def is_word_char_def analyze_def corpus_count_def limit_features_def vocabulary_def
  idf_def l2_normalize_def empty_vocabulary_error_def tfidf_fit_transform_def dot_def cosine_similarity_def
  upper_triangle_def np_median_def jargon_penalty_def symbolic_coherence_s_def


subsection \<open>The error path and the range of s\<close>

lemma tfidf_fit_transform_Inl:
  "tfidf_fit_transform L docs = Inl e \<longleftrightarrow> vocabulary L docs = [] \<and> e = empty_vocabulary_error"
  by (auto simp: tfidf_fit_transform_def Let_def)

lemma symbolic_coherence_s_long:
  "\<not> length ts < 3 \<Longrightarrow> \<exists>X. tfidf_fit_transform L (map text_col ts) = Inr X \<Longrightarrow>
   \<exists>x. symbolic_coherence_s L ts = Inr (clip 0 1 x)"
  by (auto simp: symbolic_coherence_s_def Let_def)

lemma symbolic_coherence_s_cases:
  "(case symbolic_coherence_s L ts of
      Inl e \<Rightarrow> 3 \<le> length ts \<and> vocabulary L (map text_col ts) = [] \<and> e = empty_vocabulary_error
    | Inr s \<Rightarrow> 0 \<le> s \<and> s \<le> 1)"
proof (cases "length ts < 3")
  case True
  then show ?thesis by (simp add: symbolic_coherence_s_def)
next
  case False
  show ?thesis
  proof (cases "tfidf_fit_transform L (map text_col ts)")
    case (Inl e)
    then have "vocabulary L (map text_col ts) = [] \<and> e = empty_vocabulary_error"
      by (simp add: tfidf_fit_transform_Inl)
    with Inl False show ?thesis
      by (simp add: symbolic_coherence_s_def Let_def)
  next
    case (Inr X)
    then obtain x where "symbolic_coherence_s L ts = Inr (clip 0 1 x)"
      using False symbolic_coherence_s_long by blast
    then show ?thesis by (simp add: clip_lower clip_upper)
  qed
qed

lemma symbolic_coherence_s_error_iff:
  "isl (symbolic_coherence_s L ts) \<longleftrightarrow> 3 \<le> length ts \<and> vocabulary L (map text_col ts) = []"
proof (cases "length ts < 3")
  case True
  then show ?thesis by (simp add: symbolic_coherence_s_def)
next
  case False
  then show ?thesis
    by (cases "tfidf_fit_transform L (map text_col ts)")
       (auto simp: symbolic_coherence_s_def tfidf_fit_transform_Inl Let_def,
        auto simp: tfidf_fit_transform_def Let_def split: if_splits)
qed


lemma symbolic_coherence_s_Inr_within:
  "symbolic_coherence_s L ts = Inr s \<Longrightarrow> 0 \<le> s \<and> s \<le> 1"
  using symbolic_coherence_s_cases [where L = L and ts = ts] by simp

subsection \<open>Properties\<close>

text \<open>
  C3. Symbolic coherence either is a value in \<open>[0, 1]\<close> or is the \<open>ValueError\<close> of
  the vectorizer, and the error occurs exactly when the table has at least three turns and
  no term survives tokenisation and stop-word removal.
\<close>

theorem symbolic_coherence_s_outcome:
  "(case symbolic_coherence_s L ts of
      Inl e \<Rightarrow> e = empty_vocabulary_error
    | Inr s \<Rightarrow> 0 \<le> s \<and> s \<le> 1) \<and>
   (isl (symbolic_coherence_s L ts) \<longleftrightarrow> 3 \<le> length ts \<and> vocabulary L (map text_col ts) = [])"
  using symbolic_coherence_s_cases [where L = L and ts = ts] symbolic_coherence_s_error_iff [of L ts]
  by (simp split: sum.splits)

text \<open>
  C5. Fallback of symbolic coherence: on a table of fewer than three turns the score is
  exactly 0.3, without calling the vectorizer.
\<close>

theorem symbolic_coherence_s_fallback:
  assumes "length ts < 3"
  shows "symbolic_coherence_s L ts = Inr 0.3"
  using assms by (simp add: symbolic_coherence_s_def)

theorem symbolic_coherence_s_fallback_witness:
  "length (take 2 example_rows3) < 3 \<and> symbolic_coherence_s example_nlp (take 2 example_rows3) = Inr 0.3"
  using symbolic_coherence_s_fallback [of "take 2 example_rows3" example_nlp] by (simp add: example_rows3_def)

end
