(* ===== verification/Timeline.thy ===== *)
theory Timeline
  imports Energy Coherence
begin

text \<open>
  Impact and the timeline, src/src/metrics.py lines 61-76. \<open>impact_I\<close> is
  \<open>float(np.clip((E * s) / (c2**1), 0, 1))\<close> with E a Python float (the Energy score,
  possibly blended) and s, c2 finite. \<open>per_minute_timeline\<close> walks
  \<open>range(0, len(df), 20)\<close>: the recursion \<open>timeline_from\<close> carries the loop index
  \<open>i\<close> and terminates because \<open>len(df) - i\<close> decreases; each window
  \<open>df.iloc[i:i+20]\<close> is \<open>take 20 (drop i ts)\<close> and gives one \<open>block\<close> (the row
  \<open>{"block_start", "E", "s", "c2", "I"}\<close> of the resulting DataFrame). The first window
  on which \<open>symbolic_coherence_s\<close> raises aborts the whole timeline with its error.
  The reference \<open>windows\<close> states the contract: consecutive, non-overlapping windows of
  20 turns, the last one shorter.
\<close>

definition impact_I :: "pyfloat \<Rightarrow> real \<Rightarrow> real \<Rightarrow> pyfloat" where
  "impact_I E s c2 = np_clip (pf_div (pf_mul E (Fin s)) (Fin (c2 ^ 1))) 0 1"

record block =
  block_start :: nat
  block_E :: pyfloat
  block_s :: real
  block_c2 :: real
  block_I :: pyfloat

definition timeline_block :: "nlp_lib \<Rightarrow> nat \<Rightarrow> 'a turn_scheme list \<Rightarrow> py_error + block" where
  "timeline_block L i chunk =
     (case symbolic_coherence_s L chunk of
        Inl e \<Rightarrow> Inl e
      | Inr s \<Rightarrow>
          (let c2 = connection_c2 chunk; E = energy_E chunk; I = impact_I E s c2
           in Inr \<lparr>block_start = i, block_E = E, block_s = s, block_c2 = c2, block_I = I\<rparr>))"

function timeline_from :: "nlp_lib \<Rightarrow> nat \<Rightarrow> 'a turn_scheme list \<Rightarrow> py_error + block list" where
  "timeline_from L i ts =
     (if length ts \<le> i then Inr []
      else (let chunk = take 20 (drop i ts)
            in if length chunk = 0 then timeline_from L (i + 20) ts
               else (case timeline_block L i chunk of
                       Inl e \<Rightarrow> Inl e
                     | Inr b \<Rightarrow> (case timeline_from L (i + 20) ts of
                                  Inl e \<Rightarrow> Inl e
                                | Inr bs \<Rightarrow> Inr (b # bs)))))"
  by pat_completeness auto
termination
  by (relation "measure (\<lambda>(L, i, ts). length ts - i)") auto

declare timeline_from.simps [simp del]

definition per_minute_timeline :: "nlp_lib \<Rightarrow> 'a turn_scheme list \<Rightarrow> py_error + block list" where
  "per_minute_timeline L ts = timeline_from L 0 ts"

text \<open>The reference: the windows of the contract, and the sequencing of fallible steps.\<close>

definition windows :: "'a list \<Rightarrow> 'a list list" where
  "windows ts = map (\<lambda>k. take 20 (drop (20 * k) ts)) [0..<(length ts + 19) div 20]"

fun sequence_sum :: "('e + 'b) list \<Rightarrow> 'e + 'b list" where
  "sequence_sum [] = Inr []"
| "sequence_sum (x # xs) =
     (case x of Inl e \<Rightarrow> Inl e | Inr b \<Rightarrow> (case sequence_sum xs of Inl e \<Rightarrow> Inl e | Inr bs \<Rightarrow> Inr (b # bs)))"

definition block_ok :: "block \<Rightarrow> bool" where
  "block_ok b \<longleftrightarrow>
     fin_within 0 1 (block_E b) \<and> 0 \<le> block_s b \<and> block_s b \<le> 1 \<and>
     0.05 \<le> block_c2 b \<and> block_c2 b \<le> 1 \<and> fin_within 0 1 (block_I b)"

definition example_row :: row where
  "example_row = \<lparr>ts_start = None, ts_end = None, speaker = ascii ''Alice'', text_col = ascii ''Hello there''\<rparr>"

lemmas timeline_defs [model_eval] = impact_I_def timeline_block_def per_minute_timeline_def


subsection \<open>The loop against the reference\<close>

lemma sequence_sum_map_Inr [simp]: "sequence_sum (map Inr bs) = Inr bs"
  by (induction bs) auto

lemma sequence_sum_Inr:
  "sequence_sum xs = Inr bs \<longleftrightarrow> xs = map Inr bs"
proof (induction xs arbitrary: bs)
  case (Cons x xs)
  then show ?case by (cases x) (auto split: sum.splits)
qed auto

lemma window_count_step:
  "\<not> n \<le> (i::nat) \<Longrightarrow> (n - i + 19) div 20 = Suc ((n - (i + 20) + 19) div 20)"
proof -
  assume "\<not> n \<le> i"
  then obtain d where d: "n - i = Suc d" by (cases "n - i") auto
  then have e: "n - (i + 20) = d - 19" by simp
  show ?thesis
  proof (cases "d \<le> 19")
    case True
    then have "(Suc d + 19) div 20 = 1" by (intro div_nat_eqI) simp_all
    with True show ?thesis by (simp only: d e)
  next
    case False
    then have "Suc d + 19 = (d - 19 + 19) + 20" by simp
    then show ?thesis by (simp only: d e)
  qed
qed

lemma timeline_from_windows:
  "timeline_from L i ts =
     sequence_sum (map (\<lambda>k. timeline_block L (i + 20 * k) (take 20 (drop (i + 20 * k) ts)))
                       [0..<(length ts - i + 19) div 20])"
proof (induction L i ts rule: timeline_from.induct)
  case (1 L i ts)
  show ?case
  proof (cases "length ts \<le> i")
    case True
    then show ?thesis by (simp add: timeline_from.simps [of L i ts])
  next
    case False
    then have ne: "length (take 20 (drop i ts)) \<noteq> 0" by simp
    have IH: "timeline_from L (i + 20) ts =
        sequence_sum (map (\<lambda>k. timeline_block L (i + 20 + 20 * k) (take 20 (drop (i + 20 + 20 * k) ts)))
                          [0..<(length ts - (i + 20) + 19) div 20])"
      if "timeline_block L i (take 20 (drop i ts)) = Inr b" for b
      using "1.IH"(2) [OF False refl ne that] .
    have shift: "map (\<lambda>k. timeline_block L (i + 20 * k) (take 20 (drop (i + 20 * k) ts))) [Suc 0..<Suc m] =
        map (\<lambda>k. timeline_block L (i + 20 + 20 * k) (take 20 (drop (i + 20 + 20 * k) ts))) [0..<m]" for m
      by (simp only: map_Suc_upt [symmetric] map_map o_def) (simp add: algebra_simps)
    define m where "m = (length ts - (i + 20) + 19) div 20"
    have cnt: "(length ts - i + 19) div 20 = Suc m"
      unfolding m_def using False by (rule window_count_step)
    have rhs: "map (\<lambda>k. timeline_block L (i + 20 * k) (take 20 (drop (i + 20 * k) ts)))
                 [0..<(length ts - i + 19) div 20] =
               timeline_block L i (take 20 (drop i ts)) #
               map (\<lambda>k. timeline_block L (i + 20 + 20 * k) (take 20 (drop (i + 20 + 20 * k) ts))) [0..<m]"
      by (simp only: cnt upt_conv_Cons [OF zero_less_Suc] list.map shift) simp
    show ?thesis
    proof (cases "timeline_block L i (take 20 (drop i ts))")
      case (Inl e)
      with False ne show ?thesis unfolding rhs by (simp add: timeline_from.simps [of L i ts])
    next
      case (Inr b)
      with False ne IH [OF Inr] show ?thesis unfolding rhs m_def
        by (simp add: timeline_from.simps [of L i ts] split: sum.splits)
    qed
  qed
qed

lemma concat_take_drop_blocks:
  "concat (map (\<lambda>k. take c (drop (c * k) xs)) [0..<m]) = take (c * m) xs"
proof (induction m)
  case (Suc m)
  have "take (c * Suc m) xs = take (c * m + c) xs" by (simp add: algebra_simps)
  also have "\<dots> = take (c * m) xs @ take c (drop (c * m) xs)" by (rule take_add)
  finally show ?case using Suc by simp
qed simp

lemma windows_concat: "concat (windows ts) = ts"
proof -
  have "length ts \<le> 20 * ((length ts + 19) div 20)" by linarith
  then show ?thesis by (simp add: windows_def concat_take_drop_blocks)
qed

lemma windows_shape: "w \<in> set (windows ts) \<Longrightarrow> w \<noteq> [] \<and> length w \<le> 20"
proof -
  assume "w \<in> set (windows ts)"
  then obtain k where k: "k < (length ts + 19) div 20" "w = take 20 (drop (20 * k) ts)"
    by (auto simp: windows_def)
  then have "20 * k < length ts" by linarith
  with k show ?thesis by auto
qed

lemma length_windows: "length (windows ts) = (length ts + 19) div 20"
  by (simp add: windows_def)

lemma per_minute_timeline_windows:
  "per_minute_timeline L ts =
     sequence_sum (map (\<lambda>k. timeline_block L (20 * k) (windows ts ! k)) [0..<length (windows ts)])"
proof -
  have "map (\<lambda>k. timeline_block L (20 * k) (windows ts ! k)) [0..<length (windows ts)] =
      map (\<lambda>k. timeline_block L (20 * k) (take 20 (drop (20 * k) ts))) [0..<(length ts + 19) div 20]"
    by (intro map_cong) (simp_all add: windows_def)
  then show ?thesis by (simp add: per_minute_timeline_def timeline_from_windows)
qed


subsection \<open>Bounds of impact and of the blocks\<close>

lemma impact_I_within [bound_rules]:
  assumes "fin_within 0 1 E" "0 < c2"
  shows "fin_within 0 1 (impact_I E s c2)"
proof -
  obtain e where "E = Fin e" using assms(1) by (auto simp: fin_within_iff)
  with assms(2) show ?thesis by (simp add: impact_I_def clip_lower clip_upper)
qed

lemma timeline_block_ok:
  assumes "\<forall>t\<in>set chunk. nonneg_or_inf (duration_s t)" "timeline_block L i chunk = Inr b"
  shows "block_ok b \<and> block_start b = i"
proof -
  obtain s where s: "symbolic_coherence_s L chunk = Inr s" and
    b: "b = \<lparr>block_start = i, block_E = energy_E chunk, block_s = s, block_c2 = connection_c2 chunk,
             block_I = impact_I (energy_E chunk) s (connection_c2 chunk)\<rparr>"
    using assms(2) by (auto simp: timeline_block_def Let_def split: sum.splits)
  have s01: "0 \<le> s \<and> s \<le> 1" using s by (rule symbolic_coherence_s_Inr_within)
  have E: "fin_within 0 1 (energy_E chunk)" using assms(1) by (rule energy_E_within_general)
  obtain c where c2: "connection_c2 chunk = clip 0.05 1 c" using connection_c2_clip by blast
  have "0 < connection_c2 chunk" using connection_c2_pos by blast
  with E have "fin_within 0 1 (impact_I (energy_E chunk) s (connection_c2 chunk))"
    by (rule impact_I_within)
  moreover have "0.05 \<le> clip 0.05 1 c \<and> clip 0.05 1 c \<le> (1::real)" by (rule clip_within) simp
  ultimately show ?thesis using s01 E c2 by (simp add: b block_ok_def)
qed

lemma window_durations:
  "\<forall>t\<in>set ts. nonneg_or_inf (duration_s t) \<Longrightarrow> w \<in> set (windows ts) \<Longrightarrow>
   \<forall>t\<in>set w. nonneg_or_inf (duration_s t)"
proof -
  assume "\<forall>t\<in>set ts. nonneg_or_inf (duration_s t)" "w \<in> set (windows ts)"
  moreover have "set w \<subseteq> set (concat (windows ts))" using \<open>w \<in> set (windows ts)\<close> by auto
  ultimately show ?thesis by (auto simp: windows_concat)
qed

lemma add_basic_fields_durations: "\<forall>t\<in>set (add_basic_fields rows). nonneg_or_inf (duration_s t)"
  using enriched_enrich_row by (auto simp: add_basic_fields_def enriched_def)


lemma per_minute_timeline_Inr:
  assumes "per_minute_timeline L ts = Inr bs"
  shows "length bs = length (windows ts) \<and>
         (\<forall>k < length bs. timeline_block L (20 * k) (windows ts ! k) = Inr (bs ! k))"
proof -
  have eq: "map (\<lambda>k. timeline_block L (20 * k) (windows ts ! k)) [0..<length (windows ts)] = map Inr bs"
    using assms by (simp add: per_minute_timeline_windows sequence_sum_Inr)
  then have len: "length bs = length (windows ts)"
    using map_eq_imp_length_eq by fastforce
  have "timeline_block L (20 * k) (windows ts ! k) = Inr (bs ! k)" if "k < length bs" for k
  proof -
    have "map (\<lambda>k. timeline_block L (20 * k) (windows ts ! k)) [0..<length (windows ts)] ! k = map Inr bs ! k"
      using eq by simp
    then show ?thesis using that len by simp
  qed
  with len show ?thesis by blast
qed

lemma timeline_block_Inr:
  "symbolic_coherence_s L chunk = Inr s \<Longrightarrow> \<exists>b. timeline_block L i chunk = Inr b"
  by (simp add: timeline_block_def Let_def)

lemma example_timeline:
  "\<exists>b. per_minute_timeline example_nlp (add_basic_fields [example_row]) = Inr [b]"
proof -
  have w: "windows (add_basic_fields [example_row]) = [add_basic_fields [example_row]]"
    by (simp add: windows_def add_basic_fields_def)
  have "symbolic_coherence_s example_nlp (add_basic_fields [example_row]) = Inr 0.3"
    by (simp add: symbolic_coherence_s_def add_basic_fields_def)
  then obtain b where "timeline_block example_nlp 0 (add_basic_fields [example_row]) = Inr b"
    using timeline_block_Inr by blast
  then show ?thesis by (simp add: per_minute_timeline_windows w)
qed

lemma timeline_block_start: "timeline_block L i chunk = Inr b \<Longrightarrow> block_start b = i"
  by (auto simp: timeline_block_def Let_def split: sum.splits)

lemma per_minute_timeline_ok:
  assumes "\<forall>t\<in>set ts. nonneg_or_inf (duration_s t)" "per_minute_timeline L ts = Inr bs"
  shows "\<forall>b\<in>set bs. block_ok b"
proof
  fix b assume "b \<in> set bs"
  then obtain k where k: "k < length bs" "b = bs ! k" by (auto simp: in_set_conv_nth)
  have blk: "timeline_block L (20 * k) (windows ts ! k) = Inr b" and kw: "k < length (windows ts)"
    using per_minute_timeline_Inr [OF assms(2)] k by auto
  have "\<forall>t\<in>set (windows ts ! k). nonneg_or_inf (duration_s t)"
    by (intro window_durations [OF assms(1)] nth_mem kw)
  from timeline_block_ok [OF this blk] show "block_ok b" by simp
qed

lemma sequence_sum_Inl: "sequence_sum xs = Inl e \<Longrightarrow> Inl e \<in> set xs"
proof (induction xs)
  case (Cons x xs)
  then show ?case by (cases x) (auto split: sum.splits)
qed simp

lemma per_minute_timeline_Inl:
  assumes "per_minute_timeline L ts = Inl e"
  shows "e = empty_vocabulary_error"
proof -
  obtain k where "Inl e = timeline_block L (20 * k) (windows ts ! k)"
    using sequence_sum_Inl [OF assms [unfolded per_minute_timeline_windows]] by auto
  then have "symbolic_coherence_s L (windows ts ! k) = Inl e"
    by (auto simp: timeline_block_def Let_def split: sum.splits)
  then show ?thesis using symbolic_coherence_s_cases [where L = L and ts = "windows ts ! k"] by simp
qed

lemma sequence_sum_isl: "isl (sequence_sum xs) \<longleftrightarrow> (\<exists>x\<in>set xs. isl x)"
proof (induction xs)
  case (Cons x xs)
  then show ?case by (cases x) (auto split: sum.splits)
qed simp

lemma timeline_block_isl: "isl (timeline_block L i chunk) \<longleftrightarrow> isl (symbolic_coherence_s L chunk)"
  by (simp add: timeline_block_def Let_def split: sum.split)

lemma per_minute_timeline_isl:
  "isl (per_minute_timeline L ts) \<longleftrightarrow>
   (\<exists>w\<in>set (windows ts). 3 \<le> length w \<and> vocabulary L (map text_col w) = [])"
proof -
  have "isl (per_minute_timeline L ts) \<longleftrightarrow>
      (\<exists>k<length (windows ts). isl (symbolic_coherence_s L (windows ts ! k)))"
    by (auto simp: per_minute_timeline_windows sequence_sum_isl timeline_block_isl)
  also have "\<dots> \<longleftrightarrow> (\<exists>w\<in>set (windows ts). isl (symbolic_coherence_s L w))"
    by (auto simp: in_set_conv_nth intro!: bexI [OF _ nth_mem])
  finally show ?thesis by (simp only: symbolic_coherence_s_error_iff)
qed

lemma windows_single: "ts \<noteq> [] \<Longrightarrow> length ts \<le> 20 \<Longrightarrow> windows ts = [ts]"
proof -
  assume "ts \<noteq> []" "length ts \<le> 20"
  then have "(length ts + 19) div 20 = 1" by (intro div_nat_eqI) (simp_all add: Suc_leI)
  with \<open>length ts \<le> 20\<close> show ?thesis by (simp add: windows_def)
qed

subsection \<open>Properties\<close>

text \<open>
  C4. Impact is bounded: for every enriched table, the impact computed from its Energy and
  Connection scores and any coherence value \<open>s\<close> in \<open>[0, 1]\<close> is a finite float in
  \<open>[0, 1]\<close>; c2's floor of 0.05 makes the division safe.
\<close>

theorem impact_I_enriched_within:
  "fin_within 0 1 (impact_I (energy_E (add_basic_fields rows)) s (connection_c2 (add_basic_fields rows)))"
proof -
  have "0 < connection_c2 (add_basic_fields rows)"
    using connection_c2_pos by blast
  with energy_E_within_general [OF add_basic_fields_durations] show ?thesis
    by (rule impact_I_within)
qed

text \<open>
  C6. Timeline shape: when the timeline of an enriched table is computed, it has one block
  per 20-turn window, \<open>ceil(n / 20)\<close> blocks in all, and the blocks start at turns
  0, 20, 40, and so on.
\<close>

theorem timeline_block_count:
  assumes "per_minute_timeline L ts = Inr bs"
  shows "length bs = (length ts + 19) div 20 \<and>
         map block_start bs = map (\<lambda>k. 20 * k) [0..<(length ts + 19) div 20]"
proof -
  have len: "length bs = (length ts + 19) div 20"
    using per_minute_timeline_Inr [OF assms] by (simp add: length_windows)
  have starts: "map block_start bs = map (\<lambda>k. 20 * k) [0..<length bs]"
  proof (rule nth_equalityI)
    fix k assume "k < length (map block_start bs)"
    then have k: "k < length bs" by simp
    with per_minute_timeline_Inr [OF assms]
    have "timeline_block L (20 * k) (windows ts ! k) = Inr (bs ! k)" by simp
    then have "block_start (bs ! k) = 20 * k" by (rule timeline_block_start)
    with k show "map block_start bs ! k = map (\<lambda>k. 20 * k) [0..<length bs] ! k" by simp
  qed simp
  with len show ?thesis by simp
qed

theorem timeline_block_count_witness:
  "\<exists>bs. per_minute_timeline example_nlp (add_basic_fields [example_row]) = Inr bs \<and> length bs = 1"
proof -
  obtain b where bs: "per_minute_timeline example_nlp (add_basic_fields [example_row]) = Inr [b]"
    using example_timeline by blast
  have "length [b] = (length (add_basic_fields [example_row]) + 19) div 20"
    using timeline_block_count [OF bs] by (rule conjunct1)
  moreover have "length (add_basic_fields [example_row]) = 1"
    by (simp only: add_basic_fields_def length_map) simp
  ultimately have "length [b] = 1" by simp
  with bs show ?thesis by blast
qed

text \<open>
  C7. Every block of the timeline of an enriched table has E and I finite in
  \<open>[0, 1]\<close>, s in \<open>[0, 1]\<close> and c2 in \<open>[0.05, 1]\<close>: windows are scored with the same
  bounded functions as the whole table.
\<close>

theorem timeline_blocks_within:
  assumes "per_minute_timeline L (add_basic_fields rows) = Inr bs"
  shows "\<forall>b\<in>set bs. block_ok b"
  using add_basic_fields_durations assms by (rule per_minute_timeline_ok)

theorem timeline_blocks_within_witness:
  "\<exists>bs. per_minute_timeline example_nlp (add_basic_fields [example_row]) = Inr bs \<and> (\<forall>b\<in>set bs. block_ok b)"
proof -
  obtain b where bs: "per_minute_timeline example_nlp (add_basic_fields [example_row]) = Inr [b]"
    using example_timeline by blast
  with timeline_blocks_within [OF bs] show ?thesis by blast
qed

end
