(* ===== verification/Mentimeter.thy ===== *)
theory Mentimeter
  imports Timeline "HOL-Library.Word"
begin

text \<open>
  The Mentimeter summary of src/app.py (\<open>summarise_mentimeter\<close>, lines 12-62) and the
  participation blend of lines 128-137 (\<open>blend_E\<close>, \<open>menti_step\<close>).

  A Mentimeter export is the DataFrame of \<open>load_mentimeter_csv\<close> (\<open>menti_table\<close>):
  its column names, and for each row the cells of the columns that \<open>cols[key]\<close> selects
  for the keys \<open>question\<close>, \<open>type\<close>, \<open>votes\<close> and \<open>top_result\<close> (a column is present
  when some name, lowercased and stripped, is the key; \<open>has_column\<close>). A cell is an
  \<open>int64\<close>, a float, a string or missing (\<open>cell\<close>): \<open>read_csv\<close> reads a column of
  integers as \<open>int64\<close> and one with a missing cell or a fraction as \<open>float64\<close>.
  \<open>pandas.to_numeric\<close> on a string and \<open>str()\<close> of a float are the library functions
  of \<open>pd_lib\<close>. Case-insensitive \<open>str.contains\<close> compares lowercased strings.

  The vote total of line 30 is computed as pandas computes it (\<open>votes_total\<close>): an
  \<open>int64\<close> column is summed in \<open>int64\<close>, wrapping modulo \<open>2^64\<close> (\<open>64 word\<close>); any
  other column is converted to \<open>float64\<close>, its missing values filled with 0, and summed
  by numpy's pairwise summation (\<open>pairwise_sum\<close>: sequential below 8 values, eight
  accumulators up to 128, halves above), each addition overflowing to \<open>inf\<close> when its
  exact result reaches \<open>2^1024 - 2^970\<close> in magnitude (\<open>f64_add\<close>; rounding below the
  overflow threshold is not modelled). A column that is missing gives the total 0.

  The lookups of lines 36-53 fail as pandas fails on a table that lacks a column: the
  missing column is an empty Series, and indexing with an empty boolean Series raises
  \<open>IndexingError\<close> (line 37 when \<open>type\<close> is missing and \<open>top_result\<close> present; line
  50 when \<open>type\<close> and \<open>question\<close> are both missing), \<open>.iloc[0]\<close> of an empty selection
  raises \<open>IndexError\<close> (line 44), and \<open>risk_rows["top_result"]\<close> raises \<open>KeyError\<close>
  (line 53); \<open>int(votes)\<close> of line 57 raises on an infinite or undefined float total.
\<close>

datatype cell = CInt "64 word" | CNum pyfloat | CStr ustr | CNA

record menti_row =
  m_question :: cell
  m_type :: cell
  m_votes :: cell
  m_top_result :: cell

record menti_table =
  m_columns :: "ustr list"
  m_rows :: "menti_row list"

record pd_lib =
  to_numeric_str :: "ustr \<Rightarrow> pyfloat"
  num_str :: "pyfloat \<Rightarrow> ustr"

text \<open>\<open>str(i)\<close> of an integer.\<close>

definition show_int :: "int \<Rightarrow> ustr" where
  "show_int i = (if i < 0 then 45 # show_nat (nat (- i)) else show_nat (nat i))"

definition cell_str :: "pd_lib \<Rightarrow> cell \<Rightarrow> ustr" where
  "cell_str lib c =
     (case c of CInt w \<Rightarrow> show_int (sint w) | CNum x \<Rightarrow> num_str lib x | CStr s \<Rightarrow> s | CNA \<Rightarrow> ascii ''nan'')"

definition to_numeric :: "pd_lib \<Rightarrow> cell \<Rightarrow> pyfloat" where
  "to_numeric lib c =
     (case c of CInt w \<Rightarrow> Fin (real_of_int (sint w)) | CNum x \<Rightarrow> x | CStr s \<Rightarrow> to_numeric_str lib s | CNA \<Rightarrow> NaN)"

definition contains_ci :: "ustr \<Rightarrow> ustr \<Rightarrow> bool" where
  "contains_ci pat s \<longleftrightarrow> py_in (py_lower pat) (py_lower s)"

definition fillna0 :: "pyfloat \<Rightarrow> pyfloat" where
  "fillna0 x = (if x = NaN then Fin 0 else x)"

definition has_column :: "menti_table \<Rightarrow> ustr \<Rightarrow> bool" where
  "has_column t key \<longleftrightarrow> key \<in> set (map (\<lambda>c. py_strip (py_lower c)) (m_columns t))"

definition menti_empty :: "menti_table \<Rightarrow> bool" where
  "menti_empty t \<longleftrightarrow> m_rows t = [] \<or> m_columns t = []"

subsection \<open>Float64 summation\<close>

definition f64_overflow :: real where
  "f64_overflow = 2 ^ 1024 - 2 ^ 970"

fun f64_round :: "pyfloat \<Rightarrow> pyfloat" where
  "f64_round (Fin x) = (if f64_overflow \<le> \<bar>x\<bar> then (if 0 < x then PInf else NInf) else Fin x)"
| "f64_round x = x"

definition f64_add :: "pyfloat \<Rightarrow> pyfloat \<Rightarrow> pyfloat" where
  "f64_add a b = f64_round (pf_add a b)"

fun chunks8 :: "'a list \<Rightarrow> 'a list list" where
  "chunks8 [] = []"
| "chunks8 (x # xs) = take 8 (x # xs) # chunks8 (drop 7 xs)"

text \<open>numpy's \<open>pairwise_sum\<close> (numpy/_core/src/umath/loops_utils.h.src) for a
  contiguous \<open>float64\<close> array.\<close>

function pairwise_sum :: "pyfloat list \<Rightarrow> pyfloat" where
  "pairwise_sum xs =
     (if length xs < 8 then foldl f64_add (Fin 0) xs
      else if length xs \<le> 128 then
        (let m = length xs - length xs mod 8;
             r = foldl (map2 f64_add) (take 8 xs) (chunks8 (take (m - 8) (drop 8 xs)));
             res = f64_add (f64_add (f64_add (r ! 0) (r ! 1)) (f64_add (r ! 2) (r ! 3)))
                           (f64_add (f64_add (r ! 4) (r ! 5)) (f64_add (r ! 6) (r ! 7)))
         in foldl f64_add res (drop m xs))
      else
        (let n2 = length xs div 2 - length xs div 2 mod 8
         in f64_add (pairwise_sum (take n2 xs)) (pairwise_sum (drop n2 xs))))"
  by pat_completeness auto
termination
  by (relation "measure length") auto

text \<open>\<open>np.add.reduce\<close>: the accumulator starts at the identity 0 and adds the pairwise
  sum of the whole array.\<close>

definition np_sum :: "pyfloat list \<Rightarrow> pyfloat" where
  "np_sum xs = f64_add (Fin 0) (pairwise_sum xs)"

subsection \<open>The summary\<close>

datatype vote_total = VInt "64 word" | VFloat pyfloat

fun int_cells :: "cell list \<Rightarrow> 64 word list option" where
  "int_cells [] = Some []"
| "int_cells (CInt w # cs) = map_option (Cons w) (int_cells cs)"
| "int_cells (_ # cs) = None"

definition votes_total :: "pd_lib \<Rightarrow> menti_table \<Rightarrow> vote_total" where
  "votes_total lib t =
     (if \<not> has_column t (ascii ''votes'') then VFloat (Fin 0)
      else
        (let cs = map m_votes (m_rows t)
         in case int_cells cs of
              Some ws \<Rightarrow> VInt (sum_list ws)
            | None \<Rightarrow> VFloat (np_sum (map (\<lambda>c. fillna0 (to_numeric lib c)) cs))))"

text \<open>\<open>float(min(1.0, votes / 30.0))\<close> (line 33).\<close>

definition vote_participation :: "vote_total \<Rightarrow> pyfloat" where
  "vote_participation v =
     (case v of
        VInt w \<Rightarrow> py_min (Fin 1) (Fin (real_of_int (sint w) / 30))
      | VFloat x \<Rightarrow> py_min (Fin 1) (pf_div x (Fin 30)))"

text \<open>\<open>int(x)\<close> of a float: truncation towards zero; \<open>inf\<close> and \<open>nan\<close> raise.\<close>

definition int_of_float :: "pyfloat \<Rightarrow> py_error + int" where
  "int_of_float x =
     (case x of
        Fin a \<Rightarrow> Inr (if 0 \<le> a then \<lfloor>a\<rfloor> else \<lceil>a\<rceil>)
      | NaN \<Rightarrow> Inl (ValueError (ascii ''cannot convert float NaN to integer''))
      | _ \<Rightarrow> Inl (OverflowError (ascii ''cannot convert float infinity to integer'')))"

text \<open>\<open>int(votes)\<close> (line 57): an \<open>int64\<close> total is read as signed.\<close>

definition vote_int :: "vote_total \<Rightarrow> py_error + int" where
  "vote_int v = (case v of VInt w \<Rightarrow> Inr (sint w) | VFloat x \<Rightarrow> int_of_float x)"

definition mean_skipna :: "pyfloat list \<Rightarrow> pyfloat" where
  "mean_skipna xs =
     (let ys = filter (\<lambda>x. x \<noteq> NaN) xs
      in if ys = [] then NaN else pf_div (foldl pf_add (Fin 0) ys) (Fin (real (length ys))))"

record menti_summary =
  questions :: nat
  total_votes :: int
  participation_index :: pyfloat
  confidence_mean :: "pyfloat option"
  opt_out_selected :: "bool option"
  top_risk :: "ustr option"

definition empty_summary :: menti_summary where
  "empty_summary =
     \<lparr>questions = 0, total_votes = 0, participation_index = Fin 0, confidence_mean = None,
      opt_out_selected = None, top_risk = None\<rparr>"

definition unalignable_error :: py_error where
  "unalignable_error =
     IndexingError (ascii ''Unalignable boolean Series provided as indexer'')"

definition iloc_error :: py_error where
  "iloc_error = IndexError (ascii ''single positional indexer is out-of-bounds'')"

definition top_result_error :: py_error where
  "top_result_error = KeyError (ascii ''top_result'')"

definition summarise_mentimeter :: "pd_lib \<Rightarrow> menti_table \<Rightarrow> py_error + menti_summary" where
  "summarise_mentimeter lib t =
     (if menti_empty t then Inr empty_summary
      else
        (let rows = m_rows t;
             has_q = has_column t (ascii ''question'');
             has_ty = has_column t (ascii ''type'');
             has_top = has_column t (ascii ''top_result'');
             votes = votes_total lib t;
             participation = vote_participation votes;
             typ = (\<lambda>r. cell_str lib (m_type r))
         in if \<not> has_ty \<and> has_top then Inl unalignable_error
            else
              (let scale_vals = (if has_ty \<and> has_top
                                 then map (\<lambda>r. to_numeric lib (m_top_result r))
                                        (filter (\<lambda>r. contains_ci (ascii ''scale'') (typ r)) rows)
                                 else []);
                   confidence = (if scale_vals = [] then None else Some (mean_skipna scale_vals));
                   yes_rows = (if has_ty then filter (\<lambda>r. contains_ci (ascii ''yes'') (typ r)) rows else [])
               in if yes_rows \<noteq> [] \<and> \<not> has_top then Inl iloc_error
                  else
                    (let opt_out = (case yes_rows of
                                      [] \<Rightarrow> None
                                    | r # _ \<Rightarrow> Some (py_lower (cell_str lib (m_top_result r)) = ascii ''yes''))
                     in if \<not> has_ty \<and> \<not> has_q then Inl unalignable_error
                        else
                          (let risk_rows = (if has_ty \<and> has_q
                                            then filter (\<lambda>r. contains_ci (ascii ''multiple'') (typ r) \<and>
                                                   contains_ci (ascii ''risk'') (cell_str lib (m_question r))) rows
                                            else [])
                           in if risk_rows \<noteq> [] \<and> \<not> has_top then Inl top_result_error
                              else
                                (let risk = (case risk_rows of [] \<Rightarrow> None | r # _ \<Rightarrow> Some (cell_str lib (m_top_result r)))
                                 in case vote_int votes of
                                      Inl e \<Rightarrow> Inl e
                                    | Inr tv \<Rightarrow>
                                        Inr \<lparr>questions = length rows, total_votes = tv,
                                             participation_index = participation, confidence_mean = confidence,
                                             opt_out_selected = opt_out, top_risk = risk\<rparr>))))))"

text \<open>The participation blend of lines 132-135: \<open>min(1.0, 0.85 * E + 0.15 * p)\<close>.\<close>

definition blend_E :: "pyfloat \<Rightarrow> pyfloat \<Rightarrow> pyfloat" where
  "blend_E E p = py_min (Fin 1) (pf_add (pf_mul (Fin 0.85) E) (pf_mul (Fin 0.15) p))"

datatype menti_upload = NoMenti | Menti menti_table

text \<open>Lines 126-137: a non-empty export is summarised; with the checkbox set, E is blended
  and I recomputed.\<close>

definition menti_step ::
  "pd_lib \<Rightarrow> menti_upload \<Rightarrow> bool \<Rightarrow> pyfloat \<Rightarrow> real \<Rightarrow> real \<Rightarrow> pyfloat \<Rightarrow>
   py_error + pyfloat \<times> pyfloat \<times> menti_summary option" where
  "menti_step lib m blend E s c2 I =
     (case m of
        NoMenti \<Rightarrow> Inr (E, I, None)
      | Menti t \<Rightarrow>
          (if menti_empty t then Inr (E, I, None)
           else (case summarise_mentimeter lib t of
                   Inl e \<Rightarrow> Inl e
                 | Inr sm \<Rightarrow>
                     (if blend then (let E' = blend_E E (participation_index sm) in Inr (E', impact_I E' s c2, Some sm))
                      else Inr (E, I, Some sm)))))"

subsection \<open>Error values, reference predicate and examples\<close>

text \<open>When the summary of a non-empty export raises, in the terms of the columns present
  and the rows (the reference the lemma \<open>summarise_mentimeter_raises\<close> proves the code meets).\<close>

definition menti_raises :: "pd_lib \<Rightarrow> menti_table \<Rightarrow> bool" where
  "menti_raises lib t \<longleftrightarrow>
     (let ty = has_column t (ascii ''type''); q = has_column t (ascii ''question'');
          top = has_column t (ascii ''top_result''); typ = (\<lambda>r. cell_str lib (m_type r))
      in (\<not> ty \<and> top) \<or>
         (ty \<and> \<not> top \<and> (\<exists>r\<in>set (m_rows t). contains_ci (ascii ''yes'') (typ r))) \<or>
         (\<not> ty \<and> \<not> q) \<or>
         (ty \<and> q \<and> \<not> top \<and> (\<exists>r\<in>set (m_rows t). contains_ci (ascii ''multiple'') (typ r) \<and>
                                 contains_ci (ascii ''risk'') (cell_str lib (m_question r)))) \<or>
         isl (vote_int (votes_total lib t)))"

definition int_overflow_error :: py_error where
  "int_overflow_error = OverflowError (ascii ''cannot convert float infinity to integer'')"

definition int_nan_error :: py_error where
  "int_nan_error = ValueError (ascii ''cannot convert float NaN to integer'')"

definition example_pd :: pd_lib where
  "example_pd = \<lparr>to_numeric_str = (\<lambda>_. NaN), num_str = (\<lambda>_. [])\<rparr>"

definition example_negative_menti :: menti_table where
  "example_negative_menti =
     \<lparr>m_columns = [ascii ''Question'', ascii ''Type'', ascii ''Votes'', ascii ''Top_Result''],
      m_rows = [\<lparr>m_question = CStr (ascii ''Votes''), m_type = CStr (ascii ''open''), m_votes = CInt (- 300),
                 m_top_result = CNA\<rparr>]\<rparr>"

definition example_wrap_menti :: menti_table where
  "example_wrap_menti =
     \<lparr>m_columns = [ascii ''question'', ascii ''type'', ascii ''votes'', ascii ''top_result''],
      m_rows = [\<lparr>m_question = CStr (ascii ''Q1''), m_type = CStr (ascii ''open''), m_votes = CInt 5000000000000000000,
                 m_top_result = CNA\<rparr>,
                \<lparr>m_question = CStr (ascii ''Q2''), m_type = CStr (ascii ''open''), m_votes = CInt 5000000000000000000,
                 m_top_result = CNA\<rparr>]\<rparr>"

definition example_untyped_menti :: menti_table where
  "example_untyped_menti =
     \<lparr>m_columns = [ascii ''Votes'', ascii ''Top_Result''],
      m_rows = [\<lparr>m_question = CNA, m_type = CNA, m_votes = CInt 4, m_top_result = CStr (ascii ''yes'')\<rparr>]\<rparr>"




lemmas mentimeter_defs [model_eval] =
  show_int_def cell_str_def to_numeric_def contains_ci_def fillna0_def has_column_def menti_empty_def
  f64_overflow_def f64_add_def np_sum_def votes_total_def vote_participation_def int_of_float_def
  vote_int_def mean_skipna_def empty_summary_def summarise_mentimeter_def blend_E_def menti_step_def

subsection \<open>Helper lemmas\<close>

lemma sint_signed_take_bit: "signed_take_bit 63 (sint (w :: 64 word)) = sint w"
  by (rule signed_take_bit_int_eq_self) (use sint_ge [of w] sint_lt [of w] in simp_all)

lemma sint_sum_list: "sint (sum_list (ws :: 64 word list)) = signed_take_bit 63 (\<Sum>w\<leftarrow>ws. sint w)"
proof (induction ws)
  case (Cons w ws)
  have "sint (w + sum_list ws) = signed_take_bit 63 (signed_take_bit 63 (sint w) + signed_take_bit 63 (\<Sum>w\<leftarrow>ws. sint w))"
    by (simp add: sint_word_add Cons sint_signed_take_bit)
  then show ?case by (simp add: signed_take_bit_add)
qed simp

lemma summarise_mentimeter_isl:
  "isl (summarise_mentimeter lib t) \<longleftrightarrow> \<not> menti_empty t \<and> menti_raises lib t"
  by (auto simp: summarise_mentimeter_def menti_raises_def Let_def filter_empty_conv split: sum.split)

lemma vote_int_Inl: "vote_int v = Inl e \<Longrightarrow> e = int_overflow_error \<or> e = int_nan_error"
  by (auto simp: vote_int_def int_of_float_def int_overflow_error_def int_nan_error_def
      split: vote_total.splits pyfloat.splits)

lemma vote_int_Inr_participation: "vote_int v = Inr n \<Longrightarrow> \<exists>p. vote_participation v = Fin p"
  by (auto simp: vote_int_def int_of_float_def vote_participation_def split: vote_total.splits pyfloat.splits)

lemma summarise_mentimeter_Inl:
  "summarise_mentimeter lib t = Inl e \<Longrightarrow>
   e \<in> {unalignable_error, iloc_error, top_result_error, int_overflow_error, int_nan_error}"
  by (auto simp: summarise_mentimeter_def Let_def split: if_splits sum.splits dest: vote_int_Inl)

lemma summarise_mentimeter_Inr:
  assumes "summarise_mentimeter lib t = Inr sm" "\<not> menti_empty t"
  shows "vote_int (votes_total lib t) = Inr (total_votes sm) \<and>
         participation_index sm = vote_participation (votes_total lib t) \<and> questions sm = length (m_rows t)"
  using assms by (auto simp: summarise_mentimeter_def Let_def split: if_splits sum.splits)

lemma summarise_mentimeter_participation:
  assumes "summarise_mentimeter lib t = Inr sm"
  shows "\<exists>p. participation_index sm = Fin p"
proof (cases "menti_empty t")
  case True
  then show ?thesis using assms by (auto simp: summarise_mentimeter_def empty_summary_def)
next
  case False
  with assms have "vote_int (votes_total lib t) = Inr (total_votes sm)"
    "participation_index sm = vote_participation (votes_total lib t)"
    by (simp_all add: summarise_mentimeter_Inr)
  then show ?thesis by (simp add: vote_int_Inr_participation)
qed

lemma blend_E_Fin: "blend_E (Fin e) (Fin p) = Fin (min 1 (0.85 * e + 0.15 * p))"
  by (simp add: blend_E_def)

lemma impact_I_Fin_within: "0 < c2 \<Longrightarrow> fin_within 0 1 (impact_I (Fin e) s c2)"
  by (simp add: impact_I_def clip_lower clip_upper)

lemma menti_step_Inl:
  "menti_step lib m blend E s c2 I = Inl e \<Longrightarrow>
   e \<in> {unalignable_error, iloc_error, top_result_error, int_overflow_error, int_nan_error}"
  by (auto simp: menti_step_def Let_def split: menti_upload.splits if_splits sum.splits
      dest: summarise_mentimeter_Inl)

lemma menti_step_Inr:
  assumes "menti_step lib m blend E s c2 I = Inr (E', I', sm)"
  shows "(E' = E \<and> I' = I) \<or> (\<exists>p. E' = blend_E E (Fin p) \<and> I' = impact_I E' s c2)"
proof (cases "\<exists>t sm. m = Menti t \<and> \<not> menti_empty t \<and> summarise_mentimeter lib t = Inr sm \<and> blend")
  case True
  then obtain t sm0 where r: "m = Menti t" "\<not> menti_empty t" "summarise_mentimeter lib t = Inr sm0" "blend"
    by blast
  then obtain p where "participation_index sm0 = Fin p" using summarise_mentimeter_participation by blast
  with r assms show ?thesis by (auto simp: menti_step_def Let_def)
next
  case False
  with assms show ?thesis
    by (auto simp: menti_step_def Let_def split: menti_upload.splits if_splits sum.splits)
qed

lemma menti_step_isl:
  "isl (menti_step lib m blend E s c2 I) \<longleftrightarrow>
   (case m of NoMenti \<Rightarrow> False | Menti t \<Rightarrow> \<not> menti_empty t \<and> menti_raises lib t)"
proof (cases m)
  case (Menti t)
  then have "isl (menti_step lib m blend E s c2 I) \<longleftrightarrow> \<not> menti_empty t \<and> isl (summarise_mentimeter lib t)"
    by (cases "summarise_mentimeter lib t") (auto simp: menti_step_def Let_def)
  with Menti show ?thesis by (simp add: summarise_mentimeter_isl)
qed (simp add: menti_step_def)

lemma example_negative_menti_votes_col: "has_column example_negative_menti (ascii ''votes'')"
  by (simp add: example_negative_menti_def has_column_def py_strip_def py_isspace_def py_lower_def py_lower_char_def)

lemma example_negative_menti_votes: "votes_total lib example_negative_menti = VInt (-300)"
  using example_negative_menti_votes_col by (simp add: votes_total_def example_negative_menti_def)

lemma example_negative_menti_columns: "has_column example_negative_menti (ascii ''type'') \<and> has_column example_negative_menti (ascii ''question'') \<and> has_column example_negative_menti (ascii ''top_result'')"
  by (simp add: example_negative_menti_def has_column_def py_strip_def py_isspace_def py_lower_def py_lower_char_def)

lemma example_wrap_menti_columns:
  "has_column example_wrap_menti (ascii ''votes'') \<and> has_column example_wrap_menti (ascii ''type'') \<and>
   has_column example_wrap_menti (ascii ''question'') \<and> has_column example_wrap_menti (ascii ''top_result'')"
  by (simp add: example_wrap_menti_def has_column_def py_strip_def py_isspace_def py_lower_def py_lower_char_def)

lemma example_wrap_menti_summary:
  "\<exists>sm. summarise_mentimeter lib example_wrap_menti = Inr sm"
proof -
  have "votes_total lib example_wrap_menti = VInt (5000000000000000000 + 5000000000000000000)"
    using example_wrap_menti_columns by (simp add: votes_total_def example_wrap_menti_def)
  then show ?thesis using example_wrap_menti_columns
    by (simp add: summarise_mentimeter_def vote_int_def Let_def)
qed





















subsection \<open>Properties\<close>

text \<open>
  C28. A Mentimeter export whose votes sum to -300 gives the participation index -10, and
  blending it drives E below 0 for every E in \<open>[0, 1]\<close>: the index is not clamped
  below, although the spec takes it in \<open>[0, 1]\<close>.
\<close>

theorem negative_votes_blend:
  assumes "fin_within 0 1 E"
  shows "\<exists>sm e. summarise_mentimeter lib example_negative_menti = Inr sm \<and> participation_index sm = Fin (-10) \<and>
                blend_E E (participation_index sm) = Fin e \<and> e < 0"
proof -
  obtain a where a: "E = Fin a" "0 \<le> a" "a \<le> 1" using assms by (auto simp: fin_within_iff)
  have "\<exists>sm. summarise_mentimeter lib example_negative_menti = Inr sm \<and> participation_index sm = Fin (-10)"
    using example_negative_menti_votes example_negative_menti_columns
    by (simp add: summarise_mentimeter_def menti_empty_def vote_int_def vote_participation_def Let_def)
       (simp add: example_negative_menti_def cell_str_def contains_ci_def py_lower_def py_lower_char_def)
  then obtain sm where "summarise_mentimeter lib example_negative_menti = Inr sm" "participation_index sm = Fin (-10)"
    by blast
  moreover have "blend_E E (Fin (-10)) = Fin (min 1 (0.85 * a - 1.5))" using a by (simp add: blend_E_Fin)
  moreover have "min 1 (0.85 * a - 1.5) < (0::real)" using a by simp
  ultimately show ?thesis by auto
qed

theorem negative_votes_blend_witness:
  "\<exists>sm e. summarise_mentimeter example_pd example_negative_menti = Inr sm \<and> participation_index sm = Fin (-10) \<and>
          blend_E (Fin (1 / 2)) (participation_index sm) = Fin e \<and> e < 0"
  using negative_votes_blend [of "Fin (1 / 2)" example_pd] by simp

text \<open>
  C29. The blend at the ends of the index range (spec section 8): with p = 0 it is
  \<open>0.85 * E \<le> E\<close>; with p = 1 it is \<open>0.85 * E + 0.15\<close>, at least E and at most 1.
\<close>

theorem blend_E_endpoints:
  assumes "0 \<le> e" "e \<le> 1"
  shows "blend_E (Fin e) (Fin 0) = Fin (0.85 * e) \<and> 0.85 * e \<le> e \<and>
         blend_E (Fin e) (Fin 1) = Fin (0.85 * e + 0.15) \<and> e \<le> 0.85 * e + 0.15 \<and> 0.85 * e + 0.15 \<le> 1"
  using assms by (simp add: blend_E_Fin min_def)

theorem blend_E_endpoints_witness:
  "blend_E (Fin (1 / 2)) (Fin 0) = Fin (0.85 * (1 / 2)) \<and> blend_E (Fin (1 / 2)) (Fin 1) = Fin (0.85 * (1 / 2) + 0.15)"
  using blend_E_endpoints [of "1 / 2"] by simp

text \<open>
  C30. An \<open>int64\<close> votes column is summed with wrap-around: the total the summary reports
  is the exact sum of the votes reduced to a signed 64-bit value, and the participation
  index is computed from that wrapped total (two cells of 5e18 give a negative total and
  a negative index).
\<close>

theorem votes_int64_wrap:
  assumes "summarise_mentimeter lib t = Inr sm" "\<not> menti_empty t"
    and "has_column t (ascii ''votes'')" "int_cells (map m_votes (m_rows t)) = Some ws"
  shows "total_votes sm = signed_take_bit 63 (\<Sum>w\<leftarrow>ws. sint w) \<and>
         participation_index sm = Fin (min 1 (real_of_int (signed_take_bit 63 (\<Sum>w\<leftarrow>ws. sint w)) / 30))"
proof -
  have "votes_total lib t = VInt (sum_list ws)" using assms(3,4) by (simp add: votes_total_def)
  then show ?thesis using summarise_mentimeter_Inr [OF assms(1,2)]
    by (simp add: vote_int_def vote_participation_def sint_sum_list)
qed

theorem votes_int64_wrap_witness:
  "\<exists>sm. summarise_mentimeter example_pd example_wrap_menti = Inr sm \<and>
        total_votes sm = -8446744073709551616 \<and> participation_index sm = Fin (-8446744073709551616 / 30)"
proof -
  obtain sm where sm: "summarise_mentimeter example_pd example_wrap_menti = Inr sm"
    using example_wrap_menti_summary by blast
  have "total_votes sm = signed_take_bit 63 (\<Sum>w\<leftarrow>[5000000000000000000, 5000000000000000000 :: 64 word]. sint w) \<and>
        participation_index sm =
          Fin (min 1 (real_of_int (signed_take_bit 63 (\<Sum>w\<leftarrow>[5000000000000000000, 5000000000000000000 :: 64 word]. sint w)) / 30))"
    using example_wrap_menti_columns
    by (intro votes_int64_wrap [OF sm]) (simp_all add: menti_empty_def example_wrap_menti_def)
  then show ?thesis using sm by simp
qed



text \<open>
  C31. A non-empty Mentimeter export makes \<open>summarise_mentimeter\<close> raise exactly when a
  lookup of a missing column fails (\<open>menti_raises\<close>: lines 37, 44, 50, 53) or the vote
  total is an infinite or undefined float (line 57), and the exception is one of
  \<open>IndexingError\<close>, \<open>IndexError\<close>, \<open>KeyError('top_result')\<close>, \<open>OverflowError\<close>
  and \<open>ValueError\<close>; an empty export never raises.
\<close>

theorem summarise_mentimeter_raises:
  "((\<exists>e. summarise_mentimeter lib t = Inl e) \<longleftrightarrow> \<not> menti_empty t \<and> menti_raises lib t) \<and>
   (\<forall>e. summarise_mentimeter lib t = Inl e \<longrightarrow>
        e \<in> {unalignable_error, iloc_error, top_result_error, int_overflow_error, int_nan_error})"
proof -
  have "(\<exists>e. summarise_mentimeter lib t = Inl e) \<longleftrightarrow> isl (summarise_mentimeter lib t)"
    by (cases "summarise_mentimeter lib t") auto
  then show ?thesis using summarise_mentimeter_Inl [of lib t] by (simp add: summarise_mentimeter_isl)
qed

theorem summarise_mentimeter_raises_witness:
  "summarise_mentimeter example_pd example_untyped_menti = Inl unalignable_error \<and>
   \<not> menti_empty example_untyped_menti \<and> menti_raises example_pd example_untyped_menti"
proof -
  have cols: "\<not> has_column example_untyped_menti (ascii ''type'')"
    "has_column example_untyped_menti (ascii ''top_result'')"
    by (simp_all add: example_untyped_menti_def has_column_def py_strip_def py_isspace_def py_lower_def py_lower_char_def)
  have ne: "\<not> menti_empty example_untyped_menti" by (simp add: menti_empty_def example_untyped_menti_def)
  have r: "summarise_mentimeter example_pd example_untyped_menti = Inl unalignable_error"
    using cols ne by (simp add: summarise_mentimeter_def Let_def)
  then show ?thesis using summarise_mentimeter_raises [of example_pd example_untyped_menti] by blast
qed

end
