(* ===== verification/Policy.thy ===== *)
theory Policy
  imports Enricher
begin

text \<open>
  The Policy Matcher, src/src/policy.py. The policy structure that \<open>load_policies\<close>
  reads from JSON is a two-level dict, corpus name to clause id to clause; a Python dict is
  an association list with distinct keys in insertion order. A clause (\<open>meta\<close>) is the
  record \<open>clause_meta\<close>: its \<open>duty\<close> is \<open>None\<close> when the key is absent (then
  \<open>meta["duty"]\<close> raises \<open>KeyError\<close>), its \<open>synonyms\<close> is \<open>None\<close> when absent
  (\<open>meta.get("synonyms", [])\<close> gives \<open>[]\<close>). \<open>pp_delta\<close> walks the corpora and their
  clauses in order and assigns \<open>out[cid]\<close>, which is \<open>AList.update\<close>: an existing key
  keeps its position and takes the new value, a new key is appended. The score is a sum of
  the constants 0.35 and 0.2, so it is exact in binary64 up to the comparisons with 0.4
  and 0.7, which no such sum reaches from the wrong side; it is modelled as a real, and
  \<open>round(x, 2)\<close> as rounding half to even at two decimals.
\<close>

record clause_meta =
  duty :: "ustr option"
  synonyms :: "ustr list option"

type_synonym clauses = "(ustr \<times> clause_meta) list"
type_synonym policies = "(ustr \<times> clauses) list"

datatype status = Ignored | Ambiguous | Addressed

record delta =
  delta_duty :: ustr
  delta_status :: status
  delta_score :: real

type_synonym pp_out = "(ustr \<times> delta) list"

definition pp_text :: "'a row_scheme list \<Rightarrow> ustr" where
  "pp_text ts = py_lower (py_join [32] (map text_col ts))"

definition clause_synonyms :: "clause_meta \<Rightarrow> ustr list" where
  "clause_synonyms meta = (case synonyms meta of None \<Rightarrow> [] | Some ss \<Rightarrow> ss)"

fun synonym_score :: "ustr \<Rightarrow> ustr list \<Rightarrow> real \<Rightarrow> real" where
  "synonym_score text [] score = score"
| "synonym_score text (syn # ss) score =
     synonym_score text ss (if py_in (py_lower syn) text then score + 0.2 else score)"

definition clause_status :: "real \<Rightarrow> status" where
  "clause_status score =
     (if 0.7 \<le> score then Addressed else if 0.4 \<le> score then Ambiguous else Ignored)"

text \<open>Python's \<open>round(x, 2)\<close>: to the nearest multiple of 0.01, ties to the even one.\<close>

definition round_half_even :: "real \<Rightarrow> int" where
  "round_half_even y =
     (let f = \<lfloor>y\<rfloor>; d = y - of_int f
      in if d < 1 / 2 then f else if 1 / 2 < d then f + 1 else if even f then f else f + 1)"

definition py_round2 :: "real \<Rightarrow> real" where
  "py_round2 x = of_int (round_half_even (x * 100)) / 100"

definition clause_delta :: "ustr \<Rightarrow> clause_meta \<Rightarrow> py_error + delta" where
  "clause_delta text meta =
     (case duty meta of
        None \<Rightarrow> Inl (KeyError (ascii ''duty''))
      | Some d \<Rightarrow>
          (let score = synonym_score text (clause_synonyms meta) (if py_in d text then 0.35 else 0)
           in Inr \<lparr>delta_duty = d, delta_status = clause_status score,
                   delta_score = py_round2 (min 0.99 score)\<rparr>))"

fun pp_clauses :: "ustr \<Rightarrow> pp_out \<Rightarrow> clauses \<Rightarrow> py_error + pp_out" where
  "pp_clauses text out [] = Inr out"
| "pp_clauses text out ((cid, meta) # cs) =
     (case clause_delta text meta of
        Inl e \<Rightarrow> Inl e
      | Inr d \<Rightarrow> pp_clauses text (AList.update cid d out) cs)"

fun pp_corpora :: "ustr \<Rightarrow> pp_out \<Rightarrow> policies \<Rightarrow> py_error + pp_out" where
  "pp_corpora text out [] = Inr out"
| "pp_corpora text out ((corpus, cls) # ps) =
     (case pp_clauses text out cls of
        Inl e \<Rightarrow> Inl e
      | Inr out' \<Rightarrow> pp_corpora text out' ps)"

definition pp_delta :: "'a row_scheme list \<Rightarrow> policies \<Rightarrow> py_error + pp_out" where
  "pp_delta ts policies = pp_corpora (pp_text ts) [] policies"

subsection \<open>Reference: the formula of the spec and the flattened loop\<close>

text \<open>\<open>spec_score\<close> is the score of section 4.3 of the spec before clamping; \<open>delta_ok\<close>
  the invariant of a reported delta; \<open>pp_pairs\<close> the clauses of all corpora in iteration
  order with their outcome, and \<open>pp_seq\<close> the loop over them.\<close>

definition spec_score :: "ustr \<Rightarrow> ustr \<Rightarrow> ustr list \<Rightarrow> real" where
  "spec_score text d ss =
     (if py_in d text then 0.35 else 0) + 0.2 * real (length (filter (\<lambda>s. py_in (py_lower s) text) ss))"

definition delta_ok :: "delta \<Rightarrow> bool" where
  "delta_ok d \<longleftrightarrow> 0 \<le> delta_score d \<and> delta_score d \<le> 0.99 \<and> delta_status d = clause_status (delta_score d)"

definition pp_pairs :: "ustr \<Rightarrow> policies \<Rightarrow> (ustr \<times> (py_error + delta)) list" where
  "pp_pairs text P = concat (map (\<lambda>(corpus, cls). map (\<lambda>(cid, m). (cid, clause_delta text m)) cls) P)"

fun pp_seq :: "pp_out \<Rightarrow> (ustr \<times> (py_error + delta)) list \<Rightarrow> py_error + pp_out" where
  "pp_seq out [] = Inr out"
| "pp_seq out ((cid, r) # xs) = (case r of Inl e \<Rightarrow> Inl e | Inr d \<Rightarrow> pp_seq (AList.update cid d out) xs)"

subsection \<open>Example policies and transcripts\<close>

definition example_meta :: clause_meta where
  "example_meta = \<lparr>duty = Some (ascii ''data retention''),
                   synonyms = Some [ascii ''keep data'', ascii ''store information'']\<rparr>"

definition example_policies :: policies where
  "example_policies = [(ascii ''gdpr'', [(ascii ''c1'', example_meta)])]"

definition example_policy_rows :: "row list" where
  "example_policy_rows =
     [\<lparr>ts_start = None, ts_end = None, speaker = ascii ''Alice'',
       text_col = ascii ''we agreed on data retention and to store information safely''\<rparr>]"

definition example_upper_rows :: "row list" where
  "example_upper_rows =
     [\<lparr>ts_start = None, ts_end = None, speaker = ascii ''Alice'', text_col = ascii ''Data Retention''\<rparr>]"

definition example_dup_policies :: policies where
  "example_dup_policies =
     [(ascii ''gdpr'', [(ascii ''c1'', example_meta)]),
      (ascii ''ethics'', [(ascii ''c1'', \<lparr>duty = Some (ascii ''consent''), synonyms = None\<rparr>)])]"

definition example_noduty_policies :: policies where
  "example_noduty_policies = [(ascii ''gdpr'', [(ascii ''c1'', \<lparr>duty = None, synonyms = None\<rparr>)])]"

lemmas policy_defs [model_eval] =
  pp_text_def clause_synonyms_def clause_status_def round_half_even_def py_round2_def
  clause_delta_def pp_delta_def

subsection \<open>Helper lemmas\<close>

lemma synonym_score_closed:
  "synonym_score text ss sc = sc + 0.2 * real (length (filter (\<lambda>s. py_in (py_lower s) text) ss))"
  by (induction ss arbitrary: sc) (auto simp: algebra_simps)

lemma round_half_even_of_int [simp]: "round_half_even (of_int n) = n"
  by (simp add: round_half_even_def)

lemma py_round2_exact: "x * 100 = of_int n \<Longrightarrow> py_round2 x = x"
  by (simp add: py_round2_def)

lemma spec_score_nonneg: "0 \<le> spec_score text d ss"
  by (simp add: spec_score_def)

lemma py_round2_min_spec_score: "py_round2 (min (99 / 100) (spec_score text d ss)) = min (99 / 100) (spec_score text d ss)"
proof (rule py_round2_exact)
  let ?k = "int (length (filter (\<lambda>s. py_in (py_lower s) text) ss))"
  let ?n = "(if py_in d text then 35 else 0) + 20 * ?k"
  have "spec_score text d ss * 100 = of_int ?n" by (simp add: spec_score_def algebra_simps)
  then show "min (99 / 100) (spec_score text d ss) * 100 = of_int (min 99 ?n)"
    by (simp add: min_def)
qed

lemma clause_status_min: "clause_status (min (99 / 100) x) = clause_status x"
  by (simp add: clause_status_def min_def)

lemma synonym_score_spec:
  "synonym_score text ss (if py_in d text then 0.35 else 0) = spec_score text d ss"
  by (simp add: synonym_score_closed spec_score_def)

lemma clause_delta_Some:
  "duty meta = Some d \<Longrightarrow>
   clause_delta text meta =
     Inr \<lparr>delta_duty = d, delta_status = clause_status (spec_score text d (clause_synonyms meta)),
          delta_score = min 0.99 (spec_score text d (clause_synonyms meta))\<rparr>"
  by (simp add: clause_delta_def synonym_score_spec py_round2_min_spec_score Let_def)

lemma clause_delta_ok:
  assumes "clause_delta text meta = Inr d"
  shows "delta_ok d"
proof (cases "duty meta")
  case None
  with assms show ?thesis by (simp add: clause_delta_def)
next
  case (Some a)
  with assms show ?thesis
    by (auto simp: clause_delta_Some delta_ok_def clause_status_min spec_score_nonneg)
qed

lemma pp_seq_append:
  "pp_seq out (xs @ ys) = (case pp_seq out xs of Inl e \<Rightarrow> Inl e | Inr out' \<Rightarrow> pp_seq out' ys)"
proof (induction xs arbitrary: out)
  case (Cons x xs)
  then show ?case by (cases x) (simp split: sum.split)
qed simp

lemma pp_clauses_seq:
  "pp_clauses tx out cls = pp_seq out (map (\<lambda>(cid, m). (cid, clause_delta tx m)) cls)"
  by (induction tx out cls rule: pp_clauses.induct) (simp_all split: sum.split)

lemma pp_corpora_seq: "pp_corpora tx out P = pp_seq out (pp_pairs tx P)"
  by (induction tx out P rule: pp_corpora.induct)
     (simp_all add: pp_pairs_def pp_seq_append pp_clauses_seq split: sum.split)

lemma pp_seq_Inl: "pp_seq out xs = Inl e \<Longrightarrow> \<exists>k. (k, Inl e) \<in> set xs"
  by (induction out xs rule: pp_seq.induct) (auto split: sum.splits)

lemma pp_seq_isl: "isl (pp_seq out xs) \<longleftrightarrow> (\<exists>(k, r)\<in>set xs. isl r)"
  by (induction out xs rule: pp_seq.induct) (auto split: sum.splits)

lemma map_of_foldl_update:
  "map_of (foldl (\<lambda>acc (k, d). AList.update k d acc) out ys) = map_of out ++ map_of (rev ys)"
proof (induction ys arbitrary: out)
  case Nil
  then show ?case by simp
next
  case (Cons kd ys)
  obtain k d where kd: "kd = (k, d)" by fastforce
  show ?case
    using Cons.IH [of "AList.update k d out"]
    by (simp add: kd update_conv' map_add_upd_left fun_eq_iff map_add_def split: option.splits)
qed

lemma pp_seq_Inr:
  "pp_seq out (map (\<lambda>(k, d). (k, Inr d)) ys) = Inr (foldl (\<lambda>acc (k, d). AList.update k d acc) out ys)"
  by (induction ys arbitrary: out) auto

lemma distinct_foldl_update:
  "distinct (map fst out) \<Longrightarrow> distinct (map fst (foldl (\<lambda>acc (k, d). AList.update k d acc) out ys))"
  by (induction ys arbitrary: out) (auto simp: distinct_update)

lemma set_update_subset: "set (AList.update k v al) \<subseteq> insert (k, v) (set al)"
  by (induction al) auto

lemma pp_seq_preserves:
  assumes "pp_seq out xs = Inr out'" "\<forall>(k, d)\<in>set out. P d" "\<forall>(k, r)\<in>set xs. \<forall>d. r = Inr d \<longrightarrow> P d"
  shows "\<forall>(k, d)\<in>set out'. P d"
  using assms
proof (induction out xs rule: pp_seq.induct)
  case (2 out cid r xs)
  then show ?case
    using set_update_subset by (fastforce split: sum.splits)
qed simp

lemma clause_delta_Inl: "clause_delta tx m = Inl e \<longleftrightarrow> duty m = None \<and> e = KeyError (ascii ''duty'')"
  by (cases "duty m") (auto simp: clause_delta_def Let_def)

lemma clause_delta_isl: "isl (clause_delta tx m) \<longleftrightarrow> duty m = None"
  by (cases "duty m") (simp_all add: clause_delta_def Let_def)

lemma pp_pairs_memE:
  assumes "(k, r) \<in> set (pp_pairs tx P)"
  obtains corpus cls m where "(corpus, cls) \<in> set P" "(k, m) \<in> set cls" "r = clause_delta tx m"
  using assms by (fastforce simp: pp_pairs_def)

lemma pp_delta_Inl: "pp_delta ts P = Inl e \<Longrightarrow> e = KeyError (ascii ''duty'')"
proof -
  assume "pp_delta ts P = Inl e"
  then obtain k where "(k, Inl e) \<in> set (pp_pairs (pp_text ts) P)"
    using pp_seq_Inl by (fastforce simp: pp_delta_def pp_corpora_seq)
  then show ?thesis by (rule pp_pairs_memE) (metis clause_delta_Inl)
qed

lemma pp_pairs_memI:
  "(corpus, cls) \<in> set P \<Longrightarrow> (cid, m) \<in> set cls \<Longrightarrow> (cid, clause_delta tx m) \<in> set (pp_pairs tx P)"
  by (force simp: pp_pairs_def)

lemma map_Inr_projr:
  "\<forall>(k, r)\<in>set xs. \<not> isl r \<Longrightarrow> map (\<lambda>(k, d). (k, Inr d)) (map (\<lambda>(k, r). (k, projr r)) xs) = xs"
  by (induction xs) (auto simp: sum.collapse)

lemma pp_seq_distinct:
  "pp_seq out xs = Inr out' \<Longrightarrow> distinct (map fst out) \<Longrightarrow> distinct (map fst out')"
  by (induction out xs rule: pp_seq.induct) (auto simp: distinct_update split: sum.splits)

lemma pp_pairs_Inr_ok: "(k, Inr d) \<in> set (pp_pairs tx P) \<Longrightarrow> delta_ok d"
  by (erule pp_pairs_memE) (metis clause_delta_ok)

lemma length_filter_mono:
  "(\<And>x. P x \<Longrightarrow> Q x) \<Longrightarrow> length (filter P xs) \<le> length (filter Q xs)"
  by (induction xs) auto

lemma spec_score_mono:
  assumes "\<forall>p. py_in p t \<longrightarrow> py_in p t'"
  shows "spec_score t d ss \<le> spec_score t' d ss"
proof -
  have "length (filter (\<lambda>s. py_in (py_lower s) t) ss) \<le> length (filter (\<lambda>s. py_in (py_lower s) t') ss)"
    using assms by (intro length_filter_mono) blast
  with assms show ?thesis by (auto simp: spec_score_def)
qed

lemma py_in_py_lower_set:
  "py_in d (py_lower s) \<Longrightarrow> set d \<subseteq> py_lower_char ` set s"
  by (metis py_in_sublist py_lower_def set_map set_mono_sublist)

lemma pp_delta_isl:
  "isl (pp_delta ts P) \<longleftrightarrow> (\<exists>(corpus, cls)\<in>set P. \<exists>(cid, m)\<in>set cls. duty m = None)"
proof
  assume "isl (pp_delta ts P)"
  then obtain k r where "(k, r) \<in> set (pp_pairs (pp_text ts) P)" "isl r"
    by (auto simp: pp_delta_def pp_corpora_seq pp_seq_isl)
  then show "\<exists>(corpus, cls)\<in>set P. \<exists>(cid, m)\<in>set cls. duty m = None"
    by (elim pp_pairs_memE) (fastforce simp: clause_delta_isl)
next
  assume "\<exists>(corpus, cls)\<in>set P. \<exists>(cid, m)\<in>set cls. duty m = None"
  then obtain corpus cls cid m where "(corpus, cls) \<in> set P" "(cid, m) \<in> set cls" "duty m = None" by blast
  then have "(cid, clause_delta (pp_text ts) m) \<in> set (pp_pairs (pp_text ts) P)" "isl (clause_delta (pp_text ts) m)"
    by (auto intro: pp_pairs_memI simp: clause_delta_isl)
  then show "isl (pp_delta ts P)" by (auto simp: pp_delta_def pp_corpora_seq pp_seq_isl)
qed

lemma pp_delta_notisl:
  "\<not> isl (pp_delta ts P) \<longleftrightarrow> (\<forall>(corpus, cls)\<in>set P. \<forall>(cid, m)\<in>set cls. duty m \<noteq> None)"
  unfolding pp_delta_isl by (auto split: prod.splits)

subsection \<open>Properties\<close>

text \<open>
  C8. Every delta that \<open>pp_delta\<close> reports has a score in \<open>[0, 0.99]\<close> and the status
  that the reported score gives, and the clause ids of the result are distinct: the output
  is a dict of well-formed policy deltas.
\<close>

theorem pp_delta_invariant:
  assumes "pp_delta ts P = Inr out"
  shows "distinct (map fst out) \<and> (\<forall>(cid, d)\<in>set out. delta_ok d)"
proof
  have seq: "pp_seq [] (pp_pairs (pp_text ts) P) = Inr out"
    using assms by (simp add: pp_delta_def pp_corpora_seq)
  then show "distinct (map fst out)" by (rule pp_seq_distinct) simp
  have "\<forall>(k, r)\<in>set (pp_pairs (pp_text ts) P). \<forall>d. r = Inr d \<longrightarrow> delta_ok d"
    by (auto intro: pp_pairs_Inr_ok)
  then show "\<forall>(cid, d)\<in>set out. delta_ok d" by (rule pp_seq_preserves [OF seq, rotated]) simp
qed

theorem pp_delta_invariant_witness:
  "pp_delta example_policy_rows example_dup_policies =
     Inr [(ascii ''c1'', \<lparr>delta_duty = ascii ''consent'', delta_status = Ignored, delta_score = 0\<rparr>)] \<and>
   delta_ok \<lparr>delta_duty = ascii ''consent'', delta_status = Ignored, delta_score = 0\<rparr>"
proof -
  have ev: "pp_delta example_policy_rows example_dup_policies =
     Inr [(ascii ''c1'', \<lparr>delta_duty = ascii ''consent'', delta_status = Ignored, delta_score = 0\<rparr>)]"
    by (simp add: pp_delta_def example_dup_policies_def example_policy_rows_def example_meta_def
        clause_delta_Some spec_score_def clause_status_def pp_text_def py_lower_def py_lower_char_def
        clause_synonyms_def prefix_def)
  with pp_delta_invariant [OF ev] show ?thesis by simp
qed

text \<open>
  C9. \<open>pp_delta\<close> raises exactly when some clause of some corpus has no \<open>duty\<close> key, and
  the exception is \<open>KeyError('duty')\<close>; the spec asks for this configuration error to
  surface at load time, but \<open>load_policies\<close> does not check, so it surfaces while scoring.
\<close>

theorem pp_delta_key_error:
  "pp_delta ts P = Inl e \<longleftrightarrow>
     e = KeyError (ascii ''duty'') \<and> (\<exists>(corpus, cls)\<in>set P. \<exists>(cid, m)\<in>set cls. duty m = None)"
proof -
  have "pp_delta ts P = Inl e \<longleftrightarrow> e = KeyError (ascii ''duty'') \<and> isl (pp_delta ts P)"
    by (cases "pp_delta ts P") (auto dest: pp_delta_Inl)
  then show ?thesis by (simp only: pp_delta_isl)
qed

theorem pp_delta_key_error_witness:
  "pp_delta example_policy_rows example_noduty_policies = Inl (KeyError (ascii ''duty''))"
  using pp_delta_key_error [of example_policy_rows example_noduty_policies "KeyError (ascii ''duty'')"]
  by (simp add: example_noduty_policies_def)

text \<open>
  C10. Refinement of the dict assignment: when every clause has a duty, \<open>pp_delta\<close>
  returns a dict with distinct keys whose lookup is that of the flattened list of clauses of
  all corpora, read from the end: for a clause id defined in two corpora the later
  corpus wins.
\<close>

theorem pp_delta_last_wins:
  assumes "\<forall>(corpus, cls)\<in>set P. \<forall>(cid, m)\<in>set cls. duty m \<noteq> None"
  shows "\<exists>out. pp_delta ts P = Inr out \<and> distinct (map fst out) \<and>
           map_of out = map_of (rev (map (\<lambda>(cid, r). (cid, projr r)) (pp_pairs (pp_text ts) P)))"
proof -
  let ?xs = "pp_pairs (pp_text ts) P"
  let ?ys = "map (\<lambda>(cid, r). (cid, projr r)) ?xs"
  have "\<not> isl r" if "(k, r) \<in> set ?xs" for k r
  proof -
    from that obtain corpus cls m where "(corpus, cls) \<in> set P" "(k, m) \<in> set cls" "r = clause_delta (pp_text ts) m"
      by (rule pp_pairs_memE)
    moreover from assms \<open>(corpus, cls) \<in> set P\<close> have "\<forall>(cid, m)\<in>set cls. duty m \<noteq> None" by fastforce
    ultimately have "duty m \<noteq> None" by fastforce
    with \<open>r = clause_delta (pp_text ts) m\<close> show ?thesis by (simp add: clause_delta_isl)
  qed
  then have "\<forall>(k, r)\<in>set ?xs. \<not> isl r" by blast
  then have xs: "?xs = map (\<lambda>(k, d). (k, Inr d)) ?ys" by (rule map_Inr_projr [symmetric])
  have "pp_delta ts P = Inr (foldl (\<lambda>acc (k, d). AList.update k d acc) [] ?ys)"
    by (simp only: pp_delta_def pp_corpora_seq) (subst xs, rule pp_seq_Inr)
  then show ?thesis
    by (simp add: map_of_foldl_update distinct_foldl_update)
qed

theorem pp_delta_last_wins_witness:
  "\<exists>out. pp_delta example_policy_rows example_dup_policies = Inr out \<and>
     map_of out (ascii ''c1'') = Some \<lparr>delta_duty = ascii ''consent'', delta_status = Ignored, delta_score = 0\<rparr>"
proof -
  have "\<forall>(corpus, cls)\<in>set example_dup_policies. \<forall>(cid, m)\<in>set cls. duty m \<noteq> None"
    by (simp add: example_dup_policies_def example_meta_def)
  from pp_delta_last_wins [OF this, of example_policy_rows] obtain out where
    out: "pp_delta example_policy_rows example_dup_policies = Inr out"
    and m: "map_of out = map_of (rev (map (\<lambda>(cid, r). (cid, projr r))
                (pp_pairs (pp_text example_policy_rows) example_dup_policies)))"
    by blast
  have "map_of out (ascii ''c1'') =
          Some \<lparr>delta_duty = ascii ''consent'', delta_status = Ignored, delta_score = 0\<rparr>"
    unfolding m
    by (simp add: example_dup_policies_def example_meta_def pp_pairs_def clause_delta_Some
        spec_score_def clause_status_def clause_synonyms_def pp_text_def example_policy_rows_def
        py_lower_def py_lower_char_def prefix_def)
  with out show ?thesis by blast
qed

text \<open>
  C11. The score loop computes the formula of the spec: 0.35 when the duty occurs in the
  lowercased text plus 0.2 per synonym that occurs, clamped at 0.99; \<open>round(_, 2)\<close>
  leaves such a sum unchanged, and the status is read from the unclamped score.
\<close>

theorem clause_delta_formula:
  "clause_delta text meta =
     (case duty meta of
        None \<Rightarrow> Inl (KeyError (ascii ''duty''))
      | Some d \<Rightarrow>
          Inr \<lparr>delta_duty = d, delta_status = clause_status (spec_score text d (clause_synonyms meta)),
               delta_score = min 0.99 (spec_score text d (clause_synonyms meta))\<rparr>)"
  by (cases "duty meta") (simp add: clause_delta_def, simp only: clause_delta_Some option.case)

text \<open>
  C12. A clause whose duty and synonyms are all absent from the text has score exactly 0.0
  and status \<open>ignored\<close> (spec section 8).
\<close>

theorem clause_delta_all_absent:
  assumes "duty meta = Some d" "\<not> py_in d text" "\<forall>s\<in>set (clause_synonyms meta). \<not> py_in (py_lower s) text"
  shows "clause_delta text meta = Inr \<lparr>delta_duty = d, delta_status = Ignored, delta_score = 0\<rparr>"
proof -
  have "spec_score text d (clause_synonyms meta) = 0"
    using assms(2,3) by (simp add: spec_score_def filter_empty_conv)
  then show ?thesis using assms(1) by (simp add: clause_delta_Some clause_status_def)
qed

theorem clause_delta_all_absent_witness:
  "clause_delta (ascii ''hello'') \<lparr>duty = Some (ascii ''consent''), synonyms = None\<rparr> =
     Inr \<lparr>delta_duty = ascii ''consent'', delta_status = Ignored, delta_score = 0\<rparr>"
  by (rule clause_delta_all_absent) (simp_all add: clause_synonyms_def prefix_def)

text \<open>
  C13. The score is monotone in the text: if every phrase that occurs in one text occurs in
  another, the clause scores at least as high on the other (spec section 8: more synonyms
  present never lower the score).
\<close>

theorem clause_delta_score_mono:
  assumes "\<forall>p. py_in p t \<longrightarrow> py_in p t'" "clause_delta t meta = Inr x" "clause_delta t' meta = Inr y"
  shows "delta_score x \<le> delta_score y"
proof -
  obtain d where d: "duty meta = Some d" using assms(2) by (cases "duty meta") (simp_all add: clause_delta_def)
  have "spec_score t d (clause_synonyms meta) \<le> spec_score t' d (clause_synonyms meta)"
    using assms(1) by (rule spec_score_mono)
  then show ?thesis using assms(2,3) d by (auto simp: clause_delta_Some)
qed

theorem clause_delta_score_mono_witness:
  "delta_score (projr (clause_delta (ascii ''data retention'') example_meta)) \<le>
   delta_score (projr (clause_delta (ascii ''we keep data retention'') example_meta))"
proof -
  have sub: "\<forall>p. py_in p (ascii ''data retention'') \<longrightarrow> py_in p (ascii ''we keep data retention'')"
  proof (intro allI impI)
    fix p assume "py_in p (ascii ''data retention'')"
    moreover have "sublist (ascii ''data retention'') (ascii ''we keep data retention'')"
      using sublist_appendI [of "ascii ''data retention''" "ascii ''we keep ''" "[]"] by simp
    ultimately show "py_in p (ascii ''we keep data retention'')"
      by (auto simp: py_in_sublist intro: sublist_order.order_trans)
  qed
  have "clause_delta t example_meta = Inr (projr (clause_delta t example_meta))" for t
    by (simp add: example_meta_def clause_delta_Some)
  with sub show ?thesis by (intro clause_delta_score_mono) blast+
qed

text \<open>
  C14. The duty is matched against the lowercased transcript without being lowercased
  itself: a duty with an ASCII capital letter never matches, so a clause with such a duty
  and no synonyms is ignored even when the transcript states the duty verbatim.
\<close>

theorem pp_text_upper_duty_ignored:
  assumes "duty meta = Some d" "\<exists>c\<in>set d. 65 \<le> c \<and> c \<le> 90" "clause_synonyms meta = []"
  shows "clause_delta (pp_text ts) meta = Inr \<lparr>delta_duty = d, delta_status = Ignored, delta_score = 0\<rparr>"
proof -
  have "\<not> py_in d (pp_text ts)"
  proof
    assume "py_in d (pp_text ts)"
    then have "set d \<subseteq> py_lower_char ` set (py_join [32] (map text_col ts))"
      by (simp add: pp_text_def py_in_py_lower_set)
    with assms(2) show False using py_lower_char_not_upper by blast
  qed
  then show ?thesis using assms(1,3) by (simp add: clause_delta_Some spec_score_def clause_status_def)
qed

theorem pp_text_upper_duty_ignored_witness:
  "clause_delta (pp_text example_upper_rows) \<lparr>duty = Some (ascii ''Data Retention''), synonyms = None\<rparr> =
     Inr \<lparr>delta_duty = ascii ''Data Retention'', delta_status = Ignored, delta_score = 0\<rparr>"
  by (rule pp_text_upper_duty_ignored) (simp_all add: clause_synonyms_def)

end
