(* ===== verification/Py_Bytes.thy ===== *)
theory Py_Bytes
  imports Prelude
begin

text \<open>
  Files are bytes; a Python text read decodes them. \<open>open(path, encoding="utf-8")\<close>
  decodes strictly (\<open>utf8_decode_strict\<close>: the first invalid sequence raises
  \<open>UnicodeDecodeError\<close>), \<open>errors="ignore"\<close> drops each invalid sequence
  (\<open>utf8_decode_ignore\<close>), and text mode translates \<open>\r\n\<close> and \<open>\r\<close> to
  \<open>\n\<close> (\<open>universal_newlines\<close>). \<open>utf8_step\<close> is one step of CPython's UTF-8
  decoder: from a lead byte it reads a well-formed sequence (the second byte of
  \<open>E0\<close>, \<open>ED\<close>, \<open>F0\<close> and \<open>F4\<close> sequences restricted as in the Unicode
  standard) or reports the maximal invalid subpart, which CPython skips as one error; a
  sequence cut off by the end of the data is one error up to the end. \<open>utf8_encode\<close>
  is \<open>str.encode("utf-8")\<close> on Unicode scalar values.
\<close>

type_synonym bytes = "nat list"

definition utf8_cont :: "nat \<Rightarrow> bool" where
  "utf8_cont c \<longleftrightarrow> 128 \<le> c \<and> c < 192"

definition utf8_step :: "nat \<Rightarrow> bytes \<Rightarrow> nat option \<times> nat" where
  "utf8_step b bs =
     (if b < 128 then (Some b, 1)
      else if 194 \<le> b \<and> b < 224 then
        (case bs of
           c # _ \<Rightarrow> if utf8_cont c then (Some ((b - 192) * 64 + (c - 128)), 2) else (None, 1)
         | [] \<Rightarrow> (None, 1))
      else if 224 \<le> b \<and> b < 240 then
        (let lo = (if b = 224 then 160 else 128); hi = (if b = 237 then 160 else 192)
         in case bs of
              c1 # r \<Rightarrow>
                if lo \<le> c1 \<and> c1 < hi then
                  (case r of
                     c2 # _ \<Rightarrow>
                       if utf8_cont c2 then (Some ((b - 224) * 4096 + (c1 - 128) * 64 + (c2 - 128)), 3)
                       else (None, 2)
                   | [] \<Rightarrow> (None, 2))
                else (None, 1)
            | [] \<Rightarrow> (None, 1))
      else if 240 \<le> b \<and> b < 245 then
        (let lo = (if b = 240 then 144 else 128); hi = (if b = 244 then 144 else 192)
         in case bs of
              c1 # r \<Rightarrow>
                if lo \<le> c1 \<and> c1 < hi then
                  (case r of
                     c2 # r2 \<Rightarrow>
                       if utf8_cont c2 then
                         (case r2 of
                            c3 # _ \<Rightarrow>
                              if utf8_cont c3
                              then (Some ((b - 240) * 262144 + (c1 - 128) * 4096 + (c2 - 128) * 64 + (c3 - 128)), 4)
                              else (None, 3)
                          | [] \<Rightarrow> (None, 3))
                       else (None, 2)
                   | [] \<Rightarrow> (None, 2))
                else (None, 1)
            | [] \<Rightarrow> (None, 1))
      else (None, 1))"

definition utf8_decode_error :: py_error where
  "utf8_decode_error = UnicodeDecodeError (ascii ''utf-8'')"

function utf8_decode_strict :: "bytes \<Rightarrow> py_error + ustr" where
  "utf8_decode_strict [] = Inr []"
| "utf8_decode_strict (b # bs) =
     (case utf8_step b bs of
        (None, k) \<Rightarrow> Inl utf8_decode_error
      | (Some c, k) \<Rightarrow>
          (case utf8_decode_strict (drop (k - 1) bs) of Inl e \<Rightarrow> Inl e | Inr cs \<Rightarrow> Inr (c # cs)))"
  by pat_completeness auto
termination
  by (relation "measure length") (auto simp: le_imp_less_Suc)

function utf8_decode_ignore :: "bytes \<Rightarrow> ustr" where
  "utf8_decode_ignore [] = []"
| "utf8_decode_ignore (b # bs) =
     (case utf8_step b bs of
        (None, k) \<Rightarrow> utf8_decode_ignore (drop (k - 1) bs)
      | (Some c, k) \<Rightarrow> c # utf8_decode_ignore (drop (k - 1) bs))"
  by pat_completeness auto
termination
  by (relation "measure length") (auto simp: le_imp_less_Suc)

fun universal_newlines :: "ustr \<Rightarrow> ustr" where
  "universal_newlines [] = []"
| "universal_newlines (c # s) =
     (if c = 13 \<and> s \<noteq> [] \<and> hd s = 10 then 10 # universal_newlines (tl s)
      else if c = 13 then 10 # universal_newlines s
      else c # universal_newlines s)"

definition utf8_encode_char :: "nat \<Rightarrow> bytes" where
  "utf8_encode_char c =
     (if c < 128 then [c]
      else if c < 2048 then [192 + c div 64, 128 + c mod 64]
      else if c < 65536 then [224 + c div 4096, 128 + c div 64 mod 64, 128 + c mod 64]
      else [240 + c div 262144, 128 + c div 4096 mod 64, 128 + c div 64 mod 64, 128 + c mod 64])"

definition utf8_encode :: "ustr \<Rightarrow> bytes" where
  "utf8_encode s = concat (map utf8_encode_char s)"

definition scalar_value :: "nat \<Rightarrow> bool" where
  "scalar_value c \<longleftrightarrow> c < 1114112 \<and> \<not> (55296 \<le> c \<and> c < 57344)"

declare utf8_decode_strict.simps [simp del] utf8_decode_ignore.simps [simp del]

lemmas py_bytes_defs [model_eval] =
  utf8_cont_def utf8_step_def utf8_decode_error_def utf8_encode_char_def utf8_encode_def
  utf8_decode_strict.simps utf8_decode_ignore.simps

subsection \<open>Helper lemmas\<close>

lemma utf8_digits:
  "(c::nat) = c div 64 * 64 + c mod 64" "c div 64 = c div 4096 * 64 + c div 64 mod 64"
  "c div 4096 = c div 262144 * 64 + c div 4096 mod 64" "c mod 64 < 64" "c div 64 mod 64 < 64"
  "c div 4096 mod 64 < 64"
  using div_mult2_eq [of c 64 64] div_mult2_eq [of c 4096 64] by simp_all

lemma utf8_step_encode_char:
  assumes "scalar_value c"
  shows "utf8_step (hd (utf8_encode_char c)) (tl (utf8_encode_char c) @ rest) =
         (Some c, length (utf8_encode_char c))"
proof -
  define D B A A3 where "D = c mod 64" and "B = c div 64 mod 64" and "A = c div 4096 mod 64"
    and "A3 = c div 262144"
  have c3: "c div 4096 = A3 * 64 + A" and c2: "c div 64 = c div 4096 * 64 + B" and c1: "c = c div 64 * 64 + D"
    and r: "D < 64" "B < 64" "A < 64"
    using utf8_digits [of c] by (simp_all add: D_def B_def A_def A3_def)
  consider "c < 128" | "128 \<le> c" "c < 2048" | "2048 \<le> c" "c < 65536" | "65536 \<le> c"
    by linarith
  then show ?thesis
  proof cases
    case 1
    then show ?thesis by (simp add: utf8_encode_char_def utf8_step_def)
  next
    case 2
    have "2 \<le> c div 64" "c div 64 < 32" using 2 by auto
    then show ?thesis using 2 by (simp add: utf8_encode_char_def utf8_step_def utf8_cont_def)
  next
    case 3
    have A3: "A3 = 0" using 3 c3 c2 c1 by linarith
    then have c: "c = A * 4096 + B * 64 + D" using c3 c2 c1 by linarith
    have "A < 16" using 3 c r by linarith
    moreover have "A = 0 \<Longrightarrow> 32 \<le> B" using 3 c r by linarith
    moreover have "A = 13 \<Longrightarrow> B < 32" using 3 c r assms unfolding scalar_value_def by linarith
    moreover have enc: "utf8_encode_char c = [224 + A, 128 + B, 128 + D]"
      using 3 c3 A3 by (simp add: utf8_encode_char_def D_def B_def)
    ultimately show ?thesis using r c by (auto simp: utf8_step_def utf8_cont_def Let_def)
  next
    case 4
    have c: "c = A3 * 262144 + A * 4096 + B * 64 + D" using c3 c2 c1 by linarith
    have "A3 < 5" using assms c unfolding scalar_value_def by linarith
    moreover have "A3 = 0 \<Longrightarrow> 16 \<le> A" using 4 c r by linarith
    moreover have "A3 = 4 \<Longrightarrow> A < 16" using assms c r unfolding scalar_value_def by linarith
    moreover have enc: "utf8_encode_char c = [240 + A3, 128 + A, 128 + B, 128 + D]"
      using 4 by (simp add: utf8_encode_char_def D_def B_def A_def A3_def)
    ultimately show ?thesis using r c by (auto simp: utf8_step_def utf8_cont_def Let_def)
  qed
qed
lemma utf8_encode_char_ne: "utf8_encode_char c \<noteq> []"
  by (simp add: utf8_encode_char_def)

lemma utf8_encode_Cons:
  "utf8_encode (c # s) = hd (utf8_encode_char c) # (tl (utf8_encode_char c) @ utf8_encode s)"
  using utf8_encode_char_ne [of c] by (simp add: utf8_encode_def)

lemma utf8_decode_ignore_encode:
  "\<forall>c\<in>set s. scalar_value c \<Longrightarrow> utf8_decode_ignore (utf8_encode s) = s"
proof (induction s)
  case Nil
  then show ?case by (simp add: utf8_encode_def utf8_decode_ignore.simps)
next
  case (Cons c s)
  then show ?case
    using utf8_step_encode_char [of c "utf8_encode s"] utf8_encode_char_ne [of c]
    by (simp add: utf8_encode_Cons utf8_decode_ignore.simps)
qed

lemma utf8_decode_strict_ignore:
  "utf8_decode_strict bs = Inr s \<Longrightarrow> utf8_decode_ignore bs = s"
proof (induction bs arbitrary: s rule: utf8_decode_strict.induct)
  case 1
  then show ?case by (simp add: utf8_decode_strict.simps utf8_decode_ignore.simps)
next
  case (2 b bs)
  then show ?case
    by (auto simp: utf8_decode_strict.simps utf8_decode_ignore.simps split: prod.splits option.splits sum.splits)
qed

lemma utf8_decode_strict_Inl: "utf8_decode_strict bs = Inl e \<Longrightarrow> e = utf8_decode_error"
proof (induction bs arbitrary: e rule: utf8_decode_strict.induct)
  case 1
  then show ?case by (simp add: utf8_decode_strict.simps)
next
  case (2 b bs)
  then show ?case
    by (auto simp: utf8_decode_strict.simps split: prod.splits option.splits sum.splits)
qed

lemma utf8_decode_ignore_ascii: "\<forall>c\<in>set s. c < 128 \<Longrightarrow> utf8_decode_ignore s = s"
  by (induction s) (simp_all add: utf8_decode_ignore.simps utf8_step_def)

lemma utf8_decode_strict_ascii: "\<forall>c\<in>set s. c < 128 \<Longrightarrow> utf8_decode_strict s = Inr s"
  by (induction s) (simp_all add: utf8_decode_strict.simps utf8_step_def)

lemma utf8_encode_ascii: "\<forall>c\<in>set s. c < 128 \<Longrightarrow> utf8_encode s = s"
  by (induction s) (simp_all add: utf8_encode_def utf8_encode_char_def)

lemma universal_newlines_id: "13 \<notin> set s \<Longrightarrow> universal_newlines s = s"
  by (induction s) auto

subsection \<open>Properties\<close>



end
