(* ===== verification/Loader.thy ===== *)
theory Loader
  imports Enricher Py_Bytes
begin

text \<open>
  The Transcript loader, src/src/preprocess.py lines 16-82: \<open>load_transcript\<close> and its
  helpers \<open>infer_speaker\<close> and \<open>clean_text\<close>. The three regular expressions are
  translated into scanning functions that make the same choices as Python's backtracking
  matcher:
  \<^item> \<open>strip_tags\<close> is \<open>re.sub(r"<[^>]+>", " ", t)\<close>: at a \<open><\<close> the match is the
    longest run of characters other than \<open>>\<close> (at least one) followed by \<open>>\<close>;
    without such a run the \<open><\<close> stays and the scan moves on;
  \<^item> \<open>collapse_ws\<close> is \<open>re.sub(r"\s+", " ", t)\<close>, \<open>\s\<close> being \<open>str.isspace\<close>;
  \<^item> \<open>speaker_prefix\<close> is \<open>re.match(r"^\s*([A-Za-z][A-Za-z0-9_ -]{0,30}):", txt)\<close>:
    the class after the first letter does not contain \<open>:\<close>, so the greedy run of class
    characters must have at most 30 characters and be followed by \<open>:\<close>;
  \<^item> \<open>split_speaker_line\<close> is \<open>re.match(r"^([^:]{1,40}):\s*(.+)$", line)\<close> on a line
    of \<open>splitlines()\<close>, which contains no line feed, so \<open>.\<close> matches every character
    and \<open>$\<close> only the end; when only white space follows the colon, \<open>\s*\<close> gives
    back its last character to \<open>.+\<close>.
  The file is read as bytes (theory Py_Bytes): the SRT branch opens it with
  \<open>encoding="utf-8"\<close>, a strict decode that raises \<open>UnicodeDecodeError\<close>
  (\<open>utf8_decode_strict\<close>), the plain-text branch with \<open>errors="ignore"\<close>
  (\<open>utf8_decode_ignore\<close>), both in text mode, which translates \<open>\r\n\<close> and
  \<open>\r\<close> to \<open>\n\<close> (\<open>universal_newlines\<close>). The VTT and SRT files are parsed by
  the libraries \<open>webvtt\<close> and \<open>srt\<close>, which are not part of the program: they are
  the parameters of \<open>transcript_lib\<close>, \<open>webvtt.read\<close> from the file's bytes and
  \<open>srt.parse\<close> from the decoded text, each returning its exception (a malformed file)
  or a list of cues with start, end and text (\<open>vtt_cue\<close>) or of subtitles with
  start and end as \<open>datetime.timedelta\<close> in microseconds and content
  (\<open>srt_sub\<close>); the model has \<open>str(timedelta)\<close> (\<open>str_timedelta\<close>), which
  the loader applies to the SRT times. \<open>splitlines\<close> is
  \<open>str.splitlines()\<close> with all its line boundaries, \<open>\r\n\<close> counting as one.
\<close>

function strip_tags :: "ustr \<Rightarrow> ustr" where
  "strip_tags [] = []"
| "strip_tags (c # cs) =
     (if c = 60 \<and> takeWhile (\<lambda>x. x \<noteq> 62) cs \<noteq> [] \<and> dropWhile (\<lambda>x. x \<noteq> 62) cs \<noteq> []
      then 32 # strip_tags (tl (dropWhile (\<lambda>x. x \<noteq> 62) cs))
      else c # strip_tags cs)"
  by pat_completeness auto
termination
  by (relation "measure length") (auto intro: le_imp_less_Suc order_trans [OF diff_le_self length_dropWhile_le])

function collapse_ws :: "ustr \<Rightarrow> ustr" where
  "collapse_ws [] = []"
| "collapse_ws (c # cs) =
     (if py_isspace c then 32 # collapse_ws (dropWhile py_isspace cs) else c # collapse_ws cs)"
  by pat_completeness auto
termination
  by (relation "measure length") (auto intro: le_imp_less_Suc length_dropWhile_le)

definition clean_text :: "ustr \<Rightarrow> ustr" where
  "clean_text t = py_strip (collapse_ws (strip_tags t))"

definition is_ascii_alpha :: "nat \<Rightarrow> bool" where
  "is_ascii_alpha c \<longleftrightarrow> (65 \<le> c \<and> c \<le> 90) \<or> (97 \<le> c \<and> c \<le> 122)"

definition is_speaker_char :: "nat \<Rightarrow> bool" where
  "is_speaker_char c \<longleftrightarrow> is_ascii_alpha c \<or> (48 \<le> c \<and> c \<le> 57) \<or> c = 95 \<or> c = 32 \<or> c = 45"

definition speaker_prefix :: "ustr \<Rightarrow> ustr option" where
  "speaker_prefix txt =
     (case dropWhile py_isspace txt of
        [] \<Rightarrow> None
      | c # r \<Rightarrow>
          (let n = takeWhile is_speaker_char r; rest = dropWhile is_speaker_char r
           in if is_ascii_alpha c \<and> length n \<le> 30 \<and> rest \<noteq> [] \<and> hd rest = 58
              then Some (c # n) else None))"

definition infer_speaker :: "ustr \<Rightarrow> ustr" where
  "infer_speaker txt = (case speaker_prefix txt of Some n \<Rightarrow> n | None \<Rightarrow> ascii ''Unknown'')"

definition split_speaker_line :: "ustr \<Rightarrow> (ustr \<times> ustr) option" where
  "split_speaker_line line =
     (let spk = takeWhile (\<lambda>c. c \<noteq> 58) line; rest = dropWhile (\<lambda>c. c \<noteq> 58) line
      in if spk \<noteq> [] \<and> length spk \<le> 40 \<and> rest \<noteq> []
         then (let r = tl rest; body = dropWhile py_isspace r
               in if body \<noteq> [] then Some (spk, body)
                  else if r \<noteq> [] then Some (spk, [last r]) else None)
         else None)"

definition is_line_break :: "nat \<Rightarrow> bool" where
  "is_line_break c \<longleftrightarrow> c \<in> {10, 11, 12, 13, 28, 29, 30, 133, 8232, 8233}"

function splitlines_acc :: "ustr \<Rightarrow> ustr \<Rightarrow> ustr list" where
  "splitlines_acc cur [] = (if cur = [] then [] else [rev cur])"
| "splitlines_acc cur (c # cs) =
     (if c = 13 \<and> cs \<noteq> [] \<and> hd cs = 10 then rev cur # splitlines_acc [] (tl cs)
      else if is_line_break c then rev cur # splitlines_acc [] cs
      else splitlines_acc (c # cur) cs)"
  by pat_completeness auto
termination
  by (relation "measure (\<lambda>(cur, s). length s)") auto

definition splitlines :: "ustr \<Rightarrow> ustr list" where
  "splitlines s = splitlines_acc [] s"

definition plain_row :: "ustr \<Rightarrow> row" where
  "plain_row line =
     (let (spk, txt) = (case split_speaker_line line of Some st \<Rightarrow> st | None \<Rightarrow> (ascii ''Unknown'', line))
      in \<lparr>ts_start = None, ts_end = None, speaker = spk, text_col = clean_text txt\<rparr>)"

definition load_plain :: "ustr \<Rightarrow> row list" where
  "load_plain content = map plain_row (filter (\<lambda>l. l \<noteq> []) (map py_strip (splitlines content)))"

record vtt_cue =
  cue_start :: ustr
  cue_end :: ustr
  cue_text :: ustr

record srt_sub =
  sub_start :: nat
  sub_end :: nat
  sub_content :: ustr

definition pad2 :: "nat \<Rightarrow> ustr" where
  "pad2 n = (if n < 10 then 48 # show_nat n else show_nat n)"

definition pad6 :: "nat \<Rightarrow> ustr" where
  "pad6 n = replicate (6 - length (show_nat n)) 48 @ show_nat n"

text \<open>\<open>str(datetime.timedelta(microseconds=us))\<close> for \<open>us \<ge> 0\<close>:
  \<open>"%d:%02d:%02d"\<close>, preceded by \<open>"%d day%s, "\<close> when there are days and followed by
  \<open>".%06d"\<close> when there are microseconds.\<close>

definition str_timedelta :: "nat \<Rightarrow> ustr" where
  "str_timedelta us =
     (let d = us div 86400000000; r = us mod 86400000000; secs = r div 1000000;
          frac = r mod 1000000; h = secs div 3600; m = secs mod 3600 div 60; s = secs mod 60
      in (if d = 0 then [] else show_nat d @ ascii '' day'' @ (if d = 1 then [] else ascii ''s'') @ ascii '', '')
         @ show_nat h @ [58] @ pad2 m @ [58] @ pad2 s @ (if frac = 0 then [] else 46 # pad6 frac))"

definition vtt_row :: "vtt_cue \<Rightarrow> row" where
  "vtt_row cue =
     \<lparr>ts_start = Some (cue_start cue), ts_end = Some (cue_end cue),
      speaker = infer_speaker (cue_text cue), text_col = clean_text (cue_text cue)\<rparr>"

definition srt_row :: "srt_sub \<Rightarrow> row" where
  "srt_row s =
     \<lparr>ts_start = Some (str_timedelta (sub_start s)), ts_end = Some (str_timedelta (sub_end s)),
      speaker = infer_speaker (sub_content s), text_col = clean_text (sub_content s)\<rparr>"

record transcript_lib =
  webvtt_read :: "bytes \<Rightarrow> py_error + vtt_cue list"
  srt_parse :: "ustr \<Rightarrow> py_error + srt_sub list"

text \<open>\<open>Path(path).suffix\<close>: the part of the last path component from its last dot, when
  that dot is neither the first nor the last character of the component.\<close>

definition path_suffix :: "ustr \<Rightarrow> ustr" where
  "path_suffix p =
     (let name = rev (takeWhile (\<lambda>c. c \<noteq> 47) (rev p)); k = length (takeWhile (\<lambda>c. c \<noteq> 46) (rev name))
      in if k < length name \<and> 0 < length name - k - 1 \<and> 0 < k then drop (length name - k - 1) name else [])"

definition load_transcript :: "transcript_lib \<Rightarrow> ustr \<Rightarrow> bytes \<Rightarrow> py_error + row list" where
  "load_transcript lib path content =
     (let suffix = py_lower (path_suffix path)
      in if suffix = ascii ''.vtt'' then
           (case webvtt_read lib content of
              Inl e \<Rightarrow> Inl e
            | Inr cues \<Rightarrow> Inr (map vtt_row cues))
         else if suffix = ascii ''.srt'' then
           (case utf8_decode_strict content of
              Inl e \<Rightarrow> Inl e
            | Inr txt \<Rightarrow>
                (case srt_parse lib (universal_newlines txt) of
                   Inl e \<Rightarrow> Inl e
                 | Inr subs \<Rightarrow> Inr (map srt_row subs)))
         else Inr (load_plain (universal_newlines (utf8_decode_ignore content))))"

lemmas loader_defs [model_eval] =
  clean_text_def is_ascii_alpha_def is_speaker_char_def speaker_prefix_def infer_speaker_def
  split_speaker_line_def is_line_break_def splitlines_def plain_row_def load_plain_def pad2_def
  pad6_def str_timedelta_def vtt_row_def srt_row_def path_suffix_def load_transcript_def

subsection \<open>Helper lemmas\<close>

lemma py_split_Cons_space: "py_isspace c \<Longrightarrow> py_split (c # s) = py_split s"
  by (simp add: py_split_def)

lemma py_split_dropWhile: "py_split (dropWhile py_isspace s) = py_split s"
  by (induction s) (auto simp: py_split_Cons_space)

lemma split_runs_word:
  assumes "\<forall>c\<in>set w. \<not> sep c" "rest = [] \<or> sep (hd rest)" "rev cur @ w \<noteq> []"
  shows "split_runs sep cur (w @ rest) = (rev cur @ w) # split_runs sep [] rest"
  using assms
proof (induction w arbitrary: cur)
  case Nil
  then show ?case by (cases rest) auto
next
  case (Cons c w)
  then show ?case by simp
qed

lemma collapse_ws_word: "\<forall>c\<in>set w. \<not> py_isspace c \<Longrightarrow> collapse_ws (w @ rest) = w @ collapse_ws rest"
  by (induction w) auto

lemma py_strip_Cons_space: "py_isspace c \<Longrightarrow> py_strip (c # x) = py_strip x"
  by (simp add: py_strip_def)

lemma space_32: "py_isspace 32"
  by (simp add: py_isspace_def)

lemma collapse_ws_hd: "s = [] \<or> \<not> py_isspace (hd s) \<Longrightarrow> collapse_ws s = [] \<or> \<not> py_isspace (hd (collapse_ws s))"
  by (cases s) auto

lemma py_strip_head_ok: "x = [] \<or> \<not> py_isspace (hd x) \<Longrightarrow> py_strip x = rev (dropWhile py_isspace (rev x))"
  by (cases x) (auto simp: py_strip_def)

lemma py_strip_word_space:
  assumes w: "w \<noteq> []" "\<not> py_isspace (hd w)" "\<not> py_isspace (last w)" and x: "x = [] \<or> \<not> py_isspace (hd x)"
  shows "py_strip (w @ 32 # x) = (if py_strip x = [] then w else w @ 32 # py_strip x)"
proof -
  have d: "dropWhile py_isspace (w @ 32 # x) = w @ 32 # x" using w by (cases w) auto
  have rw: "rev w \<noteq> [] \<and> \<not> py_isspace (hd (rev w))" using w by (simp add: hd_rev)
  have e: "py_strip (w @ 32 # x) = rev (dropWhile py_isspace (rev x @ 32 # rev w))"
    by (simp add: py_strip_def d)
  have px: "py_strip x = rev (dropWhile py_isspace (rev x))" using x by (rule py_strip_head_ok)
  show ?thesis
  proof (cases "\<forall>c\<in>set x. py_isspace c")
    case True
    then have "dropWhile py_isspace (rev x @ 32 # rev w) = dropWhile py_isspace (32 # rev w)"
      by (subst dropWhile_append2) auto
    also have "\<dots> = rev w" using rw space_32 by (cases "rev w") auto
    finally show ?thesis using True by (simp add: e px dropWhile_eq_Nil_conv)
  next
    case False
    then obtain c where "c \<in> set x" "\<not> py_isspace c" by blast
    then have "dropWhile py_isspace (rev x @ 32 # rev w) = dropWhile py_isspace (rev x) @ 32 # rev w"
      using dropWhile_append1 [of c "rev x" py_isspace "32 # rev w"] by simp
    moreover have "py_strip x \<noteq> []" using False by (auto simp: px dropWhile_eq_Nil_conv)
    ultimately show ?thesis by (simp add: e px)
  qed
qed

lemma py_join_Cons: "py_join sep (x # xs) = (if xs = [] then x else x @ sep @ py_join sep xs)"
  by (cases xs) auto

lemma split_runs_nonempty: "w \<in> set (split_runs sep cur s) \<Longrightarrow> w \<noteq> []"
proof (induction sep cur s rule: split_runs.induct)
  case (1 sep cur)
  then show ?case by (simp split: if_split_asm)
next
  case (2 sep cur c cs)
  then show ?case by (auto split: if_split_asm)
qed

lemma py_join_nonempty: "(\<And>w. w \<in> set ws \<Longrightarrow> w \<noteq> []) \<Longrightarrow> py_join sep ws = [] \<longleftrightarrow> ws = []"
  by (cases ws) (simp_all add: py_join_Cons)

lemma py_strip_collapse_ws: "py_strip (collapse_ws s) = py_join [32] (py_split s)"
proof (induction "length s" arbitrary: s rule: less_induct)
  case less
  show ?case
  proof (cases s)
    case Nil
    then show ?thesis by (simp add: py_strip_def py_split_def)
  next
    case (Cons c cs)
    show ?thesis
    proof (cases "py_isspace c")
      case True
      have "length (dropWhile py_isspace cs) < length s"
        using Cons by (simp add: le_imp_less_Suc length_dropWhile_le)
      then have "py_strip (collapse_ws (dropWhile py_isspace cs)) = py_join [32] (py_split (dropWhile py_isspace cs))"
        by (rule less)
      then show ?thesis
        using True Cons by (simp add: py_strip_Cons_space space_32 py_split_Cons_space py_split_dropWhile)
    next
      case False
      define w where "w = takeWhile (\<lambda>c. \<not> py_isspace c) s"
      define rest where "rest = dropWhile (\<lambda>c. \<not> py_isspace c) s"
      have s: "s = w @ rest" by (simp add: w_def rest_def)
      have wne: "w \<noteq> []" and whd: "\<not> py_isspace (hd w)" using Cons False by (simp_all add: w_def)
      have wall: "\<forall>c\<in>set w. \<not> py_isspace c" by (auto simp: w_def dest: set_takeWhileD)
      then have wlast: "\<not> py_isspace (last w)" using wne by simp
      have rhd: "rest = [] \<or> py_isspace (hd rest)"
        by (simp add: rest_def) (metis dropWhile_eq_Nil_conv hd_dropWhile)
      have split: "py_split s = w # py_split rest"
        using wall rhd wne by (simp add: py_split_def s split_runs_word)
      have col: "collapse_ws s = w @ collapse_ws rest" using wall by (simp add: s collapse_ws_word)
      show ?thesis
      proof (cases rest)
        case Nil
        then have "py_split rest = []" by (simp add: py_split_def)
        with Nil show ?thesis
          using wne whd wlast by (simp add: split col py_strip_nonspace_ends)
      next
        case (Cons c' r)
        with rhd have sp: "py_isspace c'" by simp
        let ?x = "collapse_ws (dropWhile py_isspace r)"
        have "length (dropWhile py_isspace r) < length s"
          using Cons wne length_dropWhile_le [of py_isspace r] by (simp add: s)
        then have IH: "py_strip ?x = py_join [32] (py_split rest)"
          using less sp Cons by (simp add: py_split_Cons_space py_split_dropWhile)
        have xh: "?x = [] \<or> \<not> py_isspace (hd ?x)"
          by (rule collapse_ws_hd) (metis dropWhile_eq_Nil_conv hd_dropWhile)
        have cr: "collapse_ws rest = 32 # ?x" using Cons sp by simp
        have iff: "py_join [32] (py_split rest) = [] \<longleftrightarrow> py_split rest = []"
          by (rule py_join_nonempty) (auto simp: py_split_def dest: split_runs_nonempty)
        have L: "py_strip (collapse_ws s) = (if py_strip ?x = [] then w else w @ 32 # py_strip ?x)"
          unfolding col cr by (rule py_strip_word_space [OF wne whd wlast xh])
        have R: "py_join [32] (py_split s) =
                   (if py_split rest = [] then w else w @ [32] @ py_join [32] (py_split rest))"
          unfolding split by (rule py_join_Cons)
        show ?thesis unfolding L R IH iff by simp
      qed
    qed
  qed
qed

lemma digits_value_zero_prefix: "digits_value (replicate k 48 @ ds) = digits_value ds"
  by (induction k) (simp_all add: digits_value_def)

lemma length_show_nat: "n < 10 ^ k \<Longrightarrow> 0 < k \<Longrightarrow> length (show_nat n) \<le> k"
proof (induction n arbitrary: k rule: show_nat.induct)
  case (1 n)
  show ?case
  proof (cases "n < 10")
    case True
    then show ?thesis using "1.prems" by (subst show_nat.simps) simp
  next
    case False
    obtain k' where k: "k = Suc k'" using "1.prems" by (cases k) auto
    have "0 < k'"
    proof (rule ccontr)
      assume "\<not> 0 < k'"
      then show False using "1.prems" k False by simp
    qed
    have "n div 10 < 10 ^ k'" using "1.prems" k by (simp add: div_less_iff_less_mult mult.commute)
    with "1.IH" [OF False] k \<open>0 < k'\<close> show ?thesis by (subst show_nat.simps) simp
  qed
qed

lemma pad2_digits: "list_all is_digit (pad2 n) \<and> pad2 n \<noteq> [] \<and> digits_value (pad2 n) = n"
  using show_nat_digits [of n] show_nat_ne [of n] digits_value_show_nat [of n]
    digits_value_zero_prefix [of 1 "show_nat n"]
  by (auto simp: pad2_def is_digit_def)

lemma pad6_digits:
  assumes "n < 1000000"
  shows "list_all is_digit (pad6 n) \<and> pad6 n \<noteq> [] \<and> digits_value (pad6 n) = n \<and> length (pad6 n) = 6"
proof -
  have "length (show_nat n) \<le> 6" using assms by (intro length_show_nat) simp_all
  then show ?thesis
    using show_nat_digits [of n] show_nat_ne [of n] digits_value_show_nat [of n]
      digits_value_zero_prefix [of "6 - length (show_nat n)" "show_nat n"]
    by (auto simp: pad6_def is_digit_def list_all_iff)
qed

lemma py_float_digits:
  assumes "ds \<noteq> []" "list_all is_digit ds"
  shows "py_float ds = Some (Fin (real (digits_value ds)))"
proof -
  have hd: "is_digit (hd ds)" and last: "is_digit (last ds)" using digits_hd_last [OF assms] by simp_all
  have strip: "py_strip ds = ds" using assms by (rule py_strip_digits)
  have hd_low: "hd (py_lower ds) = hd ds"
    using hd assms(1) by (cases ds) (auto simp: py_lower_def py_lower_char_def is_digit_def)
  have not_special: "py_lower ds \<noteq> ascii ''inf'' \<and> py_lower ds \<noteq> ascii ''infinity'' \<and> py_lower ds \<noteq> ascii ''nan''"
    using hd hd_low by (auto simp: is_digit_def dest!: arg_cong [where f = hd])
  have no_us: "95 \<notin> set ds" using assms(2) by (auto simp: list_all_iff is_digit_def)
  then have us: "us_ok ds" by (simp add: us_ok_def us_ok_from_no_underscore)
  have filt: "filter (\<lambda>c. c \<noteq> 95) ds = ds" using no_us by (intro filter_True) blast
  have tw: "takeWhile is_digit ds = ds" "dropWhile is_digit ds = []" using assms(2) by (auto simp: list_all_iff)
  have dec: "decimal_value ds = Some (real (digits_value ds))"
    using assms(1) by (simp add: decimal_value_def tw exponent_value_def scale10_def)
  show ?thesis
    using strip sign_split_digits [OF assms] not_special us filt dec by (simp add: py_float_def)
qed

lemma timedelta_fields:
  fixes us :: nat
  defines "secs \<equiv> us div 1000000"
  shows "real (secs div 3600 * 3600 + secs mod 3600 div 60 * 60) + (real (secs mod 60) + real (us mod 1000000) / 1000000)
         = real us / 1000000"
proof -
  have "secs mod 3600 mod 60 = secs mod 60" by (simp add: mod_mod_cancel)
  then have A: "secs div 3600 * 3600 + secs mod 3600 div 60 * 60 + secs mod 60 = secs"
    using div_mult_mod_eq [of secs 3600] div_mult_mod_eq [of "secs mod 3600" 60] by linarith
  have B: "secs * 1000000 + us mod 1000000 = us"
    using div_mult_mod_eq [of us 1000000] by (simp add: secs_def)
  have "real (secs div 3600 * 3600 + secs mod 3600 div 60 * 60) + real (secs mod 60) = real secs"
    using A by (metis of_nat_add)
  moreover have "real secs * 1000000 + real (us mod 1000000) = real us"
    using B by (metis of_nat_add of_nat_mult of_nat_numeral)
  ultimately show ?thesis by (simp add: field_simps)
qed

lemma seconds_field_float:
  "py_float (pad2 s @ (if mu = 0 then [] else 46 # pad6 mu)) =
     Some (Fin (real s + real mu / 1000000))" if "mu < 1000000"
proof (cases "mu = 0")
  case True
  then show ?thesis using pad2_digits [of s] by (simp add: py_float_digits)
next
  case False
  have p6: "list_all is_digit (pad6 mu) \<and> pad6 mu \<noteq> [] \<and> digits_value (pad6 mu) = mu \<and> length (pad6 mu) = 6"
    using that by (rule pad6_digits)
  with False pad2_digits [of s] show ?thesis by (simp add: py_float_point_digits)
qed

lemma no_colon_digits: "list_all is_digit ds \<Longrightarrow> 58 \<notin> set ds"
  by (auto simp: list_all_iff is_digit_def)

lemma to_seconds_str_timedelta_day:
  assumes "us < 86400000000"
  shows "to_seconds (Some (str_timedelta us)) = Some (Fin (real us / 1000000))"
proof -
  define secs where "secs = us div 1000000"
  define mu where "mu = us mod 1000000"
  define tl6 where "tl6 = pad2 (secs mod 60) @ (if mu = 0 then [] else 46 # pad6 mu)"
  have mu_lt: "mu < 1000000" by (simp add: mu_def)
  have str: "str_timedelta us = show_nat (secs div 3600) @ 58 # pad2 (secs mod 3600 div 60) @ 58 # tl6"
    using assms by (simp add: str_timedelta_def secs_def mu_def tl6_def Let_def)
  have "58 \<notin> set tl6"
    using pad2_digits [of "secs mod 60"] pad6_digits [OF mu_lt] by (auto simp: tl6_def no_colon_digits)
  then have split: "py_split_sep (str_timedelta us) 58 = [show_nat (secs div 3600), pad2 (secs mod 3600 div 60), tl6]"
    unfolding str using show_nat_digits pad2_digits by (intro py_split_sep_three) (auto simp: no_colon_digits)
  have h: "py_int (show_nat (secs div 3600)) = Some (int (secs div 3600))"
    using show_nat_ne show_nat_digits by (simp add: py_int_digits digits_value_show_nat)
  have m: "py_int (pad2 (secs mod 3600 div 60)) = Some (int (secs mod 3600 div 60))"
    using pad2_digits by (simp add: py_int_digits)
  have f: "py_float tl6 = Some (Fin (real (secs mod 60) + real mu / 1000000))"
    unfolding tl6_def using mu_lt by (rule seconds_field_float)
  have "to_seconds (Some (str_timedelta us)) =
          Some (Fin (real_of_int (int (secs div 3600) * 3600 + int (secs mod 3600 div 60) * 60) +
                     (real (secs mod 60) + real mu / 1000000)))"
    by (simp add: to_seconds_def split h m f)
  also have "real_of_int (int (secs div 3600) * 3600 + int (secs mod 3600 div 60) * 60) =
        real (secs div 3600 * 3600 + secs mod 3600 div 60 * 60)" by simp
  finally show ?thesis
    using timedelta_fields [of us] by (simp only: secs_def mu_def)
qed

lemma in_dropWhile_nonP: "\<not> P c \<Longrightarrow> c \<in> set s \<Longrightarrow> c \<in> set (dropWhile P s)"
  by (induction s) auto

lemma in_py_strip: "\<not> py_isspace c \<Longrightarrow> c \<in> set s \<Longrightarrow> c \<in> set (py_strip s)"
  by (simp add: py_strip_def in_dropWhile_nonP)

lemma sign_split_mem: "sign_split x = (neg, r) \<Longrightarrow> c \<in> set x \<Longrightarrow> c \<noteq> 43 \<Longrightarrow> c \<noteq> 45 \<Longrightarrow> c \<in> set r"
  by (cases x) (auto simp: sign_split_def split: if_splits)

lemma py_int_bad_char:
  assumes "c \<in> set s" "\<not> is_digit c" "c \<noteq> 95" "\<not> py_isspace c" "c \<noteq> 43" "c \<noteq> 45"
  shows "py_int s = None"
proof -
  have c: "c \<in> set (py_strip s)" using assms(4,1) by (rule in_py_strip)
  obtain neg r where sr: "sign_split (py_strip s) = (neg, r)" by fastforce
  have "c \<in> set r" using sr c assms(5,6) by (rule sign_split_mem)
  then have "\<not> list_all (\<lambda>c. is_digit c \<or> c = 95) r" using assms(2,3) by (auto simp: list_all_iff)
  then show ?thesis by (simp add: py_int_def sr)
qed

lemma to_seconds_str_timedelta_days:
  assumes "86400000000 \<le> us"
  shows "to_seconds (Some (str_timedelta us)) = None"
proof -
  define d where "d = us div 86400000000"
  define r where "r = us mod 86400000000"
  define secs where "secs = r div 1000000"
  define mu where "mu = r mod 1000000"
  define p1 where "p1 = show_nat d @ ascii '' day'' @ (if d = 1 then [] else ascii ''s'') @ ascii '', ''
                         @ show_nat (secs div 3600)"
  define tl6 where "tl6 = pad2 (secs mod 60) @ (if mu = 0 then [] else 46 # pad6 mu)"
  have "0 < d" using assms by (simp add: d_def div_greater_zero_iff)
  then have str: "str_timedelta us = p1 @ 58 # pad2 (secs mod 3600 div 60) @ 58 # tl6"
    by (simp add: str_timedelta_def Let_def d_def r_def secs_def mu_def p1_def tl6_def)
  have "mu < 1000000" by (simp add: mu_def)
  then have "58 \<notin> set tl6"
    using pad2_digits [of "secs mod 60"] pad6_digits by (auto simp: tl6_def no_colon_digits)
  moreover have "58 \<notin> set p1"
    using show_nat_digits [of d] show_nat_digits [of "secs div 3600"] by (auto simp: p1_def no_colon_digits)
  ultimately have split: "py_split_sep (str_timedelta us) 58 = [p1, pad2 (secs mod 3600 div 60), tl6]"
    unfolding str using pad2_digits by (intro py_split_sep_three) (auto simp: no_colon_digits)
  have "py_int p1 = None"
    by (rule py_int_bad_char [of 100]) (auto simp: p1_def is_digit_def py_isspace_def)
  then show ?thesis by (simp add: to_seconds_def split)
qed

lemma plain_row_duration: "duration_seconds (plain_row l) = Fin 0"
  by (simp add: duration_seconds_def to_seconds_def plain_row_def Let_def split: prod.split)

lemma load_transcript_Inl:
  "load_transcript lib path content = Inl e \<Longrightarrow>
   e = utf8_decode_error \<or> webvtt_read lib content = Inl e \<or> (\<exists>u. srt_parse lib u = Inl e)"
  by (auto simp: load_transcript_def Let_def split: if_splits sum.splits dest: utf8_decode_strict_Inl)

lemma load_transcript_vtt:
  "py_lower (path_suffix path) = ascii ''.vtt'' \<Longrightarrow>
   load_transcript lib path content = map_sum id (map vtt_row) (webvtt_read lib content)"
  by (cases "webvtt_read lib content") (simp_all add: load_transcript_def)

subsection \<open>Properties\<close>

text \<open>
  C15. \<open>clean_text\<close> is the whitespace-separated words of the text without its tags,
  joined by single spaces: substituting every run of white space by one space and
  stripping the ends is \<open>" ".join(t.split())\<close>.
\<close>

theorem clean_text_words: "clean_text t = py_join [32] (py_split (strip_tags t))"
  by (simp add: clean_text_def py_strip_collapse_ws)

text \<open>
  C16. Round trip of the SRT timestamps: a subtitle time of less than 24 hours, rendered
  by \<open>str(timedelta)\<close> in the loader and parsed back by \<open>to_seconds\<close> in the
  enricher, gives its exact number of seconds.
\<close>

theorem srt_row_times:
  assumes "sub_start c < 86400000000" "sub_end c < 86400000000"
  shows "to_seconds (ts_start (srt_row c)) = Some (Fin (real (sub_start c) / 1000000)) \<and>
         to_seconds (ts_end (srt_row c)) = Some (Fin (real (sub_end c) / 1000000))"
  using assms by (simp add: srt_row_def to_seconds_str_timedelta_day)

theorem srt_row_times_witness:
  "to_seconds (ts_start (srt_row \<lparr>sub_start = 1500000, sub_end = 4000000, sub_content = ascii ''Hi''\<rparr>)) = Some (Fin (3 / 2)) \<and>
   to_seconds (ts_end (srt_row \<lparr>sub_start = 1500000, sub_end = 4000000, sub_content = ascii ''Hi''\<rparr>)) = Some (Fin 4)"
  using srt_row_times [of "\<lparr>sub_start = 1500000, sub_end = 4000000, sub_content = ascii ''Hi''\<rparr>"] by simp

text \<open>
  C17. An SRT subtitle ending before 24 hours gets \<open>duration_s\<close> = end - start in
  seconds: the loader and the enricher agree on the time format.
\<close>

theorem srt_row_duration:
  assumes "sub_start c \<le> sub_end c" "sub_end c < 86400000000"
  shows "duration_seconds (srt_row c) = Fin ((real (sub_end c) - real (sub_start c)) / 1000000)"
proof -
  have "real (sub_start c) \<le> real (sub_end c)" using assms(1) by simp
  then show ?thesis
    using assms by (simp add: duration_seconds_def srt_row_def to_seconds_str_timedelta_day pf_sub_def
        max_def diff_divide_distrib)
qed

theorem srt_row_duration_witness:
  "duration_seconds (srt_row \<lparr>sub_start = 1500000, sub_end = 4000000, sub_content = ascii ''Hi''\<rparr>) = Fin (5 / 2)"
  using srt_row_duration [of "\<lparr>sub_start = 1500000, sub_end = 4000000, sub_content = ascii ''Hi''\<rparr>"] by simp

text \<open>
  C18. An SRT subtitle ending at or after 24 hours gets \<open>duration_s = 0.0\<close>, whatever
  its length: \<open>str(timedelta)\<close> writes \<open>1 day, 0:00:05\<close>, which
  \<open>to_seconds\<close> cannot parse.
\<close>

theorem srt_row_late_zero:
  assumes "86400000000 \<le> sub_end c"
  shows "duration_seconds (srt_row c) = Fin 0"
  using assms by (simp add: duration_seconds_def srt_row_def to_seconds_str_timedelta_days split: option.split)

theorem srt_row_late_zero_witness:
  "duration_seconds (srt_row \<lparr>sub_start = 86395000000, sub_end = 86405000000, sub_content = ascii ''Hi''\<rparr>) = Fin 0"
  using srt_row_late_zero [of "\<lparr>sub_start = 86395000000, sub_end = 86405000000, sub_content = ascii ''Hi''\<rparr>"] by simp

text \<open>
  C19. A plain-text transcript has no timestamps: every turn of its enriched table has
  \<open>duration_s = 0.0\<close>, so Energy takes its token proxy for talk time.
\<close>

theorem load_plain_durations:
  "map duration_s (add_basic_fields (load_plain content)) = replicate (length (load_plain content)) (Fin 0)"
  by (simp add: add_basic_fields_def load_plain_def enrich_row_def plain_row_duration comp_def
      map_replicate_const)

text \<open>
  C20. \<open>infer_speaker\<close> returns \<open>Unknown\<close> or a name of 1 to 31 characters that
  starts with an ASCII letter and consists of letters, digits, \<open>_\<close>, space and
  \<open>-\<close>.
\<close>

theorem infer_speaker_shape:
  "infer_speaker txt = ascii ''Unknown'' \<or>
   (infer_speaker txt \<noteq> [] \<and> length (infer_speaker txt) \<le> 31 \<and> is_ascii_alpha (hd (infer_speaker txt)) \<and>
    list_all is_speaker_char (infer_speaker txt))"
  by (auto simp: infer_speaker_def speaker_prefix_def Let_def list_all_iff is_speaker_char_def
      dest: set_takeWhileD split: list.splits option.splits)

end
