(* ===== verification/Dashboard.thy ===== *)
theory Dashboard
  imports Mentimeter Policy Loader
begin

text \<open>
  The dashboard script, src/app.py, and the timestamp helper of src/src/utils.py. The
  Streamlit page is a script run once per interaction: for an uploaded transcript it
  writes the upload to \<open>data/_tmp_transcript<ext>\<close> (\<open>tmp_path\<close>), loads and
  enriches it, computes E, s, c2 and I, optionally summarises a Mentimeter export and
  blends its participation index into E (recomputing I), computes the timeline and the
  policy deltas, and assembles the signature dict. \<open>run_session\<close> is this script as a
  function of its inputs, in the order of the source: the first exception ends the run
  (Streamlit shows it and renders nothing further), which the model returns as \<open>Inl\<close>.
  Here the checkbox is the argument \<open>blend\<close> and \<open>now_iso()\<close> a time record; the
  widgets, the file writes and the reruns are modelled in the theory Page, and charts are
  presentation. The transcript arrives as the uploaded bytes, which the loader decodes;
  the Mentimeter summary and blend are in the theory Mentimeter.
\<close>

text \<open>\<open>os.path.splitext(name)[1]\<close>: from the last dot of the last path component, unless
  that component has only dots before it.\<close>

definition splitext_ext :: "ustr \<Rightarrow> ustr" where
  "splitext_ext p =
     (let base = rev (takeWhile (\<lambda>c. c \<noteq> 47) (rev p));
          k = length (takeWhile (\<lambda>c. c \<noteq> 46) (rev base))
      in if k < length base \<and> list_ex (\<lambda>c. c \<noteq> 46) (take (length base - k - 1) base)
         then drop (length base - k - 1) base else [])"

definition tmp_path :: "ustr \<Rightarrow> ustr" where
  "tmp_path name =
     (let name' = (if name = [] then ascii ''_tmp_transcript.vtt'' else name);
          ext = py_lower (splitext_ext name');
          suffix = (if ext = [] then ascii ''.txt'' else ext)
      in ascii ''data/_tmp_transcript'' @ suffix)"

text \<open>\<open>add_basic_fields\<close> applied to the DataFrame built from the loaded rows: a transcript
  without rows gives a DataFrame without columns, and \<open>df["text"]\<close> raises.\<close>

definition enrich_table :: "row list \<Rightarrow> py_error + turn list" where
  "enrich_table rows = (if rows = [] then Inl (KeyError (ascii ''text'')) else Inr (add_basic_fields rows))"

record tm =
  tm_year :: nat
  tm_mon :: nat
  tm_mday :: nat
  tm_hour :: nat
  tm_min :: nat
  tm_sec :: nat

definition now_iso :: "tm \<Rightarrow> ustr" where
  "now_iso t =
     show_nat (tm_year t) @ [45] @ pad2 (tm_mon t) @ [45] @ pad2 (tm_mday t) @ [84] @
     pad2 (tm_hour t) @ [58] @ pad2 (tm_min t) @ [58] @ pad2 (tm_sec t)"

record signature =
  generated_at :: ustr
  sig_turns :: nat
  sig_speakers :: nat
  sig_E :: pyfloat
  sig_s :: real
  sig_c2 :: real
  sig_I :: pyfloat
  sig_pp_delta :: pp_out
  mentimeter_ingested :: bool
  mentimeter_summary :: "menti_summary option"

record dashboard_lib =
  nlp :: nlp_lib
  tlib :: transcript_lib
  pdlib :: pd_lib

definition run_session ::
  "dashboard_lib \<Rightarrow> policies \<Rightarrow> ustr \<Rightarrow> bytes \<Rightarrow> menti_upload \<Rightarrow> bool \<Rightarrow> tm \<Rightarrow>
   py_error + signature \<times> block list" where
  "run_session lib P name content menti blend now =
     (case load_transcript (tlib lib) (tmp_path name) content of
        Inl e \<Rightarrow> Inl e
      | Inr rows \<Rightarrow>
     (case enrich_table rows of
        Inl e \<Rightarrow> Inl e
      | Inr df \<Rightarrow>
          (let E = energy_E df
           in case symbolic_coherence_s (nlp lib) df of
                Inl e \<Rightarrow> Inl e
              | Inr s \<Rightarrow>
                  (let c2 = connection_c2 df; I = impact_I E s c2
                   in case menti_step (pdlib lib) menti blend E s c2 I of
                        Inl e \<Rightarrow> Inl e
                      | Inr (E', I', summary) \<Rightarrow>
                          (case per_minute_timeline (nlp lib) df of
                             Inl e \<Rightarrow> Inl e
                           | Inr timeline \<Rightarrow>
                               (case pp_delta df P of
                                  Inl e \<Rightarrow> Inl e
                                | Inr delta \<Rightarrow>
                                    Inr (\<lparr>generated_at = now_iso now, sig_turns = length df,
                                          sig_speakers = length (remdups (map speaker df)),
                                          sig_E = E', sig_s = s, sig_c2 = c2, sig_I = I',
                                          sig_pp_delta = delta, mentimeter_ingested = (menti \<noteq> NoMenti),
                                          mentimeter_summary = summary\<rparr>, timeline)))))))"

subsection \<open>Error values and examples\<close>

definition example_lib :: dashboard_lib where
  "example_lib =
     \<lparr>nlp = example_nlp, tlib = \<lparr>webvtt_read = (\<lambda>_. Inr []), srt_parse = (\<lambda>_. Inr [])\<rparr>,
      pdlib = \<lparr>to_numeric_str = (\<lambda>_. NaN), num_str = (\<lambda>_. [])\<rparr>\<rparr>"

definition example_tm :: tm where
  "example_tm = \<lparr>tm_year = 2025, tm_mon = 3, tm_mday = 7, tm_hour = 9, tm_min = 5, tm_sec = 0\<rparr>"

lemmas dashboard_defs [model_eval] =
  splitext_ext_def tmp_path_def enrich_table_def now_iso_def run_session_def

subsection \<open>Helper lemmas\<close>

lemma enrich_table_Inr: "enrich_table rows = Inr df \<Longrightarrow> df = add_basic_fields rows"
  by (simp add: enrich_table_def split: if_splits)

lemma enrich_table_Inl: "enrich_table rows = Inl e \<Longrightarrow> e = KeyError (ascii ''text'')"
  by (simp add: enrich_table_def split: if_splits)

lemma energy_E_enriched: "\<exists>e. energy_E (add_basic_fields rows) = Fin e \<and> 0 \<le> e \<and> e \<le> 1"
  using energy_E_within_general [OF add_basic_fields_durations [of rows]] by (auto simp: fin_within_iff)

lemma symbolic_coherence_s_Inl: "symbolic_coherence_s L ts = Inl e \<Longrightarrow> e = empty_vocabulary_error"
  using symbolic_coherence_s_cases [where L = L and ts = ts] by simp

lemma run_session_Inr:
  assumes "run_session lib P name content menti blend now = Inr (sig, timeline)"
  obtains rows df s E' I' sm delta where
    "load_transcript (tlib lib) (tmp_path name) content = Inr rows"
    "enrich_table rows = Inr df"
    "symbolic_coherence_s (nlp lib) df = Inr s"
    "menti_step (pdlib lib) menti blend (energy_E df) s (connection_c2 df)
       (impact_I (energy_E df) s (connection_c2 df)) = Inr (E', I', sm)"
    "per_minute_timeline (nlp lib) df = Inr timeline"
    "pp_delta df P = Inr delta"
    "sig = \<lparr>generated_at = now_iso now, sig_turns = length df, sig_speakers = length (remdups (map speaker df)),
            sig_E = E', sig_s = s, sig_c2 = connection_c2 df, sig_I = I', sig_pp_delta = delta,
            mentimeter_ingested = (menti \<noteq> NoMenti), mentimeter_summary = sm\<rparr>"
  using assms by (auto simp: run_session_def Let_def split: sum.splits prod.splits)

lemma splitext_ext_Nil: "splitext_ext [] = []"
  by (simp add: splitext_ext_def)

lemma run_session_load_Inl:
  "load_transcript (tlib lib) (tmp_path name) content = Inl e \<Longrightarrow>
   run_session lib P name content menti blend now = Inl e"
  by (simp add: run_session_def)

lemma run_session_isl:
  fixes lib P name content menti blend now
  assumes load: "load_transcript (tlib lib) (tmp_path name) content = Inr rows"
  defines "df \<equiv> add_basic_fields rows"
  defines "M \<equiv> (case menti of NoMenti \<Rightarrow> False | Menti t \<Rightarrow> \<not> menti_empty t \<and> menti_raises (pdlib lib) t)"
  shows "isl (run_session lib P name content menti blend now) \<longleftrightarrow>
   df = [] \<or> isl (symbolic_coherence_s (nlp lib) df) \<or> M \<or>
   isl (per_minute_timeline (nlp lib) df) \<or> isl (pp_delta df P)"
proof (cases "df = []")
  case True
  then show ?thesis by (simp add: df_def run_session_def load enrich_table_def add_basic_fields_def)
next
  case False
  then have tab: "enrich_table rows = Inr df"
    by (auto simp: df_def enrich_table_def add_basic_fields_def)
  show ?thesis
  proof (cases "symbolic_coherence_s (nlp lib) df")
    case (Inr s)
    define E c2 where "E = energy_E df" and "c2 = connection_c2 df"
    have "isl (menti_step (pdlib lib) menti blend E s c2 (impact_I E s c2)) \<longleftrightarrow> M"
      by (simp add: M_def menti_step_isl)
    with False Inr show ?thesis
      by (cases "menti_step (pdlib lib) menti blend E s c2 (impact_I E s c2)")
         (auto simp: run_session_def load tab E_def c2_def Let_def split: sum.splits)
  qed (simp add: run_session_def load tab)
qed

lemma example_session_load:
  "\<exists>r. load_transcript (tlib example_lib) (tmp_path (ascii ''notes.txt'')) (ascii ''Hello there'') = Inr [r]"
  by (simp add: utf8_decode_ignore_ascii universal_newlines_id load_transcript_def tmp_path_def splitext_ext_def path_suffix_def load_plain_def
        splitlines_def py_strip_def py_isspace_def is_line_break_def example_lib_def py_lower_def
        py_lower_char_def splitlines_acc.simps)

lemma example_session_table:
  "\<exists>rows. load_transcript (tlib example_lib) (tmp_path (ascii ''notes.txt'')) (ascii ''Hello there'') = Inr rows \<and>
     length rows = 1 \<and> add_basic_fields rows \<noteq> [] \<and> length (add_basic_fields rows) = 1 \<and>
     windows (add_basic_fields rows) = [add_basic_fields rows]"
  using example_session_load by (auto simp: add_basic_fields_def windows_single)

lemma example_session:
  "\<exists>sig timeline. run_session example_lib [] (ascii ''notes.txt'') (ascii ''Hello there'') NoMenti True example_tm =
     Inr (sig, timeline)"
proof -
  obtain rows where r: "load_transcript (tlib example_lib) (tmp_path (ascii ''notes.txt'')) (ascii ''Hello there'') = Inr rows"
    "add_basic_fields rows \<noteq> []" "length (add_basic_fields rows) = 1"
    "windows (add_basic_fields rows) = [add_basic_fields rows]"
    using example_session_table by blast
  have "\<not> isl (run_session example_lib [] (ascii ''notes.txt'') (ascii ''Hello there'') NoMenti True example_tm)"
    unfolding run_session_isl [OF r(1)] using r(2-4)
    by (simp add: symbolic_coherence_s_error_iff per_minute_timeline_isl pp_delta_isl)
  then show ?thesis by (cases "run_session example_lib [] (ascii ''notes.txt'') (ascii ''Hello there'') NoMenti True example_tm") auto
qed

subsection \<open>Properties\<close>

text \<open>
  C21. Every signature the dashboard assembles has I finite in \<open>[0, 1]\<close>, s in
  \<open>[0, 1]\<close> and c2 in \<open>[0.05, 1]\<close>, and every block of the timeline it plots is in
  range, whatever the transcript, the policies and the Mentimeter export, with or without
  the blend.
\<close>

theorem run_session_within:
  assumes "run_session lib P name content menti blend now = Inr (sig, timeline)"
  shows "fin_within 0 1 (sig_I sig) \<and> 0 \<le> sig_s sig \<and> sig_s sig \<le> 1 \<and>
         0.05 \<le> sig_c2 sig \<and> sig_c2 sig \<le> 1 \<and> (\<forall>b\<in>set timeline. block_ok b)"
proof -
  obtain rows df s E' I' sm delta where
    df: "enrich_table rows = Inr df" and
    s: "symbolic_coherence_s (nlp lib) df = Inr s" and
    m: "menti_step (pdlib lib) menti blend (energy_E df) s (connection_c2 df)
          (impact_I (energy_E df) s (connection_c2 df)) = Inr (E', I', sm)" and
    tl: "per_minute_timeline (nlp lib) df = Inr timeline" and
    sig: "sig = \<lparr>generated_at = now_iso now, sig_turns = length df, sig_speakers = length (remdups (map speaker df)),
            sig_E = E', sig_s = s, sig_c2 = connection_c2 df, sig_I = I', sig_pp_delta = delta,
            mentimeter_ingested = (menti \<noteq> NoMenti), mentimeter_summary = sm\<rparr>"
    using assms by (rule run_session_Inr)
  have dfr: "df = add_basic_fields rows" using df by (simp add: enrich_table_Inr)
  obtain e where e: "energy_E df = Fin e" using energy_E_enriched [of rows] dfr by blast
  have c2: "0.05 \<le> connection_c2 df \<and> connection_c2 df \<le> 1" by (rule connection_c2_range)
  then have c2pos: "0 < connection_c2 df" by simp
  have "fin_within 0 1 I'"
    using menti_step_Inr [OF m]
  proof
    assume "E' = energy_E df \<and> I' = impact_I (energy_E df) s (connection_c2 df)"
    then show ?thesis using e c2pos by (simp add: impact_I_Fin_within)
  next
    assume "\<exists>p. E' = blend_E (energy_E df) (Fin p) \<and> I' = impact_I E' s (connection_c2 df)"
    then obtain p where "E' = blend_E (Fin e) (Fin p)" "I' = impact_I E' s (connection_c2 df)"
      using e by auto
    then show ?thesis using c2pos by (simp add: blend_E_Fin impact_I_Fin_within)
  qed
  moreover have "0 \<le> s \<and> s \<le> 1" using s by (rule symbolic_coherence_s_Inr_within)
  moreover have "\<forall>b\<in>set timeline. block_ok b"
    using add_basic_fields_durations tl [unfolded dfr] by (rule per_minute_timeline_ok)
  ultimately show ?thesis using c2 by (simp add: sig)
qed

theorem run_session_within_witness:
  "\<exists>sig timeline. run_session example_lib [] (ascii ''notes.txt'') (ascii ''Hello there'') NoMenti True example_tm =
     Inr (sig, timeline) \<and> fin_within 0 1 (sig_I sig) \<and> 0.05 \<le> sig_c2 sig \<and> sig_c2 sig \<le> 1"
  using example_session run_session_within by blast

text \<open>
  C22. The exceptions a dashboard run can end with: the \<open>UnicodeDecodeError\<close> of the
  strict UTF-8 read of an SRT file, an exception of the \<open>webvtt\<close> or \<open>srt\<close> parser,
  \<open>KeyError('text')\<close> for a transcript without turns, the vectorizer's \<open>ValueError\<close>
  (from s or from a timeline window), the \<open>IndexingError\<close>, \<open>IndexError\<close> or
  \<open>KeyError('top_result')\<close> of a Mentimeter export that lacks a column, the
  \<open>OverflowError\<close> or \<open>ValueError\<close> of \<open>int(votes)\<close> for an infinite or undefined
  float vote total, and \<open>KeyError('duty')\<close> from the policy matcher.
\<close>

theorem run_session_errors:
  "run_session lib P name content menti blend now = Inl e \<Longrightarrow>
   e \<in> {utf8_decode_error, KeyError (ascii ''text''), empty_vocabulary_error, unalignable_error, iloc_error,
         top_result_error, int_overflow_error, int_nan_error, KeyError (ascii ''duty'')} \<or>
   webvtt_read (tlib lib) content = Inl e \<or> (\<exists>u. srt_parse (tlib lib) u = Inl e)"
  by (auto simp: run_session_def Let_def split: sum.splits prod.splits
      dest: load_transcript_Inl enrich_table_Inl symbolic_coherence_s_Inl menti_step_Inl per_minute_timeline_Inl
        pp_delta_Inl)

theorem run_session_errors_witness:
  "run_session example_lib [] (ascii ''notes.txt'') [32, 10, 9] NoMenti True example_tm = Inl (KeyError (ascii ''text'')) \<and>
   KeyError (ascii ''text'') \<in> {utf8_decode_error, KeyError (ascii ''text''), empty_vocabulary_error, unalignable_error,
         iloc_error, top_result_error, int_overflow_error, int_nan_error, KeyError (ascii ''duty'')}"
proof -
  have "run_session example_lib [] (ascii ''notes.txt'') [32, 10, 9] NoMenti True example_tm = Inl (KeyError (ascii ''text''))"
    by (simp add: utf8_decode_ignore_ascii universal_newlines_id run_session_def enrich_table_def load_transcript_def tmp_path_def splitext_ext_def
        path_suffix_def load_plain_def splitlines_def py_strip_def py_isspace_def is_line_break_def
        example_lib_def py_lower_def py_lower_char_def splitlines_acc.simps)
  moreover have "KeyError (ascii ''text'') \<noteq> utf8_decode_error" by (simp add: utf8_decode_error_def)
  ultimately show ?thesis using run_session_errors by blast
qed

text \<open>
  C24. The signature is built from the components' results: I is recomputed from the
  reported E (after the blend too), the turn count is the number of loaded rows, the
  timeline and the policy deltas are those of the enriched table, and
  \<open>mentimeter_ingested\<close> records whether a file was uploaded.
\<close>

theorem run_session_composition:
  assumes "run_session lib P name content menti blend now = Inr (sig, timeline)"
  shows "\<exists>rows. load_transcript (tlib lib) (tmp_path name) content = Inr rows \<and>
         sig_I sig = impact_I (sig_E sig) (sig_s sig) (sig_c2 sig) \<and>
         sig_turns sig = length rows \<and>
         per_minute_timeline (nlp lib) (add_basic_fields rows) = Inr timeline \<and>
         pp_delta (add_basic_fields rows) P = Inr (sig_pp_delta sig) \<and>
         mentimeter_ingested sig = (menti \<noteq> NoMenti) \<and> generated_at sig = now_iso now"
proof -
  obtain rows df s E' I' sm delta where
    load: "load_transcript (tlib lib) (tmp_path name) content = Inr rows" and
    df: "enrich_table rows = Inr df" and
    m: "menti_step (pdlib lib) menti blend (energy_E df) s (connection_c2 df)
          (impact_I (energy_E df) s (connection_c2 df)) = Inr (E', I', sm)" and
    tl: "per_minute_timeline (nlp lib) df = Inr timeline" and
    pp: "pp_delta df P = Inr delta" and
    sig: "sig = \<lparr>generated_at = now_iso now, sig_turns = length df, sig_speakers = length (remdups (map speaker df)),
            sig_E = E', sig_s = s, sig_c2 = connection_c2 df, sig_I = I', sig_pp_delta = delta,
            mentimeter_ingested = (menti \<noteq> NoMenti), mentimeter_summary = sm\<rparr>"
    using assms by (rule run_session_Inr) blast
  have dfr: "df = add_basic_fields rows" using df by (rule enrich_table_Inr)
  have "I' = impact_I E' s (connection_c2 df)" using menti_step_Inr [OF m] by auto
  then show ?thesis using load tl pp by (simp add: sig dfr add_basic_fields_def)
qed

theorem run_session_composition_witness:
  "\<exists>sig timeline. run_session example_lib [] (ascii ''notes.txt'') (ascii ''Hello there'') NoMenti True example_tm =
     Inr (sig, timeline) \<and> sig_turns sig = 1 \<and> \<not> mentimeter_ingested sig \<and> generated_at sig = now_iso example_tm"
proof -
  obtain sig timeline where
    run: "run_session example_lib [] (ascii ''notes.txt'') (ascii ''Hello there'') NoMenti True example_tm = Inr (sig, timeline)"
    using example_session by blast
  obtain rows where "load_transcript (tlib example_lib) (tmp_path (ascii ''notes.txt'')) (ascii ''Hello there'') = Inr rows"
    "length rows = 1"
    using example_session_table by blast
  with run_session_composition [OF run] run show ?thesis by auto
qed

text \<open>
  C23. A dashboard run returns a signature exactly when the transcript file reads and
  parses, it loads at least one row, neither the whole table nor any 20-turn timeline window
  of three or more turns has an empty TF-IDF vocabulary, the Mentimeter summary (if a
  non-empty file was uploaded) does not raise (\<open>menti_raises\<close>: no failing lookup of a
  missing column, a finite vote total), and every policy clause has a duty; each violated
  condition is one of the exceptions above.
\<close>

theorem run_session_succeeds_iff:
  "(\<exists>sig timeline. run_session lib P name content menti blend now = Inr (sig, timeline)) \<longleftrightarrow>
   (\<exists>rows. load_transcript (tlib lib) (tmp_path name) content = Inr rows \<and>
     (let df = add_basic_fields rows
      in df \<noteq> [] \<and> (\<forall>w\<in>set (df # windows df). 3 \<le> length w \<longrightarrow> vocabulary (nlp lib) (map text_col w) \<noteq> []) \<and>
         (case menti of NoMenti \<Rightarrow> True | Menti t \<Rightarrow> menti_empty t \<or> \<not> menti_raises (pdlib lib) t) \<and>
         (\<forall>(corpus, cls)\<in>set P. \<forall>(cid, m)\<in>set cls. duty m \<noteq> None)))"
proof (cases "load_transcript (tlib lib) (tmp_path name) content")
  case (Inl e)
  then show ?thesis by (simp add: run_session_load_Inl)
next
  case (Inr rows)
  have "(\<exists>sig timeline. r = Inr (sig, timeline)) \<longleftrightarrow> \<not> isl r" for r :: "py_error + signature \<times> block list"
    by (cases r) auto
  then show ?thesis
    by (simp add: Inr run_session_isl [OF Inr] Let_def symbolic_coherence_s_error_iff per_minute_timeline_isl
        pp_delta_notisl split: menti_upload.split) blast
qed

theorem run_session_succeeds_iff_witness:
  "\<exists>sig timeline. run_session example_lib [] (ascii ''notes.txt'') (ascii ''Hello there'') NoMenti True example_tm =
     Inr (sig, timeline)"
proof -
  obtain rows where "load_transcript (tlib example_lib) (tmp_path (ascii ''notes.txt'')) (ascii ''Hello there'') = Inr rows"
    "add_basic_fields rows \<noteq> []" "length (add_basic_fields rows) = 1"
    "windows (add_basic_fields rows) = [add_basic_fields rows]"
    using example_session_table by blast
  then show ?thesis
    using run_session_succeeds_iff [of example_lib "[]" "ascii ''notes.txt''" "ascii ''Hello there''" NoMenti True example_tm]
    by (simp add: Let_def)
qed

text \<open>
  C33. An upload whose extension is \<open>.vtt\<close> in any case is written to
  \<open>data/_tmp_transcript.vtt\<close> and parsed by the VTT path of \<open>load_transcript\<close>:
  \<open>os.path.splitext\<close> in the page and \<open>Path.suffix\<close> in the loader agree.
\<close>

theorem upload_vtt_dispatch:
  assumes "py_lower (splitext_ext name) = ascii ''.vtt''"
  shows "load_transcript lib (tmp_path name) content = map_sum id (map vtt_row) (webvtt_read lib content)"
proof -
  have "name \<noteq> []" using assms by (auto simp: splitext_ext_Nil py_lower_def)
  with assms have "tmp_path name = ascii ''data/_tmp_transcript.vtt''" by (simp add: tmp_path_def)
  then show ?thesis by (simp add: load_transcript_vtt path_suffix_def py_lower_def py_lower_char_def)
qed

theorem upload_vtt_dispatch_witness:
  "load_transcript (tlib example_lib) (tmp_path (ascii ''Meeting.VTT'')) (ascii ''WEBVTT'') =
   map_sum id (map vtt_row) (webvtt_read (tlib example_lib) (ascii ''WEBVTT''))"
  by (rule upload_vtt_dispatch) (simp add: splitext_ext_def py_lower_def py_lower_char_def)

end
