(* ===== verification/Page.thy ===== *)
theory Page
  imports Dashboard
begin

text \<open>
  The Streamlit page as a state machine: src/app.py lines 69-198, the policy loader
  of src/src/policy.py (lines 5-6), the Mentimeter CSV loader of src/src/preprocess.py
  (lines 124-129) and \<open>save_signature\<close> of src/src/utils.py (lines 4-8). Streamlit runs
  the whole script again on every interaction; the state that survives a run is the
  widgets' values (the two uploads and the blend checkbox) and the files the script
  wrote. \<open>page_run\<close> is one run of the script over a file store \<open>files\<close> (paths to
  contents): it reads \<open>policies.json\<close>, writes the uploads to their temporary paths
  (the transcript before it is loaded, the Mentimeter export only once E, s, c2 and I
  are computed), evaluates the session (\<open>run_session\<close>) and, when the run was caused
  by a click on "Save JSON signature", writes the signature with \<open>save_signature\<close>
  and offers the download. The first exception ends the run with the files written so
  far. \<open>page_handle\<close> applies one user event to the widgets and runs the script;
  \<open>page_reach\<close> is the set of pages reachable from the first run by any sequence of
  events at any times. \<open>json.loads\<close>, \<open>json.dumps\<close>, \<open>pd.read_csv\<close> and
  \<open>pd.Series(sig).to_json()\<close> are library functions, parameters of \<open>page_lib\<close>.
\<close>

type_synonym files = "ustr \<Rightarrow> bytes option"

record upload =
  up_name :: ustr
  up_data :: bytes

record widgets =
  w_tfile :: "upload option"
  w_mfile :: "upload option"
  w_blend :: bool

record page_lib =
  p_dash :: dashboard_lib
  read_csv :: "bytes \<Rightarrow> py_error + menti_table"
  json_loads :: "ustr \<Rightarrow> py_error + policies"
  json_dumps :: "signature \<Rightarrow> ustr"
  series_json :: "signature \<Rightarrow> ustr"

definition policies_path :: ustr where
  "policies_path = ascii ''policies.json''"

definition menti_path :: ustr where
  "menti_path = ascii ''data/_tmp_mentimeter.csv''"

definition sig_path :: ustr where
  "sig_path = ascii ''data/mdd_signature.json''"

text \<open>\<open>load_policies\<close>: \<open>Path(path).read_text(encoding="utf-8")\<close> raises
  \<open>FileNotFoundError\<close> for a missing file and \<open>UnicodeDecodeError\<close> for bytes that are
  not UTF-8, and reads in text mode (universal newlines); \<open>json.loads\<close> raises on
  malformed JSON.\<close>

definition load_policies :: "page_lib \<Rightarrow> files \<Rightarrow> ustr \<Rightarrow> py_error + policies" where
  "load_policies lib fs path =
     (case fs path of
        None \<Rightarrow> Inl (FileNotFoundError path)
      | Some b \<Rightarrow>
          (case utf8_decode_strict b of
             Inl e \<Rightarrow> Inl e
           | Inr t \<Rightarrow> json_loads lib (universal_newlines t)))"

text \<open>\<open>load_mentimeter_csv\<close>: any exception of \<open>pd.read_csv\<close> (a missing file
  among them) gives the empty DataFrame, without rows or columns.\<close>

definition no_table :: menti_table where
  "no_table = \<lparr>m_columns = [], m_rows = []\<rparr>"

definition load_mentimeter_csv :: "page_lib \<Rightarrow> files \<Rightarrow> ustr \<Rightarrow> menti_table" where
  "load_mentimeter_csv lib fs path =
     (case fs path of None \<Rightarrow> no_table | Some b \<Rightarrow> (case read_csv lib b of Inl _ \<Rightarrow> no_table | Inr t \<Rightarrow> t))"

definition save_signature :: "page_lib \<Rightarrow> signature \<Rightarrow> ustr \<Rightarrow> files \<Rightarrow> files" where
  "save_signature lib sig path fs = fs(path \<mapsto> utf8_encode (json_dumps lib sig))"

text \<open>\<open>save_signature\<close>: \<open>write_text(json.dumps(payload, indent=2), encoding="utf-8")\<close>;
  \<open>json.dumps\<close> escapes every non-ASCII character (\<open>ensure_ascii\<close>), so the encoding
  cannot fail. The SHA-256 digest it returns is only displayed.\<close>

text \<open>Whether a run gets past the base metrics (lines 85-101) to the Mentimeter block.\<close>

definition reaches_menti :: "dashboard_lib \<Rightarrow> ustr \<Rightarrow> bytes \<Rightarrow> bool" where
  "reaches_menti lib path content =
     (case load_transcript (tlib lib) path content of
        Inl _ \<Rightarrow> False
      | Inr rows \<Rightarrow>
          (case enrich_table rows of
             Inl _ \<Rightarrow> False
           | Inr df \<Rightarrow> \<not> isl (symbolic_coherence_s (nlp lib) df)))"

text \<open>What a run shows: the prompt, the report (with the download of the saved signature
  when the run was caused by the click), or the exception that ended it.\<close>

datatype screen = Prompt | Report signature "block list" "ustr option" | Crashed py_error

text \<open>A run also reports whether it rendered the blend checkbox (line 127): Streamlit
  drops the state of a widget that a run does not render, so the next run that shows the
  checkbox shows its default, \<open>value=True\<close>.\<close>

definition page_run :: "page_lib \<Rightarrow> tm \<Rightarrow> bool \<Rightarrow> widgets \<Rightarrow> files \<Rightarrow> files \<times> screen \<times> bool" where
  "page_run lib now clicked w fs =
     (case load_policies lib fs policies_path of
        Inl e \<Rightarrow> (fs, Crashed e, False)
      | Inr P \<Rightarrow>
          (case w_tfile w of
             None \<Rightarrow> (fs, Prompt, False)
           | Some tf \<Rightarrow>
               (let path = tmp_path (up_name tf);
                    fs1 = fs(path \<mapsto> up_data tf);
                    reached = reaches_menti (p_dash lib) path (up_data tf);
                    fs2 = (case w_mfile w of
                             None \<Rightarrow> fs1
                           | Some mf \<Rightarrow> if reached then fs1(menti_path \<mapsto> up_data mf) else fs1);
                    mt = load_mentimeter_csv lib fs2 menti_path;
                    menti = (case w_mfile w of None \<Rightarrow> NoMenti | Some mf \<Rightarrow> Menti mt);
                    shown = (w_mfile w \<noteq> None \<and> reached \<and> \<not> menti_empty mt \<and>
                             \<not> isl (summarise_mentimeter (pdlib (p_dash lib)) mt))
                in case run_session (p_dash lib) P (up_name tf) (up_data tf) menti (w_blend w) now of
                     Inl e \<Rightarrow> (fs2, Crashed e, shown)
                   | Inr (sig, timeline) \<Rightarrow>
                       (if clicked
                        then (save_signature lib sig sig_path fs2, Report sig timeline (Some (series_json lib sig)), shown)
                        else (fs2, Report sig timeline None, shown)))))"

datatype event =
  UploadTranscript upload | ClearTranscript | UploadMenti upload | ClearMenti | SetBlend bool
  | ClickSave | Rerun

primrec apply_event :: "event \<Rightarrow> widgets \<Rightarrow> widgets" where
  "apply_event (UploadTranscript u) w = w\<lparr>w_tfile := Some u\<rparr>"
| "apply_event ClearTranscript w = w\<lparr>w_tfile := None\<rparr>"
| "apply_event (UploadMenti u) w = w\<lparr>w_mfile := Some u\<rparr>"
| "apply_event ClearMenti w = w\<lparr>w_mfile := None\<rparr>"
| "apply_event (SetBlend b) w = w\<lparr>w_blend := b\<rparr>"
| "apply_event ClickSave w = w"
| "apply_event Rerun w = w"

record page =
  pg_widgets :: widgets
  pg_files :: files
  pg_screen :: screen

definition is_report :: "screen \<Rightarrow> bool" where
  "is_report s = (case s of Report _ _ _ \<Rightarrow> True | _ \<Rightarrow> False)"

definition initial_widgets :: widgets where
  "initial_widgets = \<lparr>w_tfile = None, w_mfile = None, w_blend = True\<rparr>"

definition page_start :: "page_lib \<Rightarrow> tm \<Rightarrow> files \<Rightarrow> page" where
  "page_start lib now fs =
     (let (fs', scr, shown) = page_run lib now False initial_widgets fs
      in \<lparr>pg_widgets = initial_widgets, pg_files = fs', pg_screen = scr\<rparr>)"

text \<open>The button is on the page only after a run that reached line 187, so a click is a
  click only when the shown screen is a report; a click runs the script once with
  \<open>st.button\<close> true, and the next run sees it false again.\<close>

definition page_handle :: "page_lib \<Rightarrow> tm \<Rightarrow> event \<Rightarrow> page \<Rightarrow> page" where
  "page_handle lib now ev p =
     (let w = apply_event ev (pg_widgets p);
          clicked = (ev = ClickSave \<and> is_report (pg_screen p));
          (fs', scr, shown) = page_run lib now clicked w (pg_files p)
      in \<lparr>pg_widgets = (if shown then w else w\<lparr>w_blend := True\<rparr>), pg_files = fs', pg_screen = scr\<rparr>)"

inductive page_reach :: "page_lib \<Rightarrow> files \<Rightarrow> page \<Rightarrow> bool" for lib fs0 where
  start: "page_reach lib fs0 (page_start lib now fs0)"
| step: "page_reach lib fs0 p \<Longrightarrow> page_reach lib fs0 (page_handle lib now ev p)"

definition example_page_lib :: page_lib where
  "example_page_lib =
     \<lparr>p_dash = example_lib, read_csv = (\<lambda>_. Inr no_table), json_loads = (\<lambda>_. Inr []),
      json_dumps = (\<lambda>_. ascii ''{}''), series_json = (\<lambda>_. ascii ''{}'')\<rparr>"

definition example_files :: files where
  "example_files = [policies_path \<mapsto> ascii ''{}'']"

definition example_upload :: upload where
  "example_upload = \<lparr>up_name = ascii ''notes.txt'', up_data = ascii ''Hello there''\<rparr>"

definition example_page1 :: page where
  "example_page1 =
     page_handle example_page_lib example_tm (UploadTranscript example_upload)
       (page_start example_page_lib example_tm example_files)"

lemmas page_defs [model_eval] =
  policies_path_def menti_path_def sig_path_def load_policies_def no_table_def load_mentimeter_csv_def
  save_signature_def reaches_menti_def page_run_def is_report_def initial_widgets_def
  page_start_def page_handle_def


subsection \<open>Helper lemmas\<close>

lemma tmp_path_ne [simp]:
  "tmp_path n \<noteq> sig_path" "tmp_path n \<noteq> menti_path" "tmp_path n \<noteq> policies_path"
  "sig_path \<noteq> tmp_path n" "menti_path \<noteq> tmp_path n" "policies_path \<noteq> tmp_path n"
  by (simp_all add: tmp_path_def sig_path_def menti_path_def policies_path_def Let_def)

lemma page_paths_ne [simp]:
  "menti_path \<noteq> sig_path" "sig_path \<noteq> menti_path" "policies_path \<noteq> sig_path" "policies_path \<noteq> menti_path"
  by (simp_all add: sig_path_def menti_path_def policies_path_def)

lemma page_run_frame:
  assumes "page_run lib now clicked w fs = (fs', scr, shown)"
    "q \<noteq> menti_path" "q \<noteq> sig_path" "\<forall>n. q \<noteq> tmp_path n"
  shows "fs' q = fs q"
  using assms
  by (auto simp: page_run_def save_signature_def Let_def split: sum.splits option.splits prod.splits if_splits)

lemma page_run_Report:
  assumes "page_run lib now clicked w fs = (fs', Report sig timeline d, shown)"
  shows "\<exists>P tf menti. load_policies lib fs policies_path = Inr P \<and> w_tfile w = Some tf \<and>
           run_session (p_dash lib) P (up_name tf) (up_data tf) menti (w_blend w) now = Inr (sig, timeline) \<and>
           (if clicked then fs' sig_path = Some (utf8_encode (json_dumps lib sig)) \<and> d = Some (series_json lib sig)
            else fs' sig_path = fs sig_path \<and> d = None)"
  using assms
  by (auto simp: page_run_def save_signature_def Let_def split: sum.splits option.splits prod.splits if_splits)

lemma page_run_other:
  "page_run lib now clicked w fs = (fs', scr, shown) \<Longrightarrow> \<not> is_report scr \<Longrightarrow> fs' sig_path = fs sig_path"
  by (auto simp: page_run_def is_report_def Let_def split: sum.splits option.splits prod.splits if_splits)

lemma page_run_sig:
  assumes "page_run lib now clicked w fs = (fs', scr, shown)"
  shows "fs' sig_path = fs sig_path \<or>
         (\<exists>P name data menti blend sig timeline.
            run_session (p_dash lib) P name data menti blend now = Inr (sig, timeline) \<and>
            fs' sig_path = Some (utf8_encode (json_dumps lib sig)))"
proof (cases scr)
  case (Report sig timeline d)
  then show ?thesis using page_run_Report [OF assms [unfolded Report]] by (cases clicked) (simp, blast)+
qed (use page_run_other [OF assms] in \<open>simp_all add: is_report_def\<close>)

lemma page_handle_cases:
  obtains shown where
    "page_run lib now (ev = ClickSave \<and> is_report (pg_screen p)) (apply_event ev (pg_widgets p)) (pg_files p) =
       (pg_files (page_handle lib now ev p), pg_screen (page_handle lib now ev p), shown)"
    "pg_widgets (page_handle lib now ev p) =
       (if shown then apply_event ev (pg_widgets p) else (apply_event ev (pg_widgets p))\<lparr>w_blend := True\<rparr>)"
  by (cases "page_run lib now (ev = ClickSave \<and> is_report (pg_screen p)) (apply_event ev (pg_widgets p)) (pg_files p)")
     (auto simp: page_handle_def Let_def)

lemma page_start_cases:
  obtains shown where
    "page_run lib now False initial_widgets fs = (pg_files (page_start lib now fs), pg_screen (page_start lib now fs), shown)"
  by (cases "page_run lib now False initial_widgets fs") (auto simp: page_start_def)

lemma menti_step_NoMenti: "menti_step lib NoMenti b E s c2 I = Inr (E, I, None)"
  by (simp add: menti_step_def)

lemma run_session_NoMenti_blend:
  "run_session lib P name data NoMenti b now = run_session lib P name data NoMenti b' now"
  unfolding run_session_def menti_step_NoMenti by (rule refl)

lemma page_run_success:
  assumes "load_policies lib fs policies_path = Inr P" "w_tfile w = Some tf" "w_mfile w = None"
    "run_session (p_dash lib) P (up_name tf) (up_data tf) NoMenti b now = Inr (sig, timeline)"
  shows "page_run lib now clicked w fs =
     (if clicked then (fs(tmp_path (up_name tf) \<mapsto> up_data tf, sig_path \<mapsto> utf8_encode (json_dumps lib sig)),
                       Report sig timeline (Some (series_json lib sig)), False)
      else (fs(tmp_path (up_name tf) \<mapsto> up_data tf), Report sig timeline None, False))"
  using assms run_session_NoMenti_blend [of "p_dash lib" P "up_name tf" "up_data tf" "w_blend w" now b]
  by (simp add: page_run_def save_signature_def Let_def)

lemma page_handle_policies:
  "load_policies lib (pg_files (page_handle lib now ev q)) policies_path = load_policies lib (pg_files q) policies_path"
proof -
  obtain shown where "page_run lib now (ev = ClickSave \<and> is_report (pg_screen q)) (apply_event ev (pg_widgets q)) (pg_files q) =
      (pg_files (page_handle lib now ev q), pg_screen (page_handle lib now ev q), shown)"
    by (rule page_handle_cases)
  then show ?thesis by (simp add: load_policies_def page_run_frame)
qed

lemma example_start:
  "pg_files (page_start example_page_lib example_tm example_files) = example_files \<and>
   load_policies example_page_lib example_files policies_path = Inr []"
  by (simp add: page_start_def page_run_def load_policies_def initial_widgets_def example_files_def
      example_page_lib_def utf8_decode_strict_ascii universal_newlines_id)

lemma example_page1_run:
  assumes "run_session example_lib [] (ascii ''notes.txt'') (ascii ''Hello there'') NoMenti True example_tm =
    Inr (sig, timeline)"
  shows "pg_screen example_page1 = Report sig timeline None \<and>
    load_policies example_page_lib (pg_files example_page1) policies_path = Inr [] \<and>
    w_tfile (pg_widgets example_page1) = Some example_upload \<and> w_mfile (pg_widgets example_page1) = None \<and>
    page_reach example_page_lib example_files example_page1"
proof -
  define p0 where "p0 = page_start example_page_lib example_tm example_files"
  have pol: "load_policies example_page_lib (pg_files p0) policies_path = Inr []"
    using example_start by (simp add: p0_def)
  have w: "w_tfile (apply_event (UploadTranscript example_upload) (pg_widgets p0)) = Some example_upload"
    "w_mfile (apply_event (UploadTranscript example_upload) (pg_widgets p0)) = None"
    by (simp_all add: p0_def page_start_def initial_widgets_def Let_def split: prod.split)
  have run: "run_session (p_dash example_page_lib) [] (up_name example_upload) (up_data example_upload) NoMenti True example_tm =
      Inr (sig, timeline)"
    using assms by (simp add: example_page_lib_def example_upload_def)
  obtain shown where r: "page_run example_page_lib example_tm (UploadTranscript example_upload = ClickSave \<and> is_report (pg_screen p0))
      (apply_event (UploadTranscript example_upload) (pg_widgets p0)) (pg_files p0) =
      (pg_files example_page1, pg_screen example_page1, shown)"
    unfolding example_page1_def p0_def by (rule page_handle_cases)
  have "pg_screen example_page1 = Report sig timeline None"
    using page_run_success [OF pol w run, of False] r by simp
  moreover have "load_policies example_page_lib (pg_files example_page1) policies_path = Inr []"
    using pol by (simp add: example_page1_def p0_def page_handle_policies)
  moreover have "w_tfile (pg_widgets example_page1) = Some example_upload \<and> w_mfile (pg_widgets example_page1) = None"
    using w by (simp add: example_page1_def p0_def page_handle_def Let_def split: prod.split)
  moreover have "page_reach example_page_lib example_files example_page1"
    unfolding example_page1_def by (intro page_reach.step page_reach.start)
  ultimately show ?thesis by blast
qed

subsection \<open>Properties\<close>

text \<open>
  C25. What the page writes: over any sequence of interactions, every file other than the
  temporary transcript paths, the temporary Mentimeter path and the signature path keeps
  its initial content (in particular \<open>policies.json\<close>), and the signature file either
  keeps its initial content or holds \<open>json.dumps\<close> of a signature that a successful
  session run produced.
\<close>

theorem page_files_safe:
  assumes "page_reach lib fs0 p"
  shows "(\<forall>q. q \<noteq> menti_path \<longrightarrow> q \<noteq> sig_path \<longrightarrow> (\<forall>n. q \<noteq> tmp_path n) \<longrightarrow> pg_files p q = fs0 q) \<and>
         (pg_files p sig_path = fs0 sig_path \<or>
          (\<exists>P name data menti blend now sig timeline.
             run_session (p_dash lib) P name data menti blend now = Inr (sig, timeline) \<and>
             pg_files p sig_path = Some (utf8_encode (json_dumps lib sig))))"
  using assms
proof induction
  case (start now)
  obtain shown where r: "page_run lib now False initial_widgets fs0 =
      (pg_files (page_start lib now fs0), pg_screen (page_start lib now fs0), shown)"
    by (rule page_start_cases)
  show ?case using page_run_frame [OF r] page_run_sig [OF r] by blast
next
  case (step p now ev)
  obtain shown where r: "page_run lib now (ev = ClickSave \<and> is_report (pg_screen p)) (apply_event ev (pg_widgets p)) (pg_files p) =
      (pg_files (page_handle lib now ev p), pg_screen (page_handle lib now ev p), shown)"
    by (rule page_handle_cases)
  show ?case using page_run_frame [OF r] page_run_sig [OF r] step.IH by (metis (no_types, lifting))
qed

theorem page_files_safe_witness:
  "\<exists>sig timeline. run_session example_lib [] (ascii ''notes.txt'') (ascii ''Hello there'') NoMenti True example_tm =
     Inr (sig, timeline) \<and>
   pg_files (page_handle example_page_lib example_tm ClickSave example_page1) policies_path = Some (ascii ''{}'') \<and>
   pg_files (page_handle example_page_lib example_tm ClickSave example_page1) sig_path = Some (ascii ''{}'')"
proof -
  obtain sig timeline where run:
    "run_session example_lib [] (ascii ''notes.txt'') (ascii ''Hello there'') NoMenti True example_tm = Inr (sig, timeline)"
    using example_session by blast
  note p1 = example_page1_run [OF run]
  have wt: "w_tfile (apply_event ClickSave (pg_widgets example_page1)) = Some example_upload"
    "w_mfile (apply_event ClickSave (pg_widgets example_page1)) = None"
    using p1 by simp_all
  define p2 where "p2 = page_handle example_page_lib example_tm ClickSave example_page1"
  have reach: "page_reach example_page_lib example_files p2"
    unfolding p2_def using p1 by (blast intro: page_reach.step)
  have run': "run_session (p_dash example_page_lib) [] (up_name example_upload) (up_data example_upload) NoMenti True example_tm =
      Inr (sig, timeline)"
    using run by (simp add: example_page_lib_def example_upload_def)
  have "pg_files p2 sig_path = Some (ascii ''{}'')"
    using page_run_success [OF conjunct1 [OF conjunct2 [OF p1]] wt run', of True] p1
    by (simp add: p2_def page_handle_def Let_def is_report_def example_page_lib_def utf8_encode_ascii)
  moreover have "pg_files p2 policies_path = Some (ascii ''{}'')"
    using conjunct1 [OF page_files_safe [OF reach]]
    by (simp add: example_files_def)
  ultimately show ?thesis using run by (auto simp: p2_def)
qed

text \<open>
  C26. The download button appears only in the run caused by a click on "Save JSON
  signature" on a shown report, and in that run the signature file holds the JSON of the
  very signature offered for download; the download's bytes are
  \<open>pd.Series(sig).to_json()\<close>, not the saved text whose SHA-256 is reported.
\<close>

theorem page_download_saved:
  assumes "pg_screen (page_handle lib now ev p) = Report sig timeline (Some d)"
  shows "ev = ClickSave \<and> is_report (pg_screen p) \<and>
         pg_files (page_handle lib now ev p) sig_path = Some (utf8_encode (json_dumps lib sig)) \<and> d = series_json lib sig"
proof -
  obtain shown where "page_run lib now (ev = ClickSave \<and> is_report (pg_screen p)) (apply_event ev (pg_widgets p)) (pg_files p) =
      (pg_files (page_handle lib now ev p), pg_screen (page_handle lib now ev p), shown)"
    by (rule page_handle_cases)
  then have r: "page_run lib now (ev = ClickSave \<and> is_report (pg_screen p)) (apply_event ev (pg_widgets p)) (pg_files p) =
      (pg_files (page_handle lib now ev p), Report sig timeline (Some d), shown)"
    using assms by simp
  from page_run_Report [OF r] show ?thesis by (auto split: if_splits)
qed

theorem page_download_saved_witness:
  "\<exists>sig timeline. run_session example_lib [] (ascii ''notes.txt'') (ascii ''Hello there'') NoMenti True example_tm =
     Inr (sig, timeline) \<and>
   pg_screen (page_handle example_page_lib example_tm ClickSave example_page1) = Report sig timeline (Some (ascii ''{}'')) \<and>
   is_report (pg_screen example_page1) \<and>
   pg_files (page_handle example_page_lib example_tm ClickSave example_page1) sig_path = Some (ascii ''{}'')"
proof -
  obtain sig timeline where run:
    "run_session example_lib [] (ascii ''notes.txt'') (ascii ''Hello there'') NoMenti True example_tm = Inr (sig, timeline)"
    using example_session by blast
  note p1 = example_page1_run [OF run]
  have wt: "w_tfile (apply_event ClickSave (pg_widgets example_page1)) = Some example_upload"
    "w_mfile (apply_event ClickSave (pg_widgets example_page1)) = None"
    using p1 by simp_all
  have run': "run_session (p_dash example_page_lib) [] (up_name example_upload) (up_data example_upload) NoMenti True example_tm =
      Inr (sig, timeline)"
    using run by (simp add: example_page_lib_def example_upload_def)
  have scr: "pg_screen (page_handle example_page_lib example_tm ClickSave example_page1) = Report sig timeline (Some (ascii ''{}''))"
    using page_run_success [OF conjunct1 [OF conjunct2 [OF p1]] wt run', of True] p1
    by (simp add: page_handle_def Let_def is_report_def example_page_lib_def)
  from page_download_saved [OF scr] run scr show ?thesis by (auto simp: example_page_lib_def utf8_encode_ascii)
qed

text \<open>
  C27. From every reachable page, a transcript whose session succeeds (with the policies
  on disk and no Mentimeter export) can always be saved: uploading it, removing the
  Mentimeter upload and clicking "Save JSON signature" reaches a page that offers the
  download and has written the signature, whatever the blend checkbox was.
\<close>

theorem page_save_reachable:
  fixes t :: upload
  assumes "page_reach lib fs0 p" "load_policies lib (pg_files p) policies_path = Inr P"
    "run_session (p_dash lib) P (up_name t) (up_data t) NoMenti True now = Inr (sig, timeline)"
  shows "\<exists>p'. page_reach lib fs0 p' \<and> pg_screen p' = Report sig timeline (Some (series_json lib sig)) \<and>
              pg_files p' sig_path = Some (utf8_encode (json_dumps lib sig))"
proof -
  define p1 where "p1 = page_handle lib now (UploadTranscript t) p"
  define p2 where "p2 = page_handle lib now ClearMenti p1"
  define p3 where "p3 = page_handle lib now ClickSave p2"
  have reach: "page_reach lib fs0 p3"
    unfolding p1_def p2_def p3_def by (intro page_reach.step assms(1))
  have w2: "w_tfile (pg_widgets p2) = Some t" "w_mfile (pg_widgets p2) = None"
    by (auto simp: p2_def p1_def page_handle_def Let_def split: prod.splits)
  have P2: "load_policies lib (pg_files p2) policies_path = Inr P"
    using assms(2) by (simp add: p2_def p1_def page_handle_policies)
  obtain shown where r2: "page_run lib now (ClearMenti = ClickSave \<and> is_report (pg_screen p1))
      (apply_event ClearMenti (pg_widgets p1)) (pg_files p1) = (pg_files p2, pg_screen p2, shown)"
    unfolding p2_def by (rule page_handle_cases)
  have P1: "load_policies lib (pg_files p1) policies_path = Inr P"
    using assms(2) by (simp add: p1_def page_handle_policies)
  have "w_tfile (apply_event ClearMenti (pg_widgets p1)) = Some t" "w_mfile (apply_event ClearMenti (pg_widgets p1)) = None"
    by (auto simp: p1_def page_handle_def Let_def split: prod.splits)
  from page_run_success [OF P1 this assms(3), of "ClearMenti = ClickSave \<and> is_report (pg_screen p1)"] r2
  have "pg_screen p2 = Report sig timeline None" by simp
  then have "pg_screen p3 = Report sig timeline (Some (series_json lib sig)) \<and>
             pg_files p3 sig_path = Some (utf8_encode (json_dumps lib sig))"
    using page_run_success [OF P2 w2 assms(3), of True]
    by (simp add: p3_def page_handle_def Let_def is_report_def)
  with reach show ?thesis by blast
qed

theorem page_save_reachable_witness:
  "\<exists>sig timeline p'. run_session example_lib [] (ascii ''notes.txt'') (ascii ''Hello there'') NoMenti True example_tm =
     Inr (sig, timeline) \<and> page_reach example_page_lib example_files p' \<and>
     pg_screen p' = Report sig timeline (Some (ascii ''{}'')) \<and> pg_files p' sig_path = Some (ascii ''{}'')"
proof -
  obtain sig timeline where run:
    "run_session example_lib [] (ascii ''notes.txt'') (ascii ''Hello there'') NoMenti True example_tm = Inr (sig, timeline)"
    using example_session by blast
  have run': "run_session (p_dash example_page_lib) [] (up_name example_upload) (up_data example_upload) NoMenti True example_tm =
      Inr (sig, timeline)"
    using run by (simp add: example_page_lib_def example_upload_def)
  have "load_policies example_page_lib (pg_files (page_start example_page_lib example_tm example_files)) policies_path = Inr []"
    using example_start by simp
  from page_save_reachable [OF page_reach.start this run'] run show ?thesis
    by (auto simp: example_page_lib_def utf8_encode_ascii)
qed

end
